theory Spec2Isabelle
  imports Complex_Main "HOL-Library.Multiset"
begin

section \<open>JavaScript numbers\<close>

text \<open>
  The handlers compute with JavaScript numbers that come from query strings, so a value
  can be \<open>NaN\<close> or infinite. The model keeps finite values exact (rationals): the
  rounding of IEEE doubles and the sign of zero are not represented.
\<close>

datatype jsnum = NaN | NegInf | Fin rat | PosInf

fun js_le :: "jsnum \<Rightarrow> jsnum \<Rightarrow> bool" where
  "js_le NaN _ = False"
| "js_le _ NaN = False"
| "js_le NegInf _ = True"
| "js_le _ PosInf = True"
| "js_le (Fin a) (Fin b) = (a \<le> b)"
| "js_le PosInf _ = False"
| "js_le _ NegInf = False"

definition Math_min :: "jsnum \<Rightarrow> jsnum \<Rightarrow> jsnum" where
  "Math_min a b = (if a = NaN \<or> b = NaN then NaN else if js_le a b then a else b)"

definition Math_max :: "jsnum \<Rightarrow> jsnum \<Rightarrow> jsnum" where
  "Math_max a b = (if a = NaN \<or> b = NaN then NaN else if js_le a b then b else a)"

fun js_neg :: "jsnum \<Rightarrow> jsnum" where
  "js_neg NaN = NaN"
| "js_neg NegInf = PosInf"
| "js_neg (Fin a) = Fin (- a)"
| "js_neg PosInf = NegInf"

fun js_add :: "jsnum \<Rightarrow> jsnum \<Rightarrow> jsnum" where
  "js_add NaN _ = NaN"
| "js_add _ NaN = NaN"
| "js_add (Fin a) (Fin b) = Fin (a + b)"
| "js_add PosInf NegInf = NaN"
| "js_add NegInf PosInf = NaN"
| "js_add PosInf _ = PosInf"
| "js_add NegInf _ = NegInf"
| "js_add _ PosInf = PosInf"
| "js_add _ NegInf = NegInf"

definition js_sub :: "jsnum \<Rightarrow> jsnum \<Rightarrow> jsnum" where
  "js_sub a b = js_add a (js_neg b)"

text \<open>The sign of a number that is not \<open>NaN\<close>: \<open>-1\<close>, \<open>0\<close> or \<open>1\<close>.\<close>

fun js_sgn :: "jsnum \<Rightarrow> int" where
  "js_sgn NaN = 0"
| "js_sgn NegInf = - 1"
| "js_sgn (Fin a) = (if a < 0 then - 1 else if a = 0 then 0 else 1)"
| "js_sgn PosInf = 1"

definition js_inf :: "int \<Rightarrow> jsnum" where
  "js_inf s = (if s < 0 then NegInf else if s = 0 then NaN else PosInf)"

fun js_mul :: "jsnum \<Rightarrow> jsnum \<Rightarrow> jsnum" where
  "js_mul NaN _ = NaN"
| "js_mul _ NaN = NaN"
| "js_mul (Fin a) (Fin b) = Fin (a * b)"
| "js_mul a b = js_inf (js_sgn a * js_sgn b)"

fun js_div :: "jsnum \<Rightarrow> jsnum \<Rightarrow> jsnum" where
  "js_div NaN _ = NaN"
| "js_div _ NaN = NaN"
| "js_div (Fin a) (Fin b) = (if b = 0 then js_inf (js_sgn (Fin a)) else Fin (a / b))"
| "js_div (Fin a) _ = Fin 0"
| "js_div a (Fin b) = js_inf (js_sgn a * (if b < 0 then - 1 else 1))"
| "js_div _ _ = NaN"

fun Math_ceil :: "jsnum \<Rightarrow> jsnum" where
  "Math_ceil (Fin a) = Fin (of_int \<lceil>a\<rceil>)"
| "Math_ceil a = a"

section \<open>Seat maps\<close>

fun decimal :: "nat \<Rightarrow> string" where
  "decimal n =
     (if n < 10 then [char_of (48 + n)] else decimal (n div 10) @ [char_of (48 + n mod 10)])"

declare decimal.simps [simp del]

definition seatRows :: "string list" where
  "seatRows = [''A'', ''B'', ''C'', ''D'']"

definition seatCols :: "nat list" where
  "seatCols = [1, 2, 3, 4, 5, 6]"

definition allSeats :: "string list" where
  "allSeats = concat (map (\<lambda>row. map (\<lambda>col. row @ decimal col) seatCols) seatRows)"

text \<open>
  \<open>generateBlockedSeats\<close> draws two random things: the number \<open>Math.random()\<close>
  behind \<open>total\<close>, and the order in which \<open>sort\<close> with a random comparator leaves
  the copy of \<open>allSeats\<close>. Both are arguments of the model: \<open>r\<close> is the random number
  and \<open>shuffled\<close> the array after the sort. The same function stands, with the same text,
  in the seed script and in the admin \<open>createMovie\<close> handler.
\<close>

definition generateBlockedSeats :: "rat \<Rightarrow> string list \<Rightarrow> string list" where
  "generateBlockedSeats r shuffled = (let total = nat \<lfloor>r * 10\<rfloor> in take total shuffled)"


section \<open>The TMDB client of the seed script\<close>

text \<open>
  An HTTP request either resolves (axios resolves on a 2xx status) with the status and the
  response data, or rejects; a rejection that carries a response has its status
  (\<open>err.response?.status\<close>), a network error has none.
\<close>

datatype 'd outcome = Resolved nat 'd | Rejected "nat option"

record http_req =
  url :: string
  params :: "(string \<times> string) list"

text \<open>
  The network is an oracle: \<open>replies q k\<close> is what the \<open>k\<close>-th request of the run gets
  when it asks for \<open>q\<close>. The state records the requests sent and the delays waited, in
  order.
\<close>

record 'd net =
  replies :: "http_req \<Rightarrow> nat \<Rightarrow> 'd outcome"
  sent :: "http_req list"
  slept :: "int list"

definition axios_get :: "http_req \<Rightarrow> 'd net \<Rightarrow> 'd outcome \<times> 'd net" where
  "axios_get q n = (replies n q (length (sent n)), n\<lparr>sent := sent n @ [q]\<rparr>)"

definition setTimeout :: "int \<Rightarrow> 'd net \<Rightarrow> 'd net" where
  "setTimeout ms n = n\<lparr>slept := slept n @ [ms]\<rparr>"

text \<open>What a JavaScript function hands back: a value, \<open>null\<close>, or \<open>undefined\<close>.\<close>

datatype 'd jsres = Data 'd | Null | Undefined

text \<open>
  \<open>fetchWithRetry(url, retries, delay)\<close>: the \<open>for\<close> loop from index \<open>i\<close>. \<open>retries\<close> is a
  count of attempts (the script only uses the default 5) and \<open>delay\<close> is in milliseconds.
  Leaving the loop without a \<open>return\<close> gives \<open>undefined\<close>.
\<close>

function fetchWithRetry_from ::
  "nat \<Rightarrow> http_req \<Rightarrow> nat \<Rightarrow> int \<Rightarrow> 'd net \<Rightarrow> 'd jsres \<times> 'd net" where
  "fetchWithRetry_from i q retries delay n =
     (if i < retries then
        (case axios_get q n of
           (Resolved st d, n1) \<Rightarrow> (Data d, n1)
         | (Rejected st, n1) \<Rightarrow>
             if st = Some 404 then (Null, n1)
             else if i = retries - 1 then (Null, n1)
             else fetchWithRetry_from (i + 1) q retries delay
                    (setTimeout (delay * (int i + 1)) n1))
      else (Undefined, n))"
  by pat_completeness auto
termination
  by (relation "measure (\<lambda>(i, q, retries, delay, n). retries - i)") auto

definition fetchWithRetry :: "http_req \<Rightarrow> nat \<Rightarrow> int \<Rightarrow> 'd net \<Rightarrow> 'd jsres \<times> 'd net" where
  "fetchWithRetry q retries delay n = fetchWithRetry_from 0 q retries delay n"

text \<open>The failed attempts that lead to another attempt: a rejection other than a 404.\<close>

fun retryable :: "'d outcome \<Rightarrow> bool" where
  "retryable (Rejected st) = (st \<noteq> Some 404)"
| "retryable (Resolved st d) = False"

text \<open>The delays waited after the failed attempts \<open>i, ..., j - 1\<close>.\<close>

definition backoff :: "int \<Rightarrow> nat \<Rightarrow> nat \<Rightarrow> int list" where
  "backoff delay i j = map (\<lambda>t. delay * (int t + 1)) [i..<j]"

declare fetchWithRetry_from.simps [simp del]

text \<open>What the attempt that ends the loop returns: the data, or \<open>null\<close> after a rejection.\<close>

definition settled :: "'d outcome \<Rightarrow> 'd jsres" where
  "settled x = (case x of Resolved st d \<Rightarrow> Data d | Rejected st \<Rightarrow> Null)"

section \<open>Strings and dates of the runtime\<close>

text \<open>
  Strings are byte strings. \<open>trim\<close> removes the ASCII white space and line terminators
  (JavaScript also removes the Unicode ones, which take several bytes here).
\<close>

definition isSpace :: "char \<Rightarrow> bool" where
  "isSpace c = (c \<in> set [CHR '' '', CHR 0x09, CHR 0x0A, CHR 0x0B, CHR 0x0C, CHR 0x0D])"

definition trim :: "string \<Rightarrow> string" where
  "trim s = rev (dropWhile isSpace (rev (dropWhile isSpace s)))"

text \<open>\<open>s.split(c)[0]\<close>: the part of \<open>s\<close> before the first \<open>c\<close>.\<close>

definition split_first :: "char \<Rightarrow> string \<Rightarrow> string" where
  "split_first c s = takeWhile (\<lambda>x. x \<noteq> c) s"

text \<open>\<open>n\<close> written with at least \<open>w\<close> decimal digits.\<close>

definition pad :: "nat \<Rightarrow> nat \<Rightarrow> string" where
  "pad w n = replicate (w - length (decimal n)) (CHR ''0'') @ decimal n"

text \<open>
  The calendar date (year, month, day) of the day \<open>z\<close> days after 1970-01-01, in the
  proleptic Gregorian calendar that \<open>Date\<close> uses.
\<close>

definition civil_from_days :: "int \<Rightarrow> int \<times> nat \<times> nat" where
  "civil_from_days z0 =
     (let z = z0 + 719468;
          era = z div 146097;
          doe = z - era * 146097;
          yoe = (doe - doe div 1460 + doe div 36524 - doe div 146096) div 365;
          doy = doe - (365 * yoe + yoe div 4 - yoe div 100);
          mp = (5 * doy + 2) div 153;
          d = doy - (153 * mp + 2) div 5 + 1;
          m = (if mp < 10 then mp + 3 else mp - 9);
          y = yoe + era * 400 + (if m \<le> 2 then 1 else 0)
      in (y, nat m, nat d))"

definition msPerDay :: int where
  "msPerDay = 86400000"

text \<open>
  \<open>isoDate t\<close> is \<open>new Date(t).toISOString().split('T')[0]\<close> and \<open>toISOString t\<close> the whole
  string, for a time value \<open>t\<close> in milliseconds since the epoch.
\<close>

definition isoDate :: "int \<Rightarrow> string" where
  "isoDate t =
     (case civil_from_days (t div msPerDay) of (y, m, d) \<Rightarrow>
        (if 0 \<le> y \<and> y \<le> 9999 then pad 4 (nat y)
         else (if y < 0 then ''-'' else ''+'') @ pad 6 (nat \<bar>y\<bar>))
        @ ''-'' @ pad 2 m @ ''-'' @ pad 2 d)"

definition toISOString :: "int \<Rightarrow> string" where
  "toISOString t =
     (let ms = nat (t mod msPerDay)
      in isoDate t @ ''T'' @ pad 2 (ms div 3600000) @ '':'' @ pad 2 (ms div 60000 mod 60)
         @ '':'' @ pad 2 (ms div 1000 mod 60) @ ''.'' @ pad 3 (ms mod 1000) @ ''Z'')"

text \<open>
  A value stored where the code puts a date: a \<open>Date\<close> made from a time value, a \<open>Date\<close>
  made from a date-time string (which the runtime parses, in its local time zone), after
  \<open>getMovieById\<close> has rewritten it an ISO string, or an invalid \<open>Date\<close>.
\<close>

datatype jsdate = Ms int | Parsed string | IsoText string | InvalidDate

section \<open>Exceptions and state\<close>

text \<open>
  A computation runs on a state and either returns a value or throws; the state it
  leaves is returned in both cases. An exception is known by its message.
\<close>

datatype exn = Exn string

type_synonym ('s, 'a) io = "'s \<Rightarrow> (exn + 'a) \<times> 's"

definition io_return :: "'a \<Rightarrow> ('s, 'a) io" where
  "io_return x s = (Inr x, s)"

definition io_throw :: "exn \<Rightarrow> ('s, 'a) io" where
  "io_throw e s = (Inl e, s)"

definition io_bind :: "('s, 'a) io \<Rightarrow> ('a \<Rightarrow> ('s, 'b) io) \<Rightarrow> ('s, 'b) io" where
  "io_bind m f s = (case m s of (Inl e, s') \<Rightarrow> (Inl e, s') | (Inr x, s') \<Rightarrow> f x s')"

text \<open>\<open>try { m } catch (err) { h err }\<close>\<close>

definition try_catch :: "('s, 'a) io \<Rightarrow> (exn \<Rightarrow> ('s, 'a) io) \<Rightarrow> ('s, 'a) io" where
  "try_catch m h s = (case m s of (Inl e, s') \<Rightarrow> h e s' | (Inr x, s') \<Rightarrow> (Inr x, s'))"

text \<open>
  What a handler sends: \<open>res.status(k).json(b)\<close>. The body is an error object
  \<open>{ error }\<close> or \<open>{ error, details }\<close>, or the handler's own payload.
\<close>

datatype 'a body = Error string | ErrorDetails string string | Json 'a

record 'a response =
  status :: nat
  body :: "'a body"

definition respond :: "nat \<Rightarrow> 'a body \<Rightarrow> ('s, 'a response) io" where
  "respond k b = io_return \<lparr>status = k, body = b\<rparr>"

section \<open>Documents\<close>

type_synonym oid = nat

record showtime =
  startTime :: jsdate
  screen :: string
  availableSeats :: nat
  blockedSeats :: "string list"
  st_movie :: "oid option"

text \<open>An entry of a movie's \<open>embeddedTheaters\<close>.\<close>

record etheater =
  e_name :: string
  e_location :: string
  e_showtimes :: "showtime list"

text \<open>
  The seed script stores theater ids in a movie's \<open>theaters\<close>; the admin \<open>createMovie\<close>
  passes it objects with a name, a location and showtimes.
\<close>

datatype theater_ref = Ref oid | Inline etheater

record movie =
  m_id :: oid
  m_title :: string
  m_description :: string
  m_genre :: string
  m_rating :: rat
  m_duration :: string
  m_posterUrl :: string
  m_trailerUrl :: string
  m_releaseDate :: int
  m_language :: string
  m_theaters :: "theater_ref list"
  m_embeddedTheaters :: "etheater list"

record theater =
  t_id :: oid
  t_name :: string
  t_location :: string
  t_showtimes :: "showtime list"
  t_movieTitles :: "string list"
  t_status :: string

record booking =
  b_id :: oid
  b_user :: oid
  b_movie :: oid

record user =
  u_id :: oid
  u_name :: string
  u_email :: string
  u_role :: string
  u_password :: string

section \<open>The runtime and the database\<close>

text \<open>
  What the code takes from JavaScript, mongoose and MongoDB without defining it is a
  parameter of the model: the conversions of strings to numbers and dates, the validity
  and the cast of an ObjectId string, the match of a case-insensitive regular
  expression, the Atlas Search stage, the clock, the offset of the server's time zone
  (local time is UTC plus \<open>tz\<close> milliseconds; daylight saving changes are not
  modelled), the random choices (\<open>random k\<close> is the \<open>k\<close>-th pair of choices that
  \<open>generateBlockedSeats\<close> makes, the number and the shuffled seats), and how a query
  reads \<open>skip(s).limit(l)\<close>: \<open>cursor_window s l\<close> is \<open>None\<close> when mongoose or the driver
  rejects the numbers, and otherwise how many documents are passed over and how many are
  returned at most.
\<close>

record env =
  js_Number :: "string \<Rightarrow> jsnum"
  js_parseFloat :: "string \<Rightarrow> jsnum"
  Date_parse :: "string \<Rightarrow> int option"
  isValid :: "string \<Rightarrow> bool"
  castObjectId :: "string \<Rightarrow> oid option"
  regex_i :: "string \<Rightarrow> string \<Rightarrow> bool"
  atlas_search :: "string \<Rightarrow> movie list \<Rightarrow> movie list"
  now :: int
  tz :: int
  random :: "nat \<Rightarrow> rat \<times> string list"
  cursor_window :: "jsnum \<Rightarrow> jsnum \<Rightarrow> (nat \<times> nat option) option"

text \<open>
  The collections, the next fresh ObjectId, the number of random choices made so far,
  and the faults to come: the head of \<open>faults\<close> says whether the next call to the
  database throws (a lost connection, a rejected document), and with what.
\<close>

record world =
  movies :: "movie list"
  theaters :: "theater list"
  bookings :: "booking list"
  users :: "user list"
  next_id :: oid
  draws :: nat
  faults :: "exn option list"

definition db :: "(world \<Rightarrow> (exn + 'a) \<times> world) \<Rightarrow> (world, 'a) io" where
  "db f w =
     (case faults w of
        [] \<Rightarrow> f w
      | None # fs \<Rightarrow> f (w\<lparr>faults := fs\<rparr>)
      | Some e # fs \<Rightarrow> (Inl e, w\<lparr>faults := fs\<rparr>))"

text \<open>A query condition of \<open>getMovies\<close>, as it is pushed on \<open>filters\<close>.\<close>

datatype filter =
    ReleaseGt int
  | ReleaseLte int
  | ReleaseGte int
  | LocationRegex string
  | GenreRegex string
  | RatingGte jsnum
  | LanguageRegex string

fun matches :: "env \<Rightarrow> filter \<Rightarrow> movie \<Rightarrow> bool" where
  "matches rt (ReleaseGt d) m = (d < m_releaseDate m)"
| "matches rt (ReleaseLte d) m = (m_releaseDate m \<le> d)"
| "matches rt (ReleaseGte d) m = (d \<le> m_releaseDate m)"
| "matches rt (LocationRegex p) m = list_ex (\<lambda>t. regex_i rt p (e_location t)) (m_embeddedTheaters m)"
| "matches rt (GenreRegex p) m = regex_i rt p (m_genre m)"
| "matches rt (RatingGte x) m = js_le x (Fin (m_rating m))"
| "matches rt (LanguageRegex p) m = regex_i rt p (m_language m)"

text \<open>\<open>{ $and: filters }\<close>, and \<open>{}\<close> when there is no filter: every filter holds.\<close>

definition matching :: "env \<Rightarrow> filter list \<Rightarrow> movie list \<Rightarrow> movie list" where
  "matching rt fs docs = filter (\<lambda>m. list_all (\<lambda>f. matches rt f m) fs) docs"

datatype sort_field = ByRating | ByReleaseDate

fun sort_value :: "sort_field \<Rightarrow> movie \<Rightarrow> rat" where
  "sort_value ByRating m = m_rating m"
| "sort_value ByReleaseDate m = of_int (m_releaseDate m)"

datatype stage =
    Search string
  | Match "filter list"
  | Sort "sort_field list"
  | Skip jsnum
  | Limit jsnum

definition isInteger :: "rat \<Rightarrow> bool" where
  "isInteger r = (of_int \<lfloor>r\<rfloor> = r)"

text \<open>
  The stages as MongoDB documents them: \<open>$skip\<close> takes a non-negative integer and
  \<open>$limit\<close> a positive one, and the aggregation fails on anything else; every sort key
  of the code is descending.
\<close>

fun run_stage :: "env \<Rightarrow> stage \<Rightarrow> movie list \<Rightarrow> exn + movie list" where
  "run_stage rt (Search q) docs = Inr (atlas_search rt q docs)"
| "run_stage rt (Match fs) docs = Inr (matching rt fs docs)"
| "run_stage rt (Sort ks) docs = Inr (foldr (\<lambda>k ds. sort_key (\<lambda>m. - sort_value k m) ds) ks docs)"
| "run_stage rt (Skip (Fin r)) docs =
     (if 0 \<le> r \<and> isInteger r then Inr (drop (nat \<lfloor>r\<rfloor>) docs)
      else Inl (Exn ''invalid argument to $skip''))"
| "run_stage rt (Skip _) docs = Inl (Exn ''invalid argument to $skip'')"
| "run_stage rt (Limit (Fin r)) docs =
     (if 0 < r \<and> isInteger r then Inr (take (nat \<lfloor>r\<rfloor>) docs)
      else Inl (Exn ''invalid argument to $limit''))"
| "run_stage rt (Limit _) docs = Inl (Exn ''invalid argument to $limit'')"

fun run_pipeline :: "env \<Rightarrow> stage list \<Rightarrow> movie list \<Rightarrow> exn + movie list" where
  "run_pipeline rt [] docs = Inr docs"
| "run_pipeline rt (s # ss) docs =
     (case run_stage rt s docs of Inl e \<Rightarrow> Inl e | Inr docs' \<Rightarrow> run_pipeline rt ss docs')"

definition Movie_aggregate :: "env \<Rightarrow> stage list \<Rightarrow> (world, movie list) io" where
  "Movie_aggregate rt pipeline = db (\<lambda>w. (run_pipeline rt pipeline (movies w), w))"

definition Movie_countDocuments :: "env \<Rightarrow> filter list \<Rightarrow> (world, nat) io" where
  "Movie_countDocuments rt fs = db (\<lambda>w. (Inr (length (matching rt fs (movies w))), w))"

section \<open>GET /api/movies\<close>

record movies_query =
  q_isUpcoming :: "string option"
  q_genre :: "string option"
  q_minRating :: "string option"
  q_language :: "string option"
  q_releasedAfter :: "string option"
  q_sortBy :: "string option"
  q_title :: "string option"
  q_page :: "string option"
  q_limit :: "string option"
  q_location :: "string option"

text \<open>\<open>today.setHours(0, 0, 0, 0)\<close>: the last local midnight at or before \<open>t\<close>.\<close>

definition startOfDay :: "int \<Rightarrow> int \<Rightarrow> int" where
  "startOfDay zone t = t - (t + zone) mod msPerDay"

text \<open>\<open>s?.trim()\<close> as a condition, and its value: a parameter that is present and not blank.\<close>

definition trimmed :: "string option \<Rightarrow> string option" where
  "trimmed p = (case p of None \<Rightarrow> None | Some s \<Rightarrow> if trim s = [] then None else Some (trim s))"

definition getMovies_filters :: "env \<Rightarrow> movies_query \<Rightarrow> filter list" where
  "getMovies_filters rt q =
     (let today = startOfDay (tz rt) (now rt) in
      (if q_isUpcoming q = Some ''true'' then [ReleaseGt today] else [])
      @ (if q_isUpcoming q = Some ''false'' then [ReleaseLte today] else [])
      @ (case q_releasedAfter q of
           None \<Rightarrow> []
         | Some s \<Rightarrow>
             (if s = [] then []
              else case Date_parse rt s of None \<Rightarrow> [] | Some d \<Rightarrow> [ReleaseGte d]))
      @ (case trimmed (q_location q) of None \<Rightarrow> [] | Some l \<Rightarrow> [LocationRegex l])
      @ (case trimmed (q_genre q) of None \<Rightarrow> [] | Some g \<Rightarrow> [GenreRegex g])
      @ (case q_minRating q of
           None \<Rightarrow> []
         | Some s \<Rightarrow>
             (if s = [] \<or> js_Number rt s = NaN then [] else [RatingGte (js_parseFloat rt s)]))
      @ (case trimmed (q_language q) of None \<Rightarrow> [] | Some l \<Rightarrow> [LanguageRegex l]))"

definition getMovies_sortOptions :: "movies_query \<Rightarrow> sort_field list" where
  "getMovies_sortOptions q =
     (if q_sortBy q = Some ''rating'' then [ByRating] else [])
     @ (if q_sortBy q = Some ''releaseDate'' then [ByReleaseDate] else [])"

text \<open>\<open>page = 1\<close> and \<open>limit = 20\<close> stand in for a parameter that is absent.\<close>

definition safeLimit :: "env \<Rightarrow> movies_query \<Rightarrow> jsnum" where
  "safeLimit rt q =
     Math_min (case q_limit q of None \<Rightarrow> Fin 20 | Some s \<Rightarrow> js_Number rt s) (Fin 100)"

definition safePage :: "env \<Rightarrow> movies_query \<Rightarrow> jsnum" where
  "safePage rt q =
     Math_max (case q_page q of None \<Rightarrow> Fin 1 | Some s \<Rightarrow> js_Number rt s) (Fin 1)"

definition getMovies_pipeline :: "env \<Rightarrow> movies_query \<Rightarrow> stage list" where
  "getMovies_pipeline rt q =
     (case trimmed (q_title q) of None \<Rightarrow> [] | Some t \<Rightarrow> [Search t])
     @ (if getMovies_filters rt q \<noteq> [] then [Match (getMovies_filters rt q)] else [])
     @ (if getMovies_sortOptions q \<noteq> [] then [Sort (getMovies_sortOptions q)] else [])
     @ [Skip (js_mul (js_sub (safePage rt q) (Fin 1)) (safeLimit rt q)),
        Limit (safeLimit rt q)]"

record movies_page =
  p_count :: nat
  p_total :: nat
  p_page :: jsnum
  p_totalPages :: jsnum
  p_movies :: "movie list"

definition getMovies_body :: "env \<Rightarrow> movies_query \<Rightarrow> (world, movies_page response) io" where
  "getMovies_body rt q =
     io_bind (Movie_aggregate rt (getMovies_pipeline rt q)) (\<lambda>ms.
     io_bind (if trimmed (q_title q) \<noteq> None then io_return (length ms)
              else Movie_countDocuments rt (getMovies_filters rt q)) (\<lambda>n.
     respond 200 (Json \<lparr>p_count = length ms, p_total = n, p_page = safePage rt q,
       p_totalPages = Math_ceil (js_div (Fin (of_nat n)) (safeLimit rt q)),
       p_movies = ms\<rparr>)))"

definition getMovies :: "env \<Rightarrow> movies_query \<Rightarrow> (world, movies_page response) io" where
  "getMovies rt q =
     try_catch (getMovies_body rt q)
       (\<lambda>err. respond 500 (Error ''Server error while fetching movies''))"

text \<open>
  The parameters as numbers, and the documents the stages before \<open>$skip\<close> let through,
  in their order: the search (when there is a title), the filters, the sort.
\<close>

definition pageParam :: "env \<Rightarrow> movies_query \<Rightarrow> jsnum" where
  "pageParam rt q = (case q_page q of None \<Rightarrow> Fin 1 | Some s \<Rightarrow> js_Number rt s)"

definition limitParam :: "env \<Rightarrow> movies_query \<Rightarrow> jsnum" where
  "limitParam rt q = (case q_limit q of None \<Rightarrow> Fin 20 | Some s \<Rightarrow> js_Number rt s)"

definition getMovies_selected :: "env \<Rightarrow> movies_query \<Rightarrow> movie list \<Rightarrow> movie list" where
  "getMovies_selected rt q docs =
     foldr (\<lambda>k ds. sort_key (\<lambda>m. - sort_value k m) ds) (getMovies_sortOptions q)
       (matching rt (getMovies_filters rt q)
          (case trimmed (q_title q) of None \<Rightarrow> docs | Some t \<Rightarrow> atlas_search rt t docs))"

section \<open>Movies by id\<close>

text \<open>
  \<open>Movie.findById(id)\<close>: mongoose casts the string to an ObjectId and throws a
  \<open>CastError\<close> when it cannot, before it asks the database.
\<close>

definition cast_id :: "env \<Rightarrow> string \<Rightarrow> (world, oid) io" where
  "cast_id rt s =
     (case castObjectId rt s of
        None \<Rightarrow> io_throw (Exn ''Cast to ObjectId failed'')
      | Some k \<Rightarrow> io_return k)"

definition Movie_findById :: "env \<Rightarrow> string \<Rightarrow> (world, movie option) io" where
  "Movie_findById rt s =
     io_bind (cast_id rt s) (\<lambda>k. db (\<lambda>w. (Inr (find (\<lambda>m. m_id m = k) (movies w)), w)))"

text \<open>The first element that satisfies \<open>P\<close>, replaced by its image.\<close>

fun update_first :: "('a \<Rightarrow> bool) \<Rightarrow> ('a \<Rightarrow> 'a) \<Rightarrow> 'a list \<Rightarrow> 'a list" where
  "update_first P f [] = []"
| "update_first P f (x # xs) = (if P x then f x # xs else x # update_first P f xs)"

text \<open>The first element that satisfies \<open>P\<close>, removed.\<close>

fun delete_first :: "('a \<Rightarrow> bool) \<Rightarrow> 'a list \<Rightarrow> 'a list" where
  "delete_first P [] = []"
| "delete_first P (x # xs) = (if P x then xs else x # delete_first P xs)"

text \<open>
  The body of an update request, as the fields it sets (\<open>{}\<close> and a missing body are the
  empty list).
\<close>

datatype movie_update =
    SetTitle string
  | SetDescription string
  | SetGenre string
  | SetRating rat
  | SetDuration string
  | SetPosterUrl string
  | SetTrailerUrl string
  | SetReleaseDate int
  | SetLanguage string
  | SetTheaters "theater_ref list"
  | SetEmbeddedTheaters "etheater list"

fun apply_update :: "movie_update \<Rightarrow> movie \<Rightarrow> movie" where
  "apply_update (SetTitle x) m = m\<lparr>m_title := x\<rparr>"
| "apply_update (SetDescription x) m = m\<lparr>m_description := x\<rparr>"
| "apply_update (SetGenre x) m = m\<lparr>m_genre := x\<rparr>"
| "apply_update (SetRating x) m = m\<lparr>m_rating := x\<rparr>"
| "apply_update (SetDuration x) m = m\<lparr>m_duration := x\<rparr>"
| "apply_update (SetPosterUrl x) m = m\<lparr>m_posterUrl := x\<rparr>"
| "apply_update (SetTrailerUrl x) m = m\<lparr>m_trailerUrl := x\<rparr>"
| "apply_update (SetReleaseDate x) m = m\<lparr>m_releaseDate := x\<rparr>"
| "apply_update (SetLanguage x) m = m\<lparr>m_language := x\<rparr>"
| "apply_update (SetTheaters x) m = m\<lparr>m_theaters := x\<rparr>"
| "apply_update (SetEmbeddedTheaters x) m = m\<lparr>m_embeddedTheaters := x\<rparr>"

definition apply_updates :: "movie_update list \<Rightarrow> movie \<Rightarrow> movie" where
  "apply_updates us m = fold apply_update us m"

text \<open>\<open>Movie.findByIdAndUpdate(id, updates, { new: true, ... })\<close> returns the updated document.\<close>

definition Movie_updateById :: "oid \<Rightarrow> movie_update list \<Rightarrow> (world, movie option) io" where
  "Movie_updateById k us =
     db (\<lambda>w.
       (Inr (map_option (apply_updates us) (find (\<lambda>m. m_id m = k) (movies w))),
        w\<lparr>movies := update_first (\<lambda>m. m_id m = k) (apply_updates us) (movies w)\<rparr>))"

definition Movie_findByIdAndUpdate ::
  "env \<Rightarrow> string \<Rightarrow> movie_update list \<Rightarrow> (world, movie option) io" where
  "Movie_findByIdAndUpdate rt s us = io_bind (cast_id rt s) (\<lambda>k. Movie_updateById k us)"

definition Movie_findByIdAndDelete :: "env \<Rightarrow> string \<Rightarrow> (world, movie option) io" where
  "Movie_findByIdAndDelete rt s =
     io_bind (cast_id rt s) (\<lambda>k. db (\<lambda>w.
       (Inr (find (\<lambda>m. m_id m = k) (movies w)),
        w\<lparr>movies := delete_first (\<lambda>m. m_id m = k) (movies w)\<rparr>)))"

text \<open>\<open>Movie.find(filter).sort({ releaseDate: -1 })\<close>\<close>

definition Movie_find_sorted :: "env \<Rightarrow> filter list \<Rightarrow> (world, movie list) io" where
  "Movie_find_sorted rt fs =
     db (\<lambda>w. (Inr (sort_key (\<lambda>m. - m_releaseDate m) (matching rt fs (movies w))), w))"

section \<open>The admin handlers for movies\<close>

text \<open>The check mark that starts the success messages, in UTF-8.\<close>

definition check_mark :: string where
  "check_mark = [CHR 0xE2, CHR 0x9C, CHR 0x85]"

record 'a with_message =
  message :: string
  payload :: 'a

definition updateMovie_body ::
  "env \<Rightarrow> string \<Rightarrow> movie_update list \<Rightarrow> (world, movie with_message response) io" where
  "updateMovie_body rt movieId updates =
     (if updates = [] then respond 400 (Error ''No update data provided'')
      else io_bind (Movie_findByIdAndUpdate rt movieId updates) (\<lambda>updated.
        case updated of
          None \<Rightarrow> respond 404 (Error ''Movie not found'')
        | Some m \<Rightarrow> respond 200 (Json \<lparr>message = check_mark @ '' Movie updated'', payload = m\<rparr>)))"

definition updateMovie ::
  "env \<Rightarrow> string \<Rightarrow> movie_update list \<Rightarrow> (world, movie with_message response) io" where
  "updateMovie rt movieId updates =
     try_catch (updateMovie_body rt movieId updates)
       (\<lambda>err. respond 500 (Error ''Server error while updating movie''))"

text \<open>\<open>!movieId\<close>: the parameter is missing or empty.\<close>

definition deleteMovie_body ::
  "env \<Rightarrow> string option \<Rightarrow> (world, movie with_message response) io" where
  "deleteMovie_body rt movieId =
     (case movieId of
        None \<Rightarrow> respond 400 (Error ''Missing movie ID'')
      | Some s \<Rightarrow>
          if s = [] then respond 400 (Error ''Missing movie ID'')
          else io_bind (Movie_findByIdAndDelete rt s) (\<lambda>deleted.
            case deleted of
              None \<Rightarrow> respond 404 (Error ''Movie not found'')
            | Some m \<Rightarrow> respond 200 (Json \<lparr>message = check_mark @ '' Movie deleted'', payload = m\<rparr>)))"

definition deleteMovie ::
  "env \<Rightarrow> string option \<Rightarrow> (world, movie with_message response) io" where
  "deleteMovie rt movieId =
     try_catch (deleteMovie_body rt movieId)
       (\<lambda>err. respond 500 (Error ''Server error while deleting movie''))"

definition admin_getMovieById_body :: "env \<Rightarrow> string \<Rightarrow> (world, movie response) io" where
  "admin_getMovieById_body rt ident =
     io_bind (Movie_findById rt ident) (\<lambda>found.
       case found of
         None \<Rightarrow> respond 404 (Error ''Movie not found'')
       | Some m \<Rightarrow> respond 200 (Json m))"

definition admin_getMovieById :: "env \<Rightarrow> string \<Rightarrow> (world, movie response) io" where
  "admin_getMovieById rt ident =
     try_catch (admin_getMovieById_body rt ident)
       (\<lambda>err. respond 500 (Error ''Server error while fetching movie''))"

record movie_list =
  l_count :: nat
  l_movies :: "movie list"

definition getAllMovies_filter :: "env \<Rightarrow> string option \<Rightarrow> filter list" where
  "getAllMovies_filter rt isUpcoming =
     (if isUpcoming = Some ''true'' then [ReleaseGt (now rt)]
      else if isUpcoming = Some ''false'' then [ReleaseLte (now rt)]
      else [])"

definition getAllMovies_body :: "env \<Rightarrow> string option \<Rightarrow> (world, movie_list response) io" where
  "getAllMovies_body rt isUpcoming =
     io_bind (Movie_find_sorted rt (getAllMovies_filter rt isUpcoming)) (\<lambda>ms.
       respond 200 (Json \<lparr>l_count = length ms, l_movies = ms\<rparr>))"

definition getAllMovies :: "env \<Rightarrow> string option \<Rightarrow> (world, movie_list response) io" where
  "getAllMovies rt isUpcoming =
     try_catch (getAllMovies_body rt isUpcoming)
       (\<lambda>err. respond 500 (Error ''Server error while fetching movies''))"

section \<open>Agreement of the two copies of the showtimes\<close>

text \<open>
  The spec's consistency of the denormalized data, made precise: every entry of a movie's
  \<open>embeddedTheaters\<close> names a theater document (by name and location) whose showtimes
  for that movie are the entry's showtimes, and every theater that holds showtimes for a
  movie has such an entry in the movie.
\<close>

definition showtimes_for :: "oid \<Rightarrow> theater \<Rightarrow> showtime list" where
  "showtimes_for k t = filter (\<lambda>s. st_movie s = Some k) (t_showtimes t)"

definition entry_of :: "movie \<Rightarrow> theater \<Rightarrow> etheater \<Rightarrow> bool" where
  "entry_of m t e =
     (e_name e = t_name t \<and> e_location e = t_location t
      \<and> e_showtimes e = showtimes_for (m_id m) t)"

definition copies_agree :: "world \<Rightarrow> bool" where
  "copies_agree w =
     list_all (\<lambda>m.
        list_all (\<lambda>e. list_ex (\<lambda>t. entry_of m t e) (theaters w)) (m_embeddedTheaters m)
        \<and> list_all (\<lambda>t.
             if showtimes_for (m_id m) t = [] then True
             else list_ex (entry_of m t) (m_embeddedTheaters m)) (theaters w))
       (movies w)"

section \<open>Searching TMDB with language fallback\<close>

record tmdb_result =
  r_id :: nat
  r_title :: string

text \<open>
  The data of a search response, as far as the code reads it: the \<open>results\<close> array, or
  \<open>None\<close> when the body has none.
\<close>

type_synonym search_data = "tmdb_result list option"

definition supportedLanguages :: "string list" where
  "supportedLanguages =
     [''en'', ''hi'', ''ta'', ''te'', ''ml'', ''mr'', ''kn'', ''bn'', ''gu'', ''pa'', ''ur'']"

definition supportedTmdbLanguages :: "string list" where
  "supportedTmdbLanguages =
     [''en-US'', ''hi-IN'', ''mr-IN'', ''ta-IN'', ''te-IN'', ''ml-IN'', ''kn-IN'', ''bn-IN'',
      ''gu-IN'', ''pa-IN'', ''ur-PK'']"

definition backendSupportedLanguages :: "string list" where
  "backendSupportedLanguages =
     [''en'', ''hi'', ''ta'', ''te'', ''ml'', ''kn'', ''bn'', ''mr'', ''gu'', ''pa'', ''ur'']"

text \<open>\<open>encodeURIComponent\<close> on the bytes of a UTF-8 string.\<close>

definition unreserved :: "char \<Rightarrow> bool" where
  "unreserved c =
     (c \<in> set (''ABCDEFGHIJKLMNOPQRSTUVWXYZabcdefghijklmnopqrstuvwxyz0123456789''
               @ [CHR ''-'', CHR ''_'', CHR ''.'', CHR ''!'', CHR ''~'', CHR ''*'', CHR 0x27,
                  CHR ''('', CHR '')'']))"

definition hexDigit :: "nat \<Rightarrow> char" where
  "hexDigit k = ''0123456789ABCDEF'' ! (k mod 16)"

definition encodeURIComponent :: "string \<Rightarrow> string" where
  "encodeURIComponent s =
     concat (map (\<lambda>c. if unreserved c then [c]
                        else [CHR ''%'', hexDigit (of_char c div 16), hexDigit (of_char c)]) s)"

subsection \<open>The seed script\<close>

definition search_request :: "string \<Rightarrow> string \<Rightarrow> string \<Rightarrow> http_req" where
  "search_request key title lang =
     \<lparr>url = ''https://api.themoviedb.org/3/search/movie?api_key='' @ key @ ''&query=''
            @ encodeURIComponent title @ ''&language='' @ lang,
      params = []\<rparr>"

text \<open>\<open>data?.results?.[0]\<close>\<close>

fun first_result :: "search_data jsres \<Rightarrow> tmdb_result option" where
  "first_result (Data (Some (r # rs))) = Some r"
| "first_result _ = None"

text \<open>
  \<open>searchMovieInLanguages(title)\<close>: the \<open>for\<close> loop over the languages that are left.
  \<open>fetchWithRetry(url)\<close> runs with its defaults, 5 attempts and a delay of 2000.
\<close>

fun searchMovieInLanguages_over ::
  "string list \<Rightarrow> string \<Rightarrow> string \<Rightarrow> search_data net
     \<Rightarrow> (tmdb_result \<times> string) option \<times> search_data net" where
  "searchMovieInLanguages_over [] key title n = (None, n)"
| "searchMovieInLanguages_over (lang # rest) key title n =
     (case fetchWithRetry (search_request key title lang) 5 2000 n of (data, n1) \<Rightarrow>
        (case first_result data of
           Some result \<Rightarrow>
             (let languageCode = split_first (CHR ''-'') lang in
              if languageCode \<in> set backendSupportedLanguages
              then (Some (result, languageCode), n1)
              else searchMovieInLanguages_over rest key title n1)
         | None \<Rightarrow> searchMovieInLanguages_over rest key title n1))"

definition searchMovieInLanguages ::
  "string \<Rightarrow> string \<Rightarrow> search_data net \<Rightarrow> (tmdb_result \<times> string) option \<times> search_data net" where
  "searchMovieInLanguages key title n =
     searchMovieInLanguages_over supportedTmdbLanguages key title n"

subsection \<open>The search handler\<close>

definition tmdb_search_request :: "string \<Rightarrow> string \<Rightarrow> string \<Rightarrow> http_req" where
  "tmdb_search_request apiKey query lang =
     \<lparr>url = ''https://api.themoviedb.org/3/search/movie'',
      params = [(''api_key'', apiKey), (''query'', query), (''language'', lang)]\<rparr>"

text \<open>
  The loop of \<open>searchTmdbMovie\<close>, which ends at the first language with results; it
  returns \<open>results\<close> and \<open>matchedLang\<close>. A request that rejects, and a body without
  \<open>results\<close>, are caught or skipped inside the loop. (The retries that \<open>axiosRetry\<close> adds
  to \<open>axios.get\<close> are inside the oracle's reply.)
\<close>

fun search_languages ::
  "string list \<Rightarrow> string \<Rightarrow> string \<Rightarrow> search_data net
     \<Rightarrow> (tmdb_result list \<times> string) \<times> search_data net" where
  "search_languages [] apiKey query n = (([], []), n)"
| "search_languages (lang # rest) apiKey query n =
     (case axios_get (tmdb_search_request apiKey query lang) n of
        (Resolved st d, n1) \<Rightarrow>
          (case d of
             Some rs \<Rightarrow>
               if st = 200 \<and> rs \<noteq> [] then ((rs, lang), n1)
               else search_languages rest apiKey query n1
           | None \<Rightarrow> search_languages rest apiKey query n1)
      | (Rejected st, n1) \<Rightarrow> search_languages rest apiKey query n1)"

text \<open>
  \<open>searchTmdbMovie\<close>, from the \<open>query\<close> parameter and the \<open>TMDB_API_KEY\<close> of the
  environment (either may be missing).
\<close>

definition searchTmdbMovie_body ::
  "string option \<Rightarrow> string option \<Rightarrow> (search_data net, tmdb_result list response) io" where
  "searchTmdbMovie_body rawQuery apiKey =
     (case map_option (\<lambda>s. trim (split_first (CHR '':'') s)) rawQuery of
        None \<Rightarrow> respond 400 (Error ''Missing query parameter'')
      | Some query \<Rightarrow>
          if query = [] then respond 400 (Error ''Missing query parameter'')
          else (case apiKey of
            None \<Rightarrow> respond 500 (Error ''TMDB API key not configured'')
          | Some k \<Rightarrow>
              if k = [] then respond 500 (Error ''TMDB API key not configured'')
              else (\<lambda>n. case search_languages supportedLanguages k query n of
                ((results, matchedLang), n1) \<Rightarrow>
                  if results = [] then respond 404 (Error ''Movie not found in TMDB'') n1
                  else respond 200 (Json results) n1)))"

definition searchTmdbMovie ::
  "string option \<Rightarrow> string option \<Rightarrow> (search_data net, tmdb_result list response) io" where
  "searchTmdbMovie rawQuery apiKey =
     try_catch (searchTmdbMovie_body rawQuery apiKey)
       (\<lambda>err. respond 500 (Error ''Failed to fetch from TMDB''))"

subsection \<open>The answers of the languages, in turn\<close>

text \<open>
  What each language of a list gets when the languages are asked one after the other:
  for the seed script the result of \<open>fetchWithRetry\<close>, for the handler the outcome of the
  request.
\<close>

fun seed_answers ::
  "string list \<Rightarrow> string \<Rightarrow> string \<Rightarrow> search_data net \<Rightarrow> (string \<times> search_data jsres) list" where
  "seed_answers [] key title n = []"
| "seed_answers (lang # rest) key title n =
     (case fetchWithRetry (search_request key title lang) 5 2000 n of (data, n1) \<Rightarrow>
        (lang, data) # seed_answers rest key title n1)"

fun handler_answers ::
  "string list \<Rightarrow> string \<Rightarrow> string \<Rightarrow> search_data net \<Rightarrow> (string \<times> search_data outcome) list" where
  "handler_answers [] apiKey query n = []"
| "handler_answers (lang # rest) apiKey query n =
     (case axios_get (tmdb_search_request apiKey query lang) n of (x, n1) \<Rightarrow>
        (lang, x) # handler_answers rest apiKey query n1)"

text \<open>A search that yields at least one result, and its results.\<close>

fun found :: "search_data outcome \<Rightarrow> tmdb_result list" where
  "found (Resolved st (Some rs)) = (if st = 200 then rs else [])"
| "found _ = []"

definition seed_hit :: "string \<times> search_data jsres \<Rightarrow> bool" where
  "seed_hit a = (first_result (snd a) \<noteq> None
     \<and> split_first (CHR ''-'') (fst a) \<in> set backendSupportedLanguages)"

text \<open>The state of the network after the seed script has asked the languages of a list.\<close>

fun seed_asked :: "string list \<Rightarrow> string \<Rightarrow> string \<Rightarrow> search_data net \<Rightarrow> search_data net" where
  "seed_asked [] key title n = n"
| "seed_asked (lang # rest) key title n =
     seed_asked rest key title (snd (fetchWithRetry (search_request key title lang) 5 2000 n))"

text \<open>The languages of a list up to the first one whose answer satisfies \<open>hit\<close>, with it.\<close>

definition upto_first :: "('a \<Rightarrow> bool) \<Rightarrow> 'a list \<Rightarrow> string list \<Rightarrow> string list" where
  "upto_first hit answers langs = take (Suc (length (takeWhile (\<lambda>a. \<not> hit a) answers))) langs"

section \<open>The seed script: linking movies and theaters\<close>

fun io_mapM :: "('a \<Rightarrow> ('s, 'b) io) \<Rightarrow> 'a list \<Rightarrow> ('s, 'b list) io" where
  "io_mapM f [] = io_return []"
| "io_mapM f (x # xs) =
     io_bind (f x) (\<lambda>y. io_bind (io_mapM f xs) (\<lambda>ys. io_return (y # ys)))"

text \<open>The letter e with an acute accent of the two \<open>Cinepolis\<close> names, in UTF-8.\<close>

definition e_acute :: string where
  "e_acute = [CHR 0xC3, CHR 0xA9]"

definition theaterList :: "(string \<times> string) list" where
  "theaterList =
     [(''PVR Phoenix Kurla'', ''Mumbai''),
      (''INOX R City'', ''Ghatkopar, Mumbai''),
      (''NY Cinemas Mulund'', ''Mulund, Mumbai''),
      (''R Mall Mulund'', ''Mulund, Mumbai''),
      (''Cin'' @ e_acute @ ''polis - Korum Mall'', ''Thane''),
      (''INOX - Viviana Mall'', ''Thane''),
      (''PVR - Lake City Mall'', ''Thane''),
      (''INOX - Raghuleela Mall'', ''Navi Mumbai''),
      (''Cin'' @ e_acute @ ''polis - Nexus Seawoods Mall'', ''Navi Mumbai''),
      (''Miraj Cinemas - Panvel'', ''Navi Mumbai''),
      (''PVR - Orion Mall'', ''Navi Mumbai'')]"

definition times :: "string list" where
  "times = [''10:00'', ''13:30'', ''17:00'', ''21:30'']"

text \<open>
  \<open>ensureTheater(name, location)\<close>: \<open>findOneAndUpdate({ name }, { $set: ... }, { upsert: true,
  new: true })\<close>. The first theater with the name gets the location, no showtimes, no
  movie titles and the status; when there is none, one is inserted. The document after
  the update is returned.
\<close>

definition ensureTheater :: "string \<Rightarrow> string \<Rightarrow> (world, theater) io" where
  "ensureTheater name location =
     db (\<lambda>w.
       case find (\<lambda>t. t_name t = name) (theaters w) of
         Some t \<Rightarrow>
           (Inr (t\<lparr>t_location := location, t_showtimes := [], t_movieTitles := [],
                   t_status := ''Active''\<rparr>),
            w\<lparr>theaters := update_first (\<lambda>t. t_name t = name)
                 (\<lambda>t. t\<lparr>t_location := location, t_showtimes := [], t_movieTitles := [],
                         t_status := ''Active''\<rparr>) (theaters w)\<rparr>)
       | None \<Rightarrow>
           (Inr \<lparr>t_id = next_id w, t_name = name, t_location = location, t_showtimes = [],
                  t_movieTitles = [], t_status = ''Active''\<rparr>,
            w\<lparr>theaters := theaters w
                   @ [\<lparr>t_id = next_id w, t_name = name, t_location = location, t_showtimes = [],
                       t_movieTitles = [], t_status = ''Active''\<rparr>],
               next_id := next_id w + 1\<rparr>))"

text \<open>\<open>$addToSet\<close>\<close>

definition addToSet :: "'a \<Rightarrow> 'a list \<Rightarrow> 'a list" where
  "addToSet x xs = (if x \<in> set xs then xs else xs @ [x])"

text \<open>
  \<open>Theater.updateOne({ _id }, { $push: { showtimes: { $each: showtimes } }, $addToSet: {
  movieTitles: title } })\<close>
\<close>

definition Theater_updateOne :: "oid \<Rightarrow> showtime list \<Rightarrow> string \<Rightarrow> (world, unit) io" where
  "Theater_updateOne k showtimes title =
     db (\<lambda>w.
       (Inr (),
        w\<lparr>theaters := update_first (\<lambda>t. t_id t = k)
             (\<lambda>t. t\<lparr>t_showtimes := t_showtimes t @ showtimes,
                     t_movieTitles := addToSet title (t_movieTitles t)\<rparr>) (theaters w)\<rparr>))"

text \<open>A call of \<open>generateBlockedSeats()\<close>: the next pair of random choices is used up.\<close>

definition draw_blockedSeats :: "env \<Rightarrow> (world, string list) io" where
  "draw_blockedSeats rt w =
     (Inr (generateBlockedSeats (fst (random rt (draws w))) (snd (random rt (draws w)))),
      w\<lparr>draws := draws w + 1\<rparr>)"

definition seed_showtimes :: "env \<Rightarrow> string \<Rightarrow> oid \<Rightarrow> (world, showtime list) io" where
  "seed_showtimes rt dateStr k =
     io_mapM (\<lambda>time. io_bind (draw_blockedSeats rt) (\<lambda>blocked.
        io_return \<lparr>startTime = Parsed (dateStr @ ''T'' @ time @ '':00''), screen = ''Screen 1'',
          availableSeats = 100, blockedSeats = blocked, st_movie = Some k\<rparr>)) times"

text \<open>
  The body of the inner loop, for one movie and one theater of the list; it returns what
  is pushed on \<open>updatedTheaters\<close> and on \<open>embedded\<close>.
\<close>

definition link_theater ::
  "env \<Rightarrow> string \<Rightarrow> movie \<Rightarrow> string \<times> string \<Rightarrow> (world, oid \<times> etheater) io" where
  "link_theater rt dateStr m entry =
     (case entry of (name, location) \<Rightarrow>
        io_bind (ensureTheater name location) (\<lambda>theater.
        io_bind (seed_showtimes rt dateStr (m_id m)) (\<lambda>showtimes.
        io_bind (Theater_updateOne (t_id theater) showtimes (m_title m)) (\<lambda>u.
        io_return (t_id theater,
          \<lparr>e_name = t_name theater, e_location = t_location theater,
            e_showtimes = showtimes\<rparr>)))))"

text \<open>The body of the outer loop, for one inserted movie.\<close>

definition link_movie :: "env \<Rightarrow> string \<Rightarrow> movie \<Rightarrow> (world, unit) io" where
  "link_movie rt dateStr m =
     io_bind (io_mapM (link_theater rt dateStr m) theaterList) (\<lambda>linked.
     io_bind (Movie_updateById (m_id m)
                [SetTheaters (map (\<lambda>l. Ref (fst l)) linked),
                 SetEmbeddedTheaters (map snd linked)]) (\<lambda>u.
     io_return ()))"

text \<open>
  The part of \<open>seedMovies\<close> after \<open>insertMany\<close>, for the movies it has inserted. An
  exception ends the run (the script catches it and logs it).
\<close>

definition seedMovies_link :: "env \<Rightarrow> movie list \<Rightarrow> (world, unit) io" where
  "seedMovies_link rt insertedMovies =
     (let dateStr = isoDate (now rt) in
      io_bind (io_mapM (link_movie rt dateStr) insertedMovies) (\<lambda>u. io_return ()))"

subsection \<open>The effect of the linking, step by step\<close>

text \<open>
  The four showtimes made for the movie \<open>k\<close> when \<open>d\<close> random choices have been used, and
  the theaters after the body of the inner loop has run for a theater name: the first
  theater of that name (a new one, with the id \<open>n\<close>, when there is none) holds these
  showtimes and this title, and nothing of what it held before.
\<close>

definition showtimes_from :: "env \<Rightarrow> string \<Rightarrow> oid \<Rightarrow> nat \<Rightarrow> showtime list" where
  "showtimes_from rt dateStr k d =
     map (\<lambda>i. \<lparr>startTime = Parsed (dateStr @ ''T'' @ times ! i @ '':00''), screen = ''Screen 1'',
        availableSeats = 100,
        blockedSeats = generateBlockedSeats (fst (random rt (d + i))) (snd (random rt (d + i))),
        st_movie = Some k\<rparr>) [0, 1, 2, 3]"

definition reset_theater :: "string \<Rightarrow> theater \<Rightarrow> theater" where
  "reset_theater location t =
     t\<lparr>t_location := location, t_showtimes := [], t_movieTitles := [], t_status := ''Active''\<rparr>"

definition push_showtimes :: "showtime list \<Rightarrow> string \<Rightarrow> theater \<Rightarrow> theater" where
  "push_showtimes showtimes title t =
     t\<lparr>t_showtimes := t_showtimes t @ showtimes,
       t_movieTitles := addToSet title (t_movieTitles t)\<rparr>"

definition set_theater ::
  "string \<Rightarrow> string \<Rightarrow> showtime list \<Rightarrow> string \<Rightarrow> oid \<Rightarrow> theater list \<Rightarrow> theater list" where
  "set_theater name location showtimes title n ths =
     (if list_ex (\<lambda>t. t_name t = name) ths
      then update_first (\<lambda>t. t_name t = name)
             (\<lambda>t. push_showtimes showtimes title (reset_theater location t)) ths
      else ths @ [push_showtimes showtimes title
                    \<lparr>t_id = n, t_name = name, t_location = location, t_showtimes = [],
                      t_movieTitles = [], t_status = ''Active''\<rparr>])"

text \<open>Ids in a collection are distinct, and below the next fresh id.\<close>

definition fresh_ids :: "theater list \<Rightarrow> oid \<Rightarrow> bool" where
  "fresh_ids ths n = (distinct (map t_id ths) \<and> list_all (\<lambda>t. t_id t < n) ths)"

text \<open>
  The entries that the inner loop pushes on \<open>embedded\<close> for the movie \<open>k\<close>, when it starts
  with \<open>d\<close> random choices used: one per theater of the list, each with its four
  showtimes.
\<close>

fun embedded_from ::
  "env \<Rightarrow> string \<Rightarrow> oid \<Rightarrow> (string \<times> string) list \<Rightarrow> nat \<Rightarrow> etheater list" where
  "embedded_from rt dateStr k [] d = []"
| "embedded_from rt dateStr k (entry # rest) d =
     \<lparr>e_name = fst entry, e_location = snd entry,
       e_showtimes = showtimes_from rt dateStr k d\<rparr>
     # embedded_from rt dateStr k rest (d + 4)"

text \<open>A theater document holds exactly the showtimes of an embedded entry, and one title.\<close>

definition holds_entry :: "theater list \<Rightarrow> string \<Rightarrow> etheater \<Rightarrow> bool" where
  "holds_entry ths title e =
     (case find (\<lambda>t. t_name t = e_name e) ths of
        None \<Rightarrow> False
      | Some t \<Rightarrow> t_location t = e_location e \<and> t_showtimes t = e_showtimes e
          \<and> t_movieTitles t = [title])"

text \<open>
  The \<open>embeddedTheaters\<close> that the outer loop stores for each movie of a list, when it
  starts with \<open>d\<close> random choices used (44 are used for each movie), and the fact that a
  collection of movies has a given list stored for the movie \<open>k\<close>.
\<close>

fun seeded_entries :: "env \<Rightarrow> string \<Rightarrow> movie list \<Rightarrow> nat \<Rightarrow> (oid \<times> etheater list) list" where
  "seeded_entries rt dateStr [] d = []"
| "seeded_entries rt dateStr (m # ms) d =
     (m_id m, embedded_from rt dateStr (m_id m) theaterList d)
     # seeded_entries rt dateStr ms (d + 44)"

definition embeds :: "movie list \<Rightarrow> oid \<times> etheater list \<Rightarrow> bool" where
  "embeds mvs ke =
     (case find (\<lambda>x. m_id x = fst ke) mvs of
        None \<Rightarrow> False
      | Some x \<Rightarrow> m_embeddedTheaters x = snd ke)"

section \<open>The public handlers for one movie, genres and creation\<close>

text \<open>\<open>new Date(v).getTime()\<close> for a stored date: \<open>None\<close> stands for \<open>NaN\<close>.\<close>

fun time_value :: "env \<Rightarrow> jsdate \<Rightarrow> int option" where
  "time_value rt (Ms t) = Some t"
| "time_value rt (Parsed s) = Date_parse rt s"
| "time_value rt (IsoText s) = Date_parse rt s"
| "time_value rt InvalidDate = None"

text \<open>
  \<open>{ ...s, startTime: new Date(s.startTime).toISOString() }\<close>; \<open>toISOString\<close> throws a
  \<open>RangeError\<close> on an invalid date.
\<close>

definition iso_showtime :: "env \<Rightarrow> showtime \<Rightarrow> exn + showtime" where
  "iso_showtime rt s =
     (case time_value rt (startTime s) of
        None \<Rightarrow> Inl (Exn ''Invalid time value'')
      | Some t \<Rightarrow> Inr (s\<lparr>startTime := IsoText (toISOString t)\<rparr>))"

fun traverse :: "('a \<Rightarrow> exn + 'b) \<Rightarrow> 'a list \<Rightarrow> exn + 'b list" where
  "traverse f [] = Inr []"
| "traverse f (x # xs) =
     (case f x of
        Inl e \<Rightarrow> Inl e
      | Inr y \<Rightarrow> (case traverse f xs of Inl e \<Rightarrow> Inl e | Inr ys \<Rightarrow> Inr (y # ys)))"

definition iso_theater :: "env \<Rightarrow> etheater \<Rightarrow> exn + etheater" where
  "iso_theater rt t =
     (case traverse (iso_showtime rt) (e_showtimes t) of
        Inl e \<Rightarrow> Inl e
      | Inr ss \<Rightarrow> Inr (t\<lparr>e_showtimes := ss\<rparr>))"

text \<open>
  The object sent for a movie: the document, whose embedded theaters have been rewritten
  in place, with \<open>releaseDate\<close> as an ISO string and \<open>theaters\<close> replaced by the embedded
  theaters.
\<close>

record movie_view =
  v_movie :: movie
  v_releaseDate :: string
  v_theaters :: "etheater list"

definition getMovieById_body :: "env \<Rightarrow> string \<Rightarrow> (world, movie_view response) io" where
  "getMovieById_body rt ident =
     io_bind (Movie_findById rt ident) (\<lambda>found.
       case found of
         None \<Rightarrow> respond 404 (Error ''Movie not found'')
       | Some m \<Rightarrow>
           (case traverse (iso_theater rt) (m_embeddedTheaters m) of
              Inl e \<Rightarrow> io_throw e
            | Inr embedded \<Rightarrow>
                respond 200 (Json \<lparr>v_movie = m\<lparr>m_embeddedTheaters := embedded\<rparr>,
                  v_releaseDate = toISOString (m_releaseDate m), v_theaters = embedded\<rparr>)))"

text \<open>The validity check stands before the \<open>try\<close>.\<close>

definition getMovieById :: "env \<Rightarrow> string \<Rightarrow> (world, movie_view response) io" where
  "getMovieById rt ident =
     (if \<not> isValid rt ident then respond 400 (Error ''Invalid movie ID'')
      else try_catch (getMovieById_body rt ident)
             (\<lambda>err. respond 500 (Error ''Server error while fetching movie'')))"

text \<open>\<open>Movie.distinct('genre')\<close>\<close>

definition Movie_distinct_genre :: "(world, string list) io" where
  "Movie_distinct_genre = db (\<lambda>w. (Inr (remdups (map m_genre (movies w))), w))"

definition getAllGenres_body :: "(world, string list response) io" where
  "getAllGenres_body =
     io_bind Movie_distinct_genre (\<lambda>gs. respond 200 (Json (filter (\<lambda>g. trim g \<noteq> []) gs)))"

definition getAllGenres :: "(world, string list response) io" where
  "getAllGenres =
     try_catch getAllGenres_body (\<lambda>err. respond 500 (Error ''Server error while fetching genres''))"

text \<open>
  \<open>new Movie(doc).save()\<close>: the document gets a fresh id and is appended to the
  collection. What the schema rejects is a fault of the call.
\<close>

definition Movie_save :: "movie \<Rightarrow> (world, movie) io" where
  "Movie_save doc =
     db (\<lambda>w. (Inr (doc\<lparr>m_id := next_id w\<rparr>),
              w\<lparr>movies := movies w @ [doc\<lparr>m_id := next_id w\<rparr>], next_id := next_id w + 1\<rparr>))"

definition createMovie_body :: "movie \<Rightarrow> (world, movie response) io" where
  "createMovie_body doc = io_bind (Movie_save doc) (\<lambda>savedMovie. respond 201 (Json savedMovie))"

text \<open>The public \<open>createMovie\<close> answers 400 to every exception, with the message as details.\<close>

definition createMovie :: "movie \<Rightarrow> (world, movie response) io" where
  "createMovie doc =
     try_catch (createMovie_body doc)
       (\<lambda>err. case err of Exn msg \<Rightarrow> respond 400 (ErrorDetails ''Failed to create movie'' msg))"

section \<open>The other admin handlers\<close>

text \<open>\<open>Movie.insertMany(docs, { ordered: false })\<close>: each document gets the next fresh id.\<close>

definition Movie_insertMany :: "movie list \<Rightarrow> (world, movie list) io" where
  "Movie_insertMany docs =
     db (\<lambda>w.
       (Inr (map (\<lambda>(i, doc). doc\<lparr>m_id := next_id w + i\<rparr>) (enumerate 0 docs)),
        w\<lparr>movies := movies w @ map (\<lambda>(i, doc). doc\<lparr>m_id := next_id w + i\<rparr>) (enumerate 0 docs),
          next_id := next_id w + length docs\<rparr>))"

text \<open>\<open>req.body.movies\<close> is \<open>None\<close> when it is not an array.\<close>

definition bulkCreateMovies_body ::
  "movie list option \<Rightarrow> (world, movie list with_message response) io" where
  "bulkCreateMovies_body docs =
     (case docs of
        None \<Rightarrow> respond 400 (Error ''No movies provided'')
      | Some ds \<Rightarrow>
          if ds = [] then respond 400 (Error ''No movies provided'')
          else io_bind (Movie_insertMany ds) (\<lambda>created.
            respond 201 (Json \<lparr>message = check_mark @ '' Bulk movies created'',
              payload = created\<rparr>)))"

definition bulkCreateMovies ::
  "movie list option \<Rightarrow> (world, movie list with_message response) io" where
  "bulkCreateMovies docs =
     try_catch (bulkCreateMovies_body docs)
       (\<lambda>err. respond 500 (Error ''Server error during bulk movie creation''))"

text \<open>
  \<open>req.user\<close>, which the authentication middleware sets; reading \<open>req.user.role\<close> throws a
  \<open>TypeError\<close> when it is not set.
\<close>

record auth_user =
  role :: string
  email :: string

definition user_role :: "auth_user option \<Rightarrow> ('s, string) io" where
  "user_role u =
     (case u of
        None \<Rightarrow> io_throw (Exn ''Cannot read properties of undefined (reading 'role')'')
      | Some a \<Rightarrow> io_return (role a))"

definition count_users :: "(world, nat) io" where
  "count_users = db (\<lambda>w. (Inr (length (users w)), w))"

definition count_bookings :: "(world, nat) io" where
  "count_bookings = db (\<lambda>w. (Inr (length (bookings w)), w))"

definition count_movies :: "(world, nat) io" where
  "count_movies = db (\<lambda>w. (Inr (length (movies w)), w))"

record admin_stats =
  s_users :: nat
  s_bookings :: nat
  s_movies :: nat

definition getAdminStats_body :: "auth_user option \<Rightarrow> (world, admin_stats response) io" where
  "getAdminStats_body u =
     io_bind (user_role u) (\<lambda>r.
       if r \<noteq> ''admin'' then respond 403 (Error ''Access denied. Admins only.'')
       else io_bind count_users (\<lambda>nu.
            io_bind count_bookings (\<lambda>nb.
            io_bind count_movies (\<lambda>nm.
            respond 200 (Json \<lparr>s_users = nu, s_bookings = nb, s_movies = nm\<rparr>)))))"

definition getAdminStats :: "auth_user option \<Rightarrow> (world, admin_stats response) io" where
  "getAdminStats u =
     try_catch (getAdminStats_body u) (\<lambda>err. respond 500 (Error ''Server error while fetching stats''))"

text \<open>\<open>pingAdmin\<close> has no \<open>try\<close>: what its body throws, it throws.\<close>

definition pingAdmin :: "auth_user option \<Rightarrow> (world, string response) io" where
  "pingAdmin u =
     io_bind (user_role u) (\<lambda>r.
       if r \<noteq> ''admin'' then respond 403 (Error ''Access denied'')
       else respond 200 (Json ''Admin access verified''))"

subsection \<open>Bookings and users\<close>

text \<open>\<open>if (userId) query.user = userId\<close>: a condition on an id, cast when the query runs.\<close>

definition cast_filter :: "env \<Rightarrow> string option \<Rightarrow> (world, oid option) io" where
  "cast_filter rt p =
     (case p of
        None \<Rightarrow> io_return None
      | Some s \<Rightarrow> if s = [] then io_return None
                 else io_bind (cast_id rt s) (\<lambda>k. io_return (Some k)))"

definition booking_matches :: "oid option \<Rightarrow> oid option \<Rightarrow> booking \<Rightarrow> bool" where
  "booking_matches u m b =
     ((case u of None \<Rightarrow> True | Some k \<Rightarrow> b_user b = k)
      \<and> (case m of None \<Rightarrow> True | Some k \<Rightarrow> b_movie b = k))"

text \<open>The documents of a query between \<open>skip\<close> and \<open>limit\<close>.\<close>

definition window :: "nat \<times> nat option \<Rightarrow> 'a list \<Rightarrow> 'a list" where
  "window kn xs = (case snd kn of None \<Rightarrow> drop (fst kn) xs | Some c \<Rightarrow> take c (drop (fst kn) xs))"

text \<open>A booking with \<open>user\<close> populated by name and email, and \<open>movie\<close> by the document.\<close>

record populated_booking =
  pb_id :: oid
  pb_user :: "(string \<times> string) option"
  pb_movie :: "movie option"

definition populate :: "world \<Rightarrow> booking \<Rightarrow> populated_booking" where
  "populate w b =
     \<lparr>pb_id = b_id b,
      pb_user = map_option (\<lambda>u. (u_name u, u_email u)) (find (\<lambda>u. u_id u = b_user b) (users w)),
      pb_movie = find (\<lambda>m. m_id m = b_movie b) (movies w)\<rparr>"

definition Booking_find ::
  "env \<Rightarrow> string option \<Rightarrow> string option \<Rightarrow> jsnum \<Rightarrow> jsnum
     \<Rightarrow> (world, populated_booking list) io" where
  "Booking_find rt userId movieId skip limit =
     io_bind (cast_filter rt userId) (\<lambda>u.
     io_bind (cast_filter rt movieId) (\<lambda>m.
     db (\<lambda>w.
       case cursor_window rt skip limit of
         None \<Rightarrow> (Inl (Exn ''invalid skip or limit''), w)
       | Some kn \<Rightarrow>
           (Inr (map (populate w) (window kn (filter (booking_matches u m) (bookings w)))), w))))"

definition Booking_countDocuments ::
  "env \<Rightarrow> string option \<Rightarrow> string option \<Rightarrow> (world, nat) io" where
  "Booking_countDocuments rt userId movieId =
     io_bind (cast_filter rt userId) (\<lambda>u.
     io_bind (cast_filter rt movieId) (\<lambda>m.
     db (\<lambda>w. (Inr (length (filter (booking_matches u m) (bookings w))), w))))"

record bookings_page =
  bp_count :: nat
  bp_total :: nat
  bp_page :: jsnum
  bp_bookings :: "populated_booking list"

text \<open>
  \<open>(page - 1) * limit\<close> converts the two parameters as \<open>Number\<close> does; \<open>page = 1\<close> and
  \<open>limit = 20\<close> stand in for a parameter that is absent.
\<close>

definition number_or :: "env \<Rightarrow> rat \<Rightarrow> string option \<Rightarrow> jsnum" where
  "number_or rt dflt p = (case p of None \<Rightarrow> Fin dflt | Some s \<Rightarrow> js_Number rt s)"

definition getAllBookings_body ::
  "env \<Rightarrow> auth_user option \<Rightarrow> string option \<Rightarrow> string option \<Rightarrow> string option
     \<Rightarrow> string option \<Rightarrow> (world, bookings_page response) io" where
  "getAllBookings_body rt u userId movieId pageQ limitQ =
     io_bind (user_role u) (\<lambda>r.
       if r \<noteq> ''admin'' then respond 403 (Error ''Access denied. Admins only.'')
       else
         io_bind (Booking_find rt userId movieId
                    (js_mul (js_sub (number_or rt 1 pageQ) (Fin 1)) (number_or rt 20 limitQ))
                    (number_or rt 20 limitQ)) (\<lambda>bs.
         io_bind (Booking_countDocuments rt userId movieId) (\<lambda>n.
         respond 200 (Json \<lparr>bp_count = length bs, bp_total = n, bp_page = number_or rt 1 pageQ,
           bp_bookings = bs\<rparr>))))"

definition getAllBookings ::
  "env \<Rightarrow> auth_user option \<Rightarrow> string option \<Rightarrow> string option \<Rightarrow> string option
     \<Rightarrow> string option \<Rightarrow> (world, bookings_page response) io" where
  "getAllBookings rt u userId movieId pageQ limitQ =
     try_catch (getAllBookings_body rt u userId movieId pageQ limitQ)
       (\<lambda>err. respond 500 (Error ''Server error while fetching bookings''))"

text \<open>A user without the password (\<open>select('-password')\<close>).\<close>

record user_view =
  uv_id :: oid
  uv_name :: string
  uv_email :: string
  uv_role :: string

definition User_find :: "env \<Rightarrow> jsnum \<Rightarrow> jsnum \<Rightarrow> (world, user_view list) io" where
  "User_find rt skip limit =
     db (\<lambda>w.
       case cursor_window rt skip limit of
         None \<Rightarrow> (Inl (Exn ''invalid skip or limit''), w)
       | Some kn \<Rightarrow>
           (Inr (map (\<lambda>u. \<lparr>uv_id = u_id u, uv_name = u_name u, uv_email = u_email u,
                            uv_role = u_role u\<rparr>) (window kn (users w))), w))"

record users_page =
  up_count :: nat
  up_total :: nat
  up_page :: jsnum
  up_users :: "user_view list"

definition getAllUsers_body ::
  "env \<Rightarrow> auth_user option \<Rightarrow> string option \<Rightarrow> string option
     \<Rightarrow> (world, users_page response) io" where
  "getAllUsers_body rt u pageQ limitQ =
     io_bind (user_role u) (\<lambda>r.
       if r \<noteq> ''admin'' then respond 403 (Error ''Access denied. Admins only.'')
       else
         io_bind (User_find rt
                    (js_mul (js_sub (number_or rt 1 pageQ) (Fin 1)) (number_or rt 50 limitQ))
                    (number_or rt 50 limitQ)) (\<lambda>us.
         io_bind count_users (\<lambda>n.
         respond 200 (Json \<lparr>up_count = length us, up_total = n, up_page = number_or rt 1 pageQ,
           up_users = us\<rparr>))))"

definition getAllUsers ::
  "env \<Rightarrow> auth_user option \<Rightarrow> string option \<Rightarrow> string option
     \<Rightarrow> (world, users_page response) io" where
  "getAllUsers rt u pageQ limitQ =
     try_catch (getAllUsers_body rt u pageQ limitQ)
       (\<lambda>err. respond 500 (Error ''Server error while fetching users''))"

subsection \<open>Creating a movie and linking it to theaters\<close>

text \<open>
  An element of the \<open>theaters\<close> array of the request: a string, or an object with an
  \<open>_id\<close> (which may be missing).
\<close>

datatype theater_arg = ById string | ByObject "string option"

record create_body =
  cb_title :: "string option"
  cb_description :: "string option"
  cb_genre :: "string option"
  cb_rating :: "rat option"
  cb_duration :: "string option"
  cb_posterUrl :: "string option"
  cb_trailerUrl :: "string option"
  cb_releaseDate :: "string option"
  cb_language :: "string option"
  cb_theaters :: "theater_arg list"

text \<open>\<open>!v\<close> for a field that is a string when it is present.\<close>

definition falsy :: "string option \<Rightarrow> bool" where
  "falsy p = (p = None \<or> p = Some [])"

definition or_empty :: "string option \<Rightarrow> string" where
  "or_empty p = (case p of None \<Rightarrow> [] | Some s \<Rightarrow> s)"

fun join :: "string \<Rightarrow> string list \<Rightarrow> string" where
  "join sep [] = []"
| "join sep [x] = x"
| "join sep (x # y # zs) = x @ sep @ join sep (y # zs)"

definition missing_fields :: "create_body \<Rightarrow> string list" where
  "missing_fields b =
     map fst (filter (\<lambda>kv. falsy (snd kv))
       [(''title'', cb_title b), (''genre'', cb_genre b), (''posterUrl'', cb_posterUrl b),
        (''releaseDate'', cb_releaseDate b), (''language'', cb_language b)])"

text \<open>What \<open>Theater.findById\<close> is called with: a string, \<open>undefined\<close>, or the id of a document.\<close>

datatype id_arg = IdString string | IdMissing | IdOf oid

fun Theater_findById :: "env \<Rightarrow> id_arg \<Rightarrow> (world, theater option) io" where
  "Theater_findById rt (IdString s) =
     io_bind (cast_id rt s) (\<lambda>k. db (\<lambda>w. (Inr (find (\<lambda>t. t_id t = k) (theaters w)), w)))"
| "Theater_findById rt IdMissing = db (\<lambda>w. (Inr None, w))"
| "Theater_findById rt (IdOf k) = db (\<lambda>w. (Inr (find (\<lambda>t. t_id t = k) (theaters w)), w))"

definition Theater_find_first4 :: "(world, theater list) io" where
  "Theater_find_first4 = db (\<lambda>w. (Inr (take 4 (theaters w)), w))"

definition Theater_findOne :: "string \<Rightarrow> string \<Rightarrow> (world, theater option) io" where
  "Theater_findOne name location =
     db (\<lambda>w. (Inr (find (\<lambda>t. t_name t = name \<and> t_location t = location) (theaters w)), w))"

text \<open>\<open>new Date(releaseDate)\<close>, and that date three hours later.\<close>

definition base_dates :: "env \<Rightarrow> string \<Rightarrow> jsdate \<times> jsdate" where
  "base_dates rt s =
     (case Date_parse rt s of
        None \<Rightarrow> (InvalidDate, InvalidDate)
      | Some t \<Rightarrow> (Ms t, Ms (t + 3 * 60 * 60 * 1000)))"

definition generateDefaultShowtimes :: "env \<Rightarrow> string \<Rightarrow> (world, showtime list) io" where
  "generateDefaultShowtimes rt releaseDate =
     io_bind (draw_blockedSeats rt) (\<lambda>blocked1.
     io_bind (draw_blockedSeats rt) (\<lambda>blocked2.
     io_return
       [\<lparr>startTime = fst (base_dates rt releaseDate), screen = ''Screen 1'',
          availableSeats = 100, blockedSeats = blocked1, st_movie = None\<rparr>,
        \<lparr>startTime = snd (base_dates rt releaseDate), screen = ''Screen 2'',
          availableSeats = 100, blockedSeats = blocked2, st_movie = None\<rparr>]))"

definition format_theater :: "env \<Rightarrow> string \<Rightarrow> id_arg \<Rightarrow> (world, etheater option) io" where
  "format_theater rt releaseDate theaterId =
     io_bind (Theater_findById rt theaterId) (\<lambda>theaterDoc.
       case theaterDoc of
         None \<Rightarrow> io_return None
       | Some t \<Rightarrow>
           io_bind (generateDefaultShowtimes rt releaseDate) (\<lambda>showtimes.
           io_return (Some \<lparr>e_name = t_name t, e_location = t_location t,
             e_showtimes = showtimes\<rparr>)))"

text \<open>
  \<open>new Movie({ ... }).save()\<close> for the admin: an invalid release date is rejected when the
  document is saved.
\<close>

definition admin_save :: "env \<Rightarrow> create_body \<Rightarrow> etheater list \<Rightarrow> (world, movie) io" where
  "admin_save rt b validTheaters =
     (case Date_parse rt (or_empty (cb_releaseDate b)) of
        None \<Rightarrow> io_throw (Exn ''Movie validation failed: releaseDate'')
      | Some t \<Rightarrow>
          Movie_save \<lparr>m_id = 0, m_title = or_empty (cb_title b),
            m_description = or_empty (cb_description b), m_genre = or_empty (cb_genre b),
            m_rating = (case cb_rating b of None \<Rightarrow> 0 | Some r \<Rightarrow> r),
            m_duration = or_empty (cb_duration b), m_posterUrl = or_empty (cb_posterUrl b),
            m_trailerUrl = or_empty (cb_trailerUrl b), m_releaseDate = t,
            m_language = or_empty (cb_language b), m_theaters = map Inline validTheaters,
            m_embeddedTheaters = []\<rparr>)"

text \<open>The body of the loop that links the new movie to a theater.\<close>

definition admin_link :: "string \<Rightarrow> movie \<Rightarrow> etheater \<Rightarrow> (world, etheater option) io" where
  "admin_link dateStr m theater =
     io_bind (Theater_findOne (e_name theater) (e_location theater)) (\<lambda>theaterDoc.
       case theaterDoc of
         None \<Rightarrow> io_return None
       | Some t \<Rightarrow>
           (let showtimes = map (\<lambda>time.
                  \<lparr>startTime = Parsed (dateStr @ ''T'' @ time @ '':00''), screen = ''Screen 1'',
                    availableSeats = 100, blockedSeats = [], st_movie = Some (m_id m)\<rparr>) times
            in io_bind (Theater_updateOne (t_id t) showtimes (m_title m)) (\<lambda>u.
               io_return (Some \<lparr>e_name = e_name theater, e_location = e_location theater,
                 e_showtimes = showtimes\<rparr>))))"

definition theater_ids :: "create_body \<Rightarrow> id_arg list" where
  "theater_ids b =
     map (\<lambda>t. case t of ById s \<Rightarrow> IdString s | ByObject None \<Rightarrow> IdMissing
                | ByObject (Some s) \<Rightarrow> IdString s) (cb_theaters b)"

definition admin_createMovie_body ::
  "env \<Rightarrow> create_body \<Rightarrow> (world, movie with_message response) io" where
  "admin_createMovie_body rt b =
     (if missing_fields b \<noteq> []
      then respond 400 (Error (''Missing fields: '' @ join '', '' (missing_fields b)))
      else
        io_bind (if theater_ids b = []
                 then io_bind Theater_find_first4 (\<lambda>ts. io_return (map (\<lambda>t. IdOf (t_id t)) ts))
                 else io_return (theater_ids b)) (\<lambda>theaterIds.
        io_bind (io_mapM (format_theater rt (or_empty (cb_releaseDate b))) theaterIds)
          (\<lambda>formattedTheaters.
        io_bind (admin_save rt b (List.map_filter id formattedTheaters)) (\<lambda>m.
        io_bind (io_mapM (admin_link (isoDate (now rt)) m)
                   (List.map_filter id formattedTheaters)) (\<lambda>linked.
        io_bind (Movie_updateById (m_id m) [SetEmbeddedTheaters (List.map_filter id linked)])
          (\<lambda>u.
        respond 201 (Json \<lparr>message = check_mark @ '' Movie created and linked to theaters'',
          payload = m\<rparr>)))))))"

text \<open>\<open>err.message || 'Server error while creating movie'\<close>\<close>

definition admin_createMovie ::
  "env \<Rightarrow> create_body \<Rightarrow> (world, movie with_message response) io" where
  "admin_createMovie rt b =
     try_catch (admin_createMovie_body rt b)
       (\<lambda>err. case err of Exn msg \<Rightarrow>
          respond 500 (Error (if msg = [] then ''Server error while creating movie'' else msg)))"

section \<open>The TMDB details handler\<close>

record tmdb_cast =
  c_name :: "string option"
  c_character :: "string option"
  c_profile_path :: "string option"

record tmdb_video =
  vd_type :: string
  vd_site :: string
  vd_key :: "string option"
  vd_official :: bool

text \<open>
  The body of a TMDB response, as far as the handler reads it; a field that the body
  lacks is \<open>None\<close>, and so is the body of a response that has none.
\<close>

record tmdb_body =
  d_title :: "string option"
  d_overview :: "string option"
  d_genres :: "string option list option"
  d_vote_average :: "rat option"
  d_runtime :: "nat option"
  d_poster_path :: "string option"
  d_release_date :: "string option"
  d_original_language :: "string option"
  d_cast :: "tmdb_cast list option"
  d_results :: "tmdb_video list option"

type_synonym details_data = "tmdb_body option"

record cast_view =
  cv_name :: string
  cv_role :: string
  cv_photoUrl :: string

record details_view =
  dv_title :: string
  dv_description :: string
  dv_genre :: string
  dv_rating :: rat
  dv_duration :: string
  dv_posterUrl :: string
  dv_trailerUrl :: string
  dv_releaseDate :: string
  dv_language :: string
  dv_cast :: "cast_view list"

definition isDigit :: "char \<Rightarrow> bool" where
  "isDigit c = (c \<in> set ''0123456789'')"

text \<open>The test of the regular expression for a date, four digits, two and two with dashes.\<close>

definition isDateString :: "string \<Rightarrow> bool" where
  "isDateString s =
     (length s = 10 \<and> list_all isDigit (take 4 s) \<and> s ! 4 = CHR ''-''
      \<and> list_all isDigit (take 2 (drop 5 s)) \<and> s ! 7 = CHR ''-''
      \<and> list_all isDigit (drop 8 s))"

definition image_url :: "string \<Rightarrow> string option \<Rightarrow> string" where
  "image_url base p = (if falsy p then [] else base @ or_empty p)"

text \<open>\<open>a || b\<close> on the results of \<open>find\<close>.\<close>

definition or_else :: "'a option \<Rightarrow> 'a option \<Rightarrow> 'a option" where
  "or_else a b = (case a of None \<Rightarrow> b | Some x \<Rightarrow> Some x)"

definition pick_trailer :: "tmdb_video list \<Rightarrow> tmdb_video option" where
  "pick_trailer videos =
     or_else (find (\<lambda>v. vd_type v = ''Trailer'' \<and> vd_site v = ''YouTube'' \<and> vd_official v) videos)
    (or_else (find (\<lambda>v. vd_type v = ''Trailer'' \<and> vd_site v = ''YouTube'') videos)
             (find (\<lambda>v. vd_type v \<in> set [''Teaser'', ''Clip''] \<and> vd_site v = ''YouTube'') videos))"

definition details_json :: "tmdb_body \<Rightarrow> details_data \<Rightarrow> details_data \<Rightarrow> details_view" where
  "details_json details credits videos =
     \<lparr>dv_title = or_empty (d_title details),
      dv_description = or_empty (d_overview details),
      dv_genre = join '', ''
        (case d_genres details of
           None \<Rightarrow> []
         | Some gs \<Rightarrow> filter (\<lambda>g. g \<noteq> []) (map or_empty gs)),
      dv_rating = (case d_vote_average details of None \<Rightarrow> 0 | Some r \<Rightarrow> r),
      dv_duration = decimal (case d_runtime details of None \<Rightarrow> 0 | Some n \<Rightarrow> n) @ '' min'',
      dv_posterUrl = image_url ''https://image.tmdb.org/t/p/w500'' (d_poster_path details),
      dv_trailerUrl =
        (case pick_trailer (case videos of None \<Rightarrow> []
                            | Some b \<Rightarrow> (case d_results b of None \<Rightarrow> [] | Some vs \<Rightarrow> vs)) of
           None \<Rightarrow> []
         | Some v \<Rightarrow> if falsy (vd_key v) then []
                     else ''https://www.youtube.com/watch?v='' @ or_empty (vd_key v)),
      dv_releaseDate =
        (case d_release_date details of
           None \<Rightarrow> []
         | Some s \<Rightarrow> if isDateString s then s else []),
      dv_language =
        (case d_original_language details of
           None \<Rightarrow> ''en''
         | Some l \<Rightarrow> if l \<in> set supportedLanguages then l else ''en''),
      dv_cast =
        (case credits of
           None \<Rightarrow> []
         | Some b \<Rightarrow>
             (case d_cast b of
                None \<Rightarrow> []
              | Some cs \<Rightarrow>
                  map (\<lambda>c. \<lparr>cv_name = or_empty (c_name c), cv_role = or_empty (c_character c),
                             cv_photoUrl = image_url ''https://image.tmdb.org/t/p/w185''
                                             (c_profile_path c)\<rparr>) (take 10 cs)))\<rparr>"

text \<open>What an awaited response gives: its status and data; a rejection is thrown.\<close>

definition awaited :: "'d outcome \<Rightarrow> ('s, nat \<times> 'd) io" where
  "awaited x =
     (case x of
        Resolved st d \<Rightarrow> io_return (st, d)
      | Rejected st \<Rightarrow> io_throw (Exn ''Request failed''))"

definition send :: "http_req \<Rightarrow> ('d net, 'd outcome) io" where
  "send q n = (case axios_get q n of (x, n1) \<Rightarrow> (Inr x, n1))"

text \<open>
  The three requests of \<open>Promise.all\<close> are all sent; then the first rejection among
  them, in the order of the array, is thrown.
\<close>

definition getTmdbMovieDetails_body ::
  "string \<Rightarrow> string option \<Rightarrow> (details_data net, details_view response) io" where
  "getTmdbMovieDetails_body ident apiKey =
     (if falsy apiKey then respond 500 (Error ''TMDB API key not configured'')
      else
        io_bind (send \<lparr>url = ''https://api.themoviedb.org/3/movie/'' @ ident,
                   params = [(''api_key'', or_empty apiKey), (''language'', ''en'')]\<rparr>) (\<lambda>x1.
        io_bind (send \<lparr>url = ''https://api.themoviedb.org/3/movie/'' @ ident @ ''/credits'',
                   params = [(''api_key'', or_empty apiKey)]\<rparr>) (\<lambda>x2.
        io_bind (send \<lparr>url = ''https://api.themoviedb.org/3/movie/'' @ ident @ ''/videos'',
                   params = [(''api_key'', or_empty apiKey), (''language'', ''en'')]\<rparr>) (\<lambda>x3.
        io_bind (awaited x1) (\<lambda>detailsRes.
        io_bind (awaited x2) (\<lambda>creditsRes.
        io_bind (awaited x3) (\<lambda>videosRes.
        case snd detailsRes of
          None \<Rightarrow> respond 404 (Error ''Movie not found in TMDB'')
        | Some details \<Rightarrow>
            if fst detailsRes \<noteq> 200 then respond 404 (Error ''Movie not found in TMDB'')
            else respond 200
              (Json (details_json details (snd creditsRes) (snd videosRes))))))))))"

definition getTmdbMovieDetails ::
  "string \<Rightarrow> string option \<Rightarrow> (details_data net, details_view response) io" where
  "getTmdbMovieDetails ident apiKey =
     try_catch (getTmdbMovieDetails_body ident apiKey)
       (\<lambda>err. respond 500 (Error ''Failed to fetch movie details''))"

section \<open>Handlers that catch\<close>

text \<open>
  The spec's try/catch around each handler: on the state \<open>s\<close> the handler \<open>h\<close> does what
  its body \<open>b\<close> does, and answers \<open>on_error e\<close> where the body throws \<open>e\<close>.
\<close>

definition answers_exceptions ::
  "('s, 'a response) io \<Rightarrow> (exn \<Rightarrow> 'a response) \<Rightarrow> ('s, 'a response) io \<Rightarrow> 's \<Rightarrow> bool" where
  "answers_exceptions b on_error h s =
     (h s = (case b s of (Inl e, s') \<Rightarrow> (Inr (on_error e), s') | (Inr r, s') \<Rightarrow> (Inr r, s')))"

definition error_500 :: "string \<Rightarrow> exn \<Rightarrow> 'a response" where
  "error_500 msg e = \<lparr>status = 500, body = Error msg\<rparr>"

text \<open>The next call to the database does not fail.\<close>

definition next_call_ok :: "world \<Rightarrow> bool" where
  "next_call_ok w = (case faults w of Some e # fs \<Rightarrow> False | _ \<Rightarrow> True)"

section \<open>Sample inputs\<close>

definition sample_request :: http_req where
  "sample_request = \<lparr>url = ''https://api.themoviedb.org/3/genre/movie/list'', params = []\<rparr>"

text \<open>
  A runtime for the samples. The tables hold what JavaScript answers on the strings the
  samples use: \<open>Number('abc')\<close> is \<open>NaN\<close>, \<open>Number('2')\<close> is 2, and so on.
\<close>

definition number_table :: "(string \<times> jsnum) list" where
  "number_table =
     [(''abc'', NaN), (''0'', Fin 0), (''1'', Fin 1), (''2'', Fin 2), (''3'', Fin 3),
      (''-5'', Fin (- 5)), (''250'', Fin 250)]"

definition id_a :: string where "id_a = ''64b7f0c2a1d3e4f5a6b7c8d1''"
definition id_b :: string where "id_b = ''64b7f0c2a1d3e4f5a6b7c8d2''"
definition id_c :: string where "id_c = ''64b7f0c2a1d3e4f5a6b7c8d3''"

definition rt0 :: env where
  "rt0 = \<lparr>js_Number = (\<lambda>s. case map_of number_table s of Some v \<Rightarrow> v | None \<Rightarrow> NaN),
          js_parseFloat = (\<lambda>s. case map_of number_table s of Some v \<Rightarrow> v | None \<Rightarrow> NaN),
          Date_parse = (\<lambda>s. None),
          isValid = (\<lambda>s. s \<in> set [id_a, id_b, id_c]),
          castObjectId = map_of [(id_a, 1), (id_b, 2), (id_c, 3)],
          regex_i = (\<lambda>p s. p = s),
          atlas_search = (\<lambda>t docs. docs),
          now = 1758794400000,
          tz = 0,
          random = (\<lambda>k. (1 / 10, allSeats)),
          cursor_window = (\<lambda>s l. None)\<rparr>"

text \<open>
  Three movies, released on 2025-09-24 (midnight UTC), on 2025-09-25 at 01:00 UTC and
  on 2025-09-26; the clock of \<open>rt0\<close> stands at 2025-09-25, 10:00 UTC.
\<close>

definition mv :: "oid \<Rightarrow> string \<Rightarrow> int \<Rightarrow> movie" where
  "mv k t d = \<lparr>m_id = k, m_title = t, m_description = '''', m_genre = ''Drama'',
     m_rating = 7, m_duration = ''120 min'', m_posterUrl = '''', m_trailerUrl = '''',
     m_releaseDate = d, m_language = ''en'', m_theaters = [], m_embeddedTheaters = []\<rparr>"

definition sample_db :: world where
  "sample_db = \<lparr>movies = [mv 1 ''Oppenheimer'' 1758672000000, mv 2 ''Barbie'' 1758762000000,
                   mv 3 ''Jawan'' 1758844800000],
         theaters = [], bookings = [], users = [], next_id = 4, draws = 0, faults = []\<rparr>"

definition no_query :: movies_query where
  "no_query = \<lparr>q_isUpcoming = None, q_genre = None, q_minRating = None, q_language = None,
     q_releasedAfter = None, q_sortBy = None, q_title = None, q_page = None, q_limit = None,
     q_location = None\<rparr>"

definition page2_query :: movies_query where
  "page2_query = no_query\<lparr>q_limit := Some ''2'', q_page := Some ''2''\<rparr>"

definition page2_response :: "movies_page response" where
  "page2_response = \<lparr>status = 200, body = Json \<lparr>p_count = 1, p_total = 3, p_page = Fin 2,
        p_totalPages = Fin 2, p_movies = [mv 3 ''Jawan'' 1758844800000]\<rparr>\<rparr>"


text \<open>
  A database where the two copies agree: one movie, shown once in one theater, with the
  showtime both in the theater document and in the movie's embedded entry.
\<close>

definition show1 :: showtime where
  "show1 = \<lparr>startTime = Parsed ''2025-09-25T10:00:00'', screen = ''Screen 1'',
     availableSeats = 100, blockedSeats = [], st_movie = Some 1\<rparr>"

definition linked_db :: world where
  "linked_db = \<lparr>movies = [(mv 1 ''Oppenheimer'' 1758672000000)
           \<lparr>m_embeddedTheaters :=
              [\<lparr>e_name = ''PVR Phoenix Kurla'', e_location = ''Mumbai'', e_showtimes = [show1]\<rparr>]\<rparr>],
         theaters = [\<lparr>t_id = 10, t_name = ''PVR Phoenix Kurla'', t_location = ''Mumbai'',
           t_showtimes = [show1], t_movieTitles = [''Oppenheimer''], t_status = ''Active''\<rparr>],
         bookings = [], users = [], next_id = 11, draws = 0, faults = []\<rparr>"

text \<open>
  Two networks for a search. In the first the English search finds nothing and the Hindi
  search finds two movies; in the second no search finds anything.
\<close>

definition jawan1 :: tmdb_result where
  "jawan1 = \<lparr>r_id = 872906, r_title = ''Jawan''\<rparr>"

definition jawan2 :: tmdb_result where
  "jawan2 = \<lparr>r_id = 1140533, r_title = ''Jawan: Prevue''\<rparr>"

definition hindi_net :: "search_data net" where
  "hindi_net =
     \<lparr>replies = (\<lambda>q k. if k = 0 then Resolved 200 (Some [])
                        else Resolved 200 (Some [jawan1, jawan2])),
      sent = [], slept = []\<rparr>"

definition empty_net :: "search_data net" where
  "empty_net = \<lparr>replies = (\<lambda>q k. Resolved 200 (Some [])), sent = [], slept = []\<rparr>"

text \<open>The seed script links two of the movies of \<open>sample_db\<close>, which has no theater yet.\<close>

definition two_movies :: "movie list" where
  "two_movies = [mv 1 ''Oppenheimer'' 1758672000000, mv 2 ''Barbie'' 1758762000000]"

definition seeded_db :: world where
  "seeded_db = snd (seedMovies_link rt0 two_movies sample_db)"

text \<open>The database of the samples when the connection is lost at the next call.\<close>

definition faulty_db :: world where
  "faulty_db = sample_db\<lparr>faults := [Some (Exn ''connection lost'')]\<rparr>"

definition dune :: movie where
  "dune = mv 0 ''Dune'' 1758672000000"

section \<open>Properties\<close>

lemma allSeats_eq:
  "allSeats =
     [''A1'', ''A2'', ''A3'', ''A4'', ''A5'', ''A6'',
      ''B1'', ''B2'', ''B3'', ''B4'', ''B5'', ''B6'',
      ''C1'', ''C2'', ''C3'', ''C4'', ''C5'', ''C6'',
      ''D1'', ''D2'', ''D3'', ''D4'', ''D5'', ''D6'']"
  by code_simp

subsection \<open>Seat maps\<close>

lemma allSeats_length: "length allSeats = 24"
  by (simp add: allSeats_eq)

lemma allSeats_distinct: "distinct allSeats"
  by (simp add: allSeats_eq)

text \<open>
  C8. Whatever the random choices are (\<open>Math.random()\<close> is in \<open>[0, 1)\<close>, and the sort
  leaves a permutation of the 24 seats), the blocked seats are at most 9 labels, pairwise
  distinct, each a seat of the grid of rows A to D and columns 1 to 6.
\<close>

theorem generateBlockedSeats_grid:
  assumes "0 \<le> r" and "r < 1" and "mset shuffled = mset allSeats"
  shows "length (generateBlockedSeats r shuffled) \<le> 9
    \<and> distinct (generateBlockedSeats r shuffled)
    \<and> set (generateBlockedSeats r shuffled) \<subseteq> set allSeats
    \<and> set allSeats = {row @ decimal col | row col. row \<in> set seatRows \<and> col \<in> set seatCols}
    \<and> length allSeats = 24"
proof -
  have "r * 10 < 10" using assms(2) by simp
  then have "\<lfloor>r * 10\<rfloor> < 10" by (simp add: floor_less_iff)
  then have len: "nat \<lfloor>r * 10\<rfloor> \<le> 9" by linarith
  have d: "distinct shuffled"
    using assms(3) allSeats_distinct by (metis mset_eq_imp_distinct_iff)
  have s: "set shuffled = set allSeats"
    using assms(3) by (rule mset_eq_setD)
  have grid: "set allSeats = {row @ decimal col | row col. row \<in> set seatRows \<and> col \<in> set seatCols}"
    unfolding allSeats_def by auto
  have "set (take (nat \<lfloor>r * 10\<rfloor>) shuffled) \<subseteq> set shuffled"
    by (rule set_take_subset)
  with len d s grid show ?thesis
    by (simp add: generateBlockedSeats_def allSeats_length)
qed

theorem generateBlockedSeats_grid_witness:
  "(0::rat) \<le> 1 / 2 \<and> (1 / 2 :: rat) < 1 \<and> mset (rev allSeats) = mset allSeats
   \<and> generateBlockedSeats (1 / 2) (rev allSeats) = [''D6'', ''D5'', ''D4'', ''D3'', ''D2'']
   \<and> length (generateBlockedSeats (1 / 2) (rev allSeats)) \<le> 9
   \<and> distinct (generateBlockedSeats (1 / 2) (rev allSeats))
   \<and> set (generateBlockedSeats (1 / 2) (rev allSeats)) \<subseteq> set allSeats"
proof -
  have h: "mset (rev allSeats) = mset allSeats" by simp
  have v: "generateBlockedSeats (1 / 2) (rev allSeats) = [''D6'', ''D5'', ''D4'', ''D3'', ''D2'']"
    by (simp add: generateBlockedSeats_def allSeats_eq)
  have "length (generateBlockedSeats (1 / 2) (rev allSeats)) \<le> 9
    \<and> distinct (generateBlockedSeats (1 / 2) (rev allSeats))
    \<and> set (generateBlockedSeats (1 / 2) (rev allSeats)) \<subseteq> set allSeats"
  proof -
    have "(0::rat) \<le> 1 / 2" and "(1 / 2 :: rat) < 1" by simp_all
    from generateBlockedSeats_grid [OF this h] show ?thesis by blast
  qed
  with h v show ?thesis by simp
qed

subsection \<open>Retrying a request\<close>


lemma backoff_step: "i < j \<Longrightarrow> backoff delay i j = (delay * (int i + 1)) # backoff delay (Suc i) j"
  by (simp add: backoff_def upt_conv_Cons)

lemma backoff_same: "backoff delay i i = []"
  by (simp add: backoff_def)

lemma fetch_from_resolved:
  "i < retries \<Longrightarrow> replies n q (length (sent n)) = Resolved st d \<Longrightarrow>
   fetchWithRetry_from i q retries delay n = (Data d, n\<lparr>sent := sent n @ [q]\<rparr>)"
  by (subst fetchWithRetry_from.simps) (simp add: axios_get_def)

lemma fetch_from_404:
  "i < retries \<Longrightarrow> replies n q (length (sent n)) = Rejected (Some 404) \<Longrightarrow>
   fetchWithRetry_from i q retries delay n = (Null, n\<lparr>sent := sent n @ [q]\<rparr>)"
  by (subst fetchWithRetry_from.simps) (simp add: axios_get_def)

lemma fetch_from_last:
  "i < retries \<Longrightarrow> replies n q (length (sent n)) = Rejected st \<Longrightarrow> i = retries - 1 \<Longrightarrow>
   fetchWithRetry_from i q retries delay n = (Null, n\<lparr>sent := sent n @ [q]\<rparr>)"
  by (subst fetchWithRetry_from.simps) (simp add: axios_get_def)

lemma fetch_from_retry:
  "i < retries \<Longrightarrow> replies n q (length (sent n)) = Rejected st \<Longrightarrow> st \<noteq> Some 404 \<Longrightarrow>
   i \<noteq> retries - 1 \<Longrightarrow>
   fetchWithRetry_from i q retries delay n =
   fetchWithRetry_from (Suc i) q retries delay
     (n\<lparr>sent := sent n @ [q], slept := slept n @ [delay * (int i + 1)]\<rparr>)"
  by (subst fetchWithRetry_from.simps) (simp add: axios_get_def setTimeout_def)

lemma fetch_from_none:
  "\<not> i < retries \<Longrightarrow> fetchWithRetry_from i q retries delay n = (Undefined, n)"
  by (subst fetchWithRetry_from.simps) simp


lemma fetch_from_stop:
  assumes "i < retries" and "\<not> retryable (replies n q (length (sent n))) \<or> i = retries - 1"
  shows "fetchWithRetry_from i q retries delay n =
    (settled (replies n q (length (sent n))), n\<lparr>sent := sent n @ [q]\<rparr>)"
proof (cases "replies n q (length (sent n))")
  case (Resolved st d)
  with assms(1) show ?thesis by (simp add: fetch_from_resolved settled_def)
next
  case (Rejected st)
  show ?thesis
  proof (cases "st = Some 404")
    case True
    with Rejected assms(1) show ?thesis by (simp add: fetch_from_404 settled_def)
  next
    case False
    with Rejected assms(2) have "i = retries - 1" by simp
    with Rejected assms(1) show ?thesis by (simp add: fetch_from_last settled_def)
  qed
qed

lemma fetch_from_run:
  "i + k < retries \<Longrightarrow>
   (\<forall>t < k. retryable (replies n q (length (sent n) + t))) \<Longrightarrow>
   \<not> retryable (replies n q (length (sent n) + k)) \<or> i + k = retries - 1 \<Longrightarrow>
   fetchWithRetry_from i q retries delay n =
     (settled (replies n q (length (sent n) + k)),
      n\<lparr>sent := sent n @ replicate (Suc k) q, slept := slept n @ backoff delay i (i + k)\<rparr>)"
proof (induction k arbitrary: i n)
  case 0
  then show ?case by (simp add: fetch_from_stop backoff_same)
next
  case (Suc k)
  let ?n1 = "n\<lparr>sent := sent n @ [q], slept := slept n @ [delay * (int i + 1)]\<rparr>"
  from Suc.prems(2) have r: "retryable (replies n q (length (sent n)))" by auto
  then obtain st where st: "replies n q (length (sent n)) = Rejected st" "st \<noteq> Some 404"
    by (cases "replies n q (length (sent n))") auto
  have ir: "i < retries" "i \<noteq> retries - 1" using Suc.prems(1) by auto
  have step: "fetchWithRetry_from i q retries delay n = fetchWithRetry_from (Suc i) q retries delay ?n1"
    using ir(1) st ir(2) by (rule fetch_from_retry)
  have a1: "Suc i + k < retries" using Suc.prems(1) by simp
  have a2: "\<forall>t < k. retryable (replies ?n1 q (length (sent ?n1) + t))"
    using Suc.prems(2) by auto
  have a3: "\<not> retryable (replies ?n1 q (length (sent ?n1) + k)) \<or> Suc i + k = retries - 1"
    using Suc.prems(3) by simp
  have bo: "backoff delay i (i + Suc k) = (delay * (int i + 1)) # backoff delay (Suc i) (Suc i + k)"
    using backoff_step [of i "i + Suc k" delay] by simp
  show ?case
    unfolding step Suc.IH [OF a1 a2 a3] bo by (simp add: replicate_append_same)
qed

lemma fetchWithRetry_run:
  assumes "k < retries"
    and "\<forall>t < k. retryable (replies n q (length (sent n) + t))"
    and "\<not> retryable (replies n q (length (sent n) + k)) \<or> Suc k = retries"
  shows "fetchWithRetry q retries delay n =
     (settled (replies n q (length (sent n) + k)),
      n\<lparr>sent := sent n @ replicate (Suc k) q, slept := slept n @ backoff delay 0 k\<rparr>)"
proof -
  have "\<not> retryable (replies n q (length (sent n) + k)) \<or> 0 + k = retries - 1"
    using assms(1,3) by auto
  with fetch_from_run [of 0 k retries n q delay] assms(1,2) show ?thesis
    by (simp add: fetchWithRetry_def)
qed

text \<open>
  C4. A run of \<open>fetchWithRetry\<close> from the network state \<open>n\<close>, where \<open>reply t\<close> is what
  its \<open>t\<close>-th attempt gets. It sends at most \<open>retries\<close> requests, all for the same
  address, and between attempt \<open>t\<close> and the next it waits \<open>delay * (t + 1)\<close> milliseconds.
  The first attempt that resolves ends the run with its data; a 404 ends it with \<open>null\<close>
  at once; when all \<open>retries\<close> attempts are rejected the result is \<open>null\<close>. (With
  \<open>retries = 0\<close> no attempt is made, no attempt fails, and the function falls off its
  loop: the result is \<open>undefined\<close>.)
\<close>

theorem fetchWithRetry_spec:
  assumes run: "fetchWithRetry q retries delay n = (res, n')"
    and o: "\<And>t. reply t = replies n q (length (sent n) + t)"
  shows "(\<exists>k \<le> retries. sent n' = sent n @ replicate k q
            \<and> slept n' = slept n @ backoff delay 0 (k - 1))
    \<and> (\<forall>k st d. k < retries \<and> (\<forall>t < k. retryable (reply t)) \<and> reply k = Resolved st d \<longrightarrow>
          res = Data d \<and> sent n' = sent n @ replicate (Suc k) q
          \<and> slept n' = slept n @ backoff delay 0 k)
    \<and> (\<forall>k. k < retries \<and> (\<forall>t < k. retryable (reply t)) \<and> reply k = Rejected (Some 404) \<longrightarrow>
          res = Null \<and> sent n' = sent n @ replicate (Suc k) q
          \<and> slept n' = slept n @ backoff delay 0 k)
    \<and> (0 < retries \<and> (\<forall>t < retries. retryable (reply t)) \<longrightarrow>
          res = Null \<and> sent n' = sent n @ replicate retries q
          \<and> slept n' = slept n @ backoff delay 0 (retries - 1))
    \<and> (retries = 0 \<longrightarrow> res = Undefined \<and> n' = n)"
proof -
  have A: "\<exists>k \<le> retries. sent n' = sent n @ replicate k q
            \<and> slept n' = slept n @ backoff delay 0 (k - 1)"
  proof (cases "\<exists>k < retries. \<not> retryable (reply k)")
    case True
    define k where "k = (LEAST k. k < retries \<and> \<not> retryable (reply k))"
    from True have k: "k < retries \<and> \<not> retryable (reply k)"
      unfolding k_def by (rule LeastI_ex)
    have "\<forall>t < k. retryable (reply t)"
    proof (intro allI impI)
      fix t assume "t < k"
      then have "\<not> (t < retries \<and> \<not> retryable (reply t))"
        unfolding k_def by (rule not_less_Least)
      with \<open>t < k\<close> k show "retryable (reply t)" by simp
    qed
    with k fetchWithRetry_run [of k retries n q delay] run
    have "n' = n\<lparr>sent := sent n @ replicate (Suc k) q, slept := slept n @ backoff delay 0 k\<rparr>"
      by (simp add: o)
    with k show ?thesis by (intro exI [of _ "Suc k"]) simp
  next
    case False
    show ?thesis
    proof (cases "retries = 0")
      case True
      with run have "n' = n" by (simp add: fetchWithRetry_def fetch_from_none)
      with True show ?thesis by (simp add: backoff_same)
    next
      case nz: False
      from False nz fetchWithRetry_run [of "retries - 1" retries n q delay] run
      have "n' = n\<lparr>sent := sent n @ replicate retries q,
                     slept := slept n @ backoff delay 0 (retries - 1)\<rparr>"
        by (simp add: o)
      then show ?thesis by (intro exI [of _ retries]) simp
    qed
  qed
  have B: "res = settled (reply k) \<and> sent n' = sent n @ replicate (Suc k) q
          \<and> slept n' = slept n @ backoff delay 0 k"
    if "k < retries" "\<forall>t < k. retryable (reply t)" "\<not> retryable (reply k) \<or> Suc k = retries" for k
    using fetchWithRetry_run [of k retries n q delay] run that by (auto simp: o)
  have C: "res = Null \<and> sent n' = sent n @ replicate retries q
          \<and> slept n' = slept n @ backoff delay 0 (retries - 1)"
    if "0 < retries" "\<forall>t < retries. retryable (reply t)"
  proof -
    from that(2) that(1) obtain st where "reply (retries - 1) = Rejected st"
      by (cases "reply (retries - 1)") (auto dest: spec [of _ "retries - 1"])
    with B [of "retries - 1"] that show ?thesis by (simp add: settled_def)
  qed
  have D: "res = Undefined \<and> n' = n" if "retries = 0"
    using run that by (simp add: fetchWithRetry_def fetch_from_none)
  from A B C D show ?thesis by (auto simp: settled_def)
qed


theorem fetchWithRetry_spec_witness:
  "fst (fetchWithRetry sample_request 5 2000
      \<lparr>replies = (\<lambda>q k. if k < 2 then Rejected None else Resolved 200 (7::nat)), sent = [], slept = []\<rparr>)
     = Data 7
   \<and> slept (snd (fetchWithRetry sample_request 5 2000
      \<lparr>replies = (\<lambda>q k. if k < 2 then Rejected None else Resolved 200 (7::nat)), sent = [], slept = []\<rparr>))
     = [2000, 4000]
   \<and> fst (fetchWithRetry sample_request 5 2000
      \<lparr>replies = (\<lambda>q k. if k < 1 then Rejected (Some 500) else Rejected (Some 404) :: nat outcome),
       sent = [], slept = []\<rparr>)
     = Null
   \<and> sent (snd (fetchWithRetry sample_request 5 2000
      \<lparr>replies = (\<lambda>q k. if k < 1 then Rejected (Some 500) else Rejected (Some 404) :: nat outcome),
       sent = [], slept = []\<rparr>))
     = [sample_request, sample_request]
   \<and> fst (fetchWithRetry sample_request 3 2000
      \<lparr>replies = (\<lambda>q k. Rejected None :: nat outcome), sent = [], slept = []\<rparr>)
     = Null
   \<and> slept (snd (fetchWithRetry sample_request 3 2000
      \<lparr>replies = (\<lambda>q k. Rejected None :: nat outcome), sent = [], slept = []\<rparr>))
     = [2000, 4000]"
proof -
  let ?a = "\<lparr>replies = (\<lambda>q k. if k < 2 then Rejected None else Resolved 200 (7::nat)),
             sent = [], slept = []\<rparr>"
  let ?b = "\<lparr>replies = (\<lambda>q k. if k < 1 then Rejected (Some 500) else Rejected (Some 404) :: nat outcome),
             sent = [], slept = []\<rparr>"
  let ?c = "\<lparr>replies = (\<lambda>q k. Rejected None :: nat outcome), sent = [], slept = []\<rparr>"
  have bo: "backoff 2000 0 2 = [2000, 4000]" "backoff 2000 0 1 = [2000]"
    by (simp_all add: backoff_def numeral_2_eq_2)
  have a: "fst (fetchWithRetry sample_request 5 2000 ?a) = Data 7
      \<and> slept (snd (fetchWithRetry sample_request 5 2000 ?a)) = [2000, 4000]"
    using fetchWithRetry_spec [of sample_request 5 2000 ?a "fst (fetchWithRetry sample_request 5 2000 ?a)"
        "snd (fetchWithRetry sample_request 5 2000 ?a)" "\<lambda>t. replies ?a sample_request (length (sent ?a) + t)",
        THEN conjunct2, THEN conjunct1, THEN spec, THEN spec, THEN spec, of 2 200 7]
    by (simp add: bo)
  have b: "fst (fetchWithRetry sample_request 5 2000 ?b) = Null
      \<and> sent (snd (fetchWithRetry sample_request 5 2000 ?b)) = [sample_request, sample_request]"
    using fetchWithRetry_spec [of sample_request 5 2000 ?b "fst (fetchWithRetry sample_request 5 2000 ?b)"
        "snd (fetchWithRetry sample_request 5 2000 ?b)" "\<lambda>t. replies ?b sample_request (length (sent ?b) + t)",
        THEN conjunct2, THEN conjunct2, THEN conjunct1, THEN spec, of 1]
    by (simp add: numeral_2_eq_2)
  have c: "fst (fetchWithRetry sample_request 3 2000 ?c) = Null
      \<and> slept (snd (fetchWithRetry sample_request 3 2000 ?c)) = [2000, 4000]"
    using fetchWithRetry_spec [of sample_request 3 2000 ?c "fst (fetchWithRetry sample_request 3 2000 ?c)"
        "snd (fetchWithRetry sample_request 3 2000 ?c)" "\<lambda>t. replies ?c sample_request (length (sent ?c) + t)",
        THEN conjunct2, THEN conjunct2, THEN conjunct2, THEN conjunct1]
    by (simp add: bo)
  from a b c show ?thesis by simp
qed

subsection \<open>Pagination of GET /api/movies\<close>

lemma Math_max_ge: "a \<noteq> NaN \<Longrightarrow> js_le (Fin 1) (Math_max a (Fin 1))"
  by (cases a) (auto simp: Math_max_def)

lemma Math_min_le: "Math_min a (Fin 100) = NaN \<or> js_le (Math_min a (Fin 100)) (Fin 100)"
  by (cases a) (auto simp: Math_min_def)

lemma safePage_eq: "safePage rt q = Math_max (pageParam rt q) (Fin 1)"
  by (simp add: safePage_def pageParam_def)

lemma safeLimit_eq: "safeLimit rt q = Math_min (limitParam rt q) (Fin 100)"
  by (simp add: safeLimit_def limitParam_def)

lemma getMovies_200:
  assumes "fst (getMovies rt q w) = Inr r" and "status r = 200"
  shows "\<exists>ms n w1 w2. Movie_aggregate rt (getMovies_pipeline rt q) w = (Inr ms, w1)
     \<and> (if trimmed (q_title q) \<noteq> None then io_return (length ms)
              else Movie_countDocuments rt (getMovies_filters rt q)) w1 = (Inr n, w2)
     \<and> body r = Json \<lparr>p_count = length ms, p_total = n, p_page = safePage rt q,
       p_totalPages = Math_ceil (js_div (Fin (of_nat n)) (safeLimit rt q)),
       p_movies = ms\<rparr>"
  using assms
  unfolding getMovies_def getMovies_body_def try_catch_def io_bind_def respond_def io_return_def
  by (auto split: prod.splits sum.splits if_splits)

lemma db_Inr: "db f w = (Inr x, w') \<Longrightarrow> \<exists>sample_db. f sample_db = (Inr x, w') \<and> movies sample_db = movies w
    \<and> theaters sample_db = theaters w \<and> bookings sample_db = bookings w \<and> users sample_db = users w"
  by (auto simp: db_def split: list.splits option.splits)

lemma aggregate_Inr:
  "Movie_aggregate rt pl w = (Inr ms, w1) \<Longrightarrow>
     run_pipeline rt pl (movies w) = Inr ms \<and> movies w1 = movies w"
  unfolding Movie_aggregate_def by (auto dest!: db_Inr)

lemma countDocuments_Inr:
  "Movie_countDocuments rt fs w = (Inr n, w1) \<Longrightarrow> n = length (matching rt fs (movies w))"
  unfolding Movie_countDocuments_def by (auto dest!: db_Inr)

lemma run_pipeline_append:
  "run_pipeline rt (xs @ ys) docs =
     (case run_pipeline rt xs docs of Inl e \<Rightarrow> Inl e | Inr ds \<Rightarrow> run_pipeline rt ys ds)"
  by (induction xs arbitrary: docs) (auto split: sum.splits)

lemma matching_Nil: "matching rt [] docs = docs"
  by (simp add: matching_def)

lemma run_prefix:
  "run_pipeline rt
     ((case trimmed (q_title q) of None \<Rightarrow> [] | Some t \<Rightarrow> [Search t])
      @ (if getMovies_filters rt q \<noteq> [] then [Match (getMovies_filters rt q)] else [])
      @ (if getMovies_sortOptions q \<noteq> [] then [Sort (getMovies_sortOptions q)] else [])) docs
   = Inr (getMovies_selected rt q docs)"
  by (simp add: run_pipeline_append getMovies_selected_def matching_Nil split: option.splits)

lemma run_skip_limit:
  assumes "run_pipeline rt [Skip s, Limit l] docs = Inr ms"
  shows "\<exists>skip size. s = Fin (of_nat skip) \<and> l = Fin (of_nat size) \<and> 0 < size
     \<and> ms = take size (drop skip docs)"
proof -
  from assms obtain a where a: "s = Fin a" "0 \<le> a" "isInteger a"
    by (cases s) (auto split: if_splits sum.splits)
  from assms a obtain b where b: "l = Fin b" "0 < b" "isInteger b"
    by (cases l) (auto split: if_splits sum.splits)
  from assms a b have ms: "ms = take (nat \<lfloor>b\<rfloor>) (drop (nat \<lfloor>a\<rfloor>) docs)" by simp
  have ia: "of_int \<lfloor>a\<rfloor> = a" using a(3) unfolding isInteger_def .
  have ib: "of_int \<lfloor>b\<rfloor> = b" using b(3) unfolding isInteger_def .
  have "0 \<le> \<lfloor>a\<rfloor>" using a(2) by simp
  then have "of_nat (nat \<lfloor>a\<rfloor>) = (of_int \<lfloor>a\<rfloor> :: rat)" by simp
  then have "a = of_nat (nat \<lfloor>a\<rfloor>)" using ia by simp
  moreover have pb: "0 < \<lfloor>b\<rfloor>" using b(2) ib by (metis of_int_0_less_iff)
  then have "of_nat (nat \<lfloor>b\<rfloor>) = (of_int \<lfloor>b\<rfloor> :: rat)" by simp
  then have "b = of_nat (nat \<lfloor>b\<rfloor>)" using ib by simp
  moreover have "0 < nat \<lfloor>b\<rfloor>" using pb by simp
  ultimately show ?thesis using a(1) b(1) ms by blast
qed

lemma getMovies_pipeline_run:
  assumes "run_pipeline rt (getMovies_pipeline rt q) docs = Inr ms"
  shows "\<exists>skip size. js_mul (js_sub (safePage rt q) (Fin 1)) (safeLimit rt q) = Fin (of_nat skip)
     \<and> safeLimit rt q = Fin (of_nat size) \<and> 0 < size
     \<and> ms = take size (drop skip (getMovies_selected rt q docs))"
proof -
  let ?pre = "(case trimmed (q_title q) of None \<Rightarrow> [] | Some t \<Rightarrow> [Search t])
      @ (if getMovies_filters rt q \<noteq> [] then [Match (getMovies_filters rt q)] else [])
      @ (if getMovies_sortOptions q \<noteq> [] then [Sort (getMovies_sortOptions q)] else [])"
  let ?tail = "[Skip (js_mul (js_sub (safePage rt q) (Fin 1)) (safeLimit rt q)),
      Limit (safeLimit rt q)]"
  have "getMovies_pipeline rt q = ?pre @ ?tail"
    by (simp add: getMovies_pipeline_def)
  then have "run_pipeline rt (getMovies_pipeline rt q) docs =
      run_pipeline rt ?tail (getMovies_selected rt q docs)"
    using run_pipeline_append [of rt ?pre ?tail docs] run_prefix [of rt q docs]
    by (simp only: sum.case)
  with assms have "run_pipeline rt ?tail (getMovies_selected rt q docs) = Inr ms"
    by simp
  then show ?thesis by (rule run_skip_limit)
qed

lemma sort_fields_length:
  "length (foldr (\<lambda>k ds. sort_key (\<lambda>m. - sort_value k m) ds) ks docs) = length docs"
  by (induction ks) auto

lemma selected_length:
  "trimmed (q_title q) = None \<Longrightarrow>
   length (getMovies_selected rt q docs) = length (matching rt (getMovies_filters rt q) docs)"
  by (simp add: getMovies_selected_def sort_fields_length)

lemma js_mul_Fin:
  assumes "js_mul (js_sub a (Fin 1)) (Fin b) = Fin c"
  shows "\<exists>p. a = Fin p \<and> c = (p - 1) * b"
  using assms by (cases a) (auto simp: js_sub_def js_inf_def split: if_splits)

text \<open>
  C1, as the code has it. In every response with status 200 the page size is
  \<open>min(Number(limit), 100)\<close>, a positive integer of at most 100, and the page number is
  \<open>max(Number(page), 1)\<close>; the movies returned are the selected ones after the first
  \<open>(page - 1) * size\<close>, at most \<open>size\<close> of them; \<open>totalPages\<close> is the ceiling of
  \<open>total / size\<close>. Without a title, \<open>total\<close> is the number of movies that match the
  filters, over all pages; with a title it is the number of movies on the returned page.
\<close>

theorem getMovies_pagination:
  assumes "fst (getMovies rt q w) = Inr r" and "status r = 200"
  shows "\<exists>size skip p pg.
      safeLimit rt q = Math_min (limitParam rt q) (Fin 100)
    \<and> safeLimit rt q = Fin (of_nat size) \<and> 0 < size \<and> size \<le> 100
    \<and> safePage rt q = Math_max (pageParam rt q) (Fin 1)
    \<and> safePage rt q = Fin p \<and> 1 \<le> p
    \<and> of_nat skip = (p - 1) * of_nat size
    \<and> body r = Json pg
    \<and> p_page pg = Fin p
    \<and> p_movies pg = take size (drop skip (getMovies_selected rt q (movies w)))
    \<and> length (p_movies pg) \<le> size
    \<and> p_count pg = length (p_movies pg)
    \<and> p_total pg =
        (if trimmed (q_title q) = None
         then length (matching rt (getMovies_filters rt q) (movies w))
         else length (p_movies pg))
    \<and> p_totalPages pg = Fin (of_int \<lceil>(of_nat (p_total pg) :: rat) / of_nat size\<rceil>)"
proof -
  from getMovies_200 [OF assms] obtain ms n w1 w2 where
    agg: "Movie_aggregate rt (getMovies_pipeline rt q) w = (Inr ms, w1)"
    and cnt: "(if trimmed (q_title q) \<noteq> None then io_return (length ms)
              else Movie_countDocuments rt (getMovies_filters rt q)) w1 = (Inr n, w2)"
    and bd: "body r = Json \<lparr>p_count = length ms, p_total = n, p_page = safePage rt q,
       p_totalPages = Math_ceil (js_div (Fin (of_nat n)) (safeLimit rt q)),
       p_movies = ms\<rparr>"
    by blast
  from aggregate_Inr [OF agg] have run: "run_pipeline rt (getMovies_pipeline rt q) (movies w) = Inr ms"
    and same: "movies w1 = movies w" by simp_all
  from getMovies_pipeline_run [OF run] obtain skip size where
    sk: "js_mul (js_sub (safePage rt q) (Fin 1)) (safeLimit rt q) = Fin (of_nat skip)"
    and sz: "safeLimit rt q = Fin (of_nat size)" "0 < size"
    and ms: "ms = take size (drop skip (getMovies_selected rt q (movies w)))"
    by blast
  from sk sz(1) js_mul_Fin [of "safePage rt q" "of_nat size" "of_nat skip"]
  obtain p where p: "safePage rt q = Fin p" "of_nat skip = (p - 1) * of_nat size"
    by auto
  have p1: "1 \<le> p"
    using p(1) Math_max_ge [of "pageParam rt q"] unfolding safePage_eq
    by (cases "pageParam rt q") (auto simp: Math_max_def split: if_splits)
  have s100: "size \<le> 100"
  proof -
    from Math_min_le [of "limitParam rt q"] sz(1)
    have "js_le (Fin (of_nat size)) (Fin 100)" unfolding safeLimit_eq by auto
    then have "(of_nat size :: rat) \<le> of_nat 100" by simp
    then show ?thesis by (simp only: of_nat_le_iff)
  qed
  have n: "n = (if trimmed (q_title q) = None
         then length (matching rt (getMovies_filters rt q) (movies w)) else length ms)"
    using cnt same by (auto simp: io_return_def dest: countDocuments_Inr split: if_splits)
  have tp: "Math_ceil (js_div (Fin (of_nat n)) (safeLimit rt q))
      = Fin (of_int \<lceil>(of_nat n :: rat) / of_nat size\<rceil>)"
    using sz by simp
  have len: "length ms \<le> size" using ms by simp
  show ?thesis
    apply (rule exI [of _ size], rule exI [of _ skip], rule exI [of _ p])
    apply (rule exI [of _ "\<lparr>p_count = length ms, p_total = n, p_page = safePage rt q,
       p_totalPages = Math_ceil (js_div (Fin (of_nat n)) (safeLimit rt q)), p_movies = ms\<rparr>"])
    using sz s100 p p1 bd ms len n tp
    apply (simp add: safeLimit_eq [symmetric] safePage_eq [symmetric])
    done
qed


lemmas getMovies_unfold =
  getMovies_def getMovies_body_def try_catch_def io_bind_def respond_def
  io_return_def Movie_aggregate_def Movie_countDocuments_def db_def getMovies_pipeline_def
  getMovies_filters_def getMovies_sortOptions_def safeLimit_def safePage_def trimmed_def
  matching_def Math_min_def Math_max_def js_sub_def isInteger_def startOfDay_def msPerDay_def
  pageParam_def limitParam_def getMovies_selected_def

lemmas sample_unfold = rt0_def sample_db_def no_query_def number_table_def mv_def

theorem getMovies_pagination_witness:
  "fst (getMovies rt0 page2_query sample_db) = Inr page2_response
   \<and> status page2_response = 200
   \<and> (\<exists>size skip p pg.
      safeLimit rt0 page2_query = Math_min (limitParam rt0 page2_query) (Fin 100)
    \<and> safeLimit rt0 page2_query = Fin (of_nat size) \<and> 0 < size \<and> size \<le> 100
    \<and> safePage rt0 page2_query = Math_max (pageParam rt0 page2_query) (Fin 1)
    \<and> safePage rt0 page2_query = Fin p \<and> 1 \<le> p
    \<and> of_nat skip = (p - 1) * of_nat size
    \<and> body page2_response = Json pg
    \<and> p_page pg = Fin p
    \<and> p_movies pg = take size (drop skip (getMovies_selected rt0 page2_query (movies sample_db)))
    \<and> length (p_movies pg) \<le> size
    \<and> p_count pg = length (p_movies pg)
    \<and> p_total pg =
        (if trimmed (q_title page2_query) = None
         then length (matching rt0 (getMovies_filters rt0 page2_query) (movies sample_db))
         else length (p_movies pg))
    \<and> p_totalPages pg = Fin (of_int \<lceil>(of_nat (p_total pg) :: rat) / of_nat size\<rceil>))"
proof (intro conjI)
  show run: "fst (getMovies rt0 page2_query sample_db) = Inr page2_response"
    by (simp add: getMovies_unfold sample_unfold ceiling_eq_iff page2_query_def page2_response_def)
  show st: "status page2_response = 200"
    by (simp add: page2_response_def)
  from run st show "\<exists>size skip p pg.
      safeLimit rt0 page2_query = Math_min (limitParam rt0 page2_query) (Fin 100)
    \<and> safeLimit rt0 page2_query = Fin (of_nat size) \<and> 0 < size \<and> size \<le> 100
    \<and> safePage rt0 page2_query = Math_max (pageParam rt0 page2_query) (Fin 1)
    \<and> safePage rt0 page2_query = Fin p \<and> 1 \<le> p
    \<and> of_nat skip = (p - 1) * of_nat size
    \<and> body page2_response = Json pg
    \<and> p_page pg = Fin p
    \<and> p_movies pg = take size (drop skip (getMovies_selected rt0 page2_query (movies sample_db)))
    \<and> length (p_movies pg) \<le> size
    \<and> p_count pg = length (p_movies pg)
    \<and> p_total pg =
        (if trimmed (q_title page2_query) = None
         then length (matching rt0 (getMovies_filters rt0 page2_query) (movies sample_db))
         else length (p_movies pg))
    \<and> p_totalPages pg = Fin (of_int \<lceil>(of_nat (p_total pg) :: rat) / of_nat size\<rceil>)"
    by (rule getMovies_pagination)
qed

text \<open>
  With a title the handler does not count: \<open>total\<close> is the length of the page it
  returns. Three movies pass the search below and none is filtered out, the page size is
  2, and the response reports a total of 2 on one page.
\<close>

theorem getMovies_total_counterexample:
  "fst (getMovies rt0 (no_query\<lparr>q_limit := Some ''2'', q_title := Some ''a''\<rparr>) sample_db)
     = Inr \<lparr>status = 200, body = Json \<lparr>p_count = 2, p_total = 2, p_page = Fin 1,
        p_totalPages = Fin 1,
        p_movies = [mv 1 ''Oppenheimer'' 1758672000000, mv 2 ''Barbie'' 1758762000000]\<rparr>\<rparr>
   \<and> length (getMovies_selected rt0 (no_query\<lparr>q_limit := Some ''2'', q_title := Some ''a''\<rparr>)
        (movies sample_db)) = 3"
  by (simp add: getMovies_unfold sample_unfold ceiling_eq_iff isSpace_def trim_def)

subsection \<open>Clamping of page and limit\<close>

lemmas io_unfold = try_catch_def io_bind_def respond_def io_return_def io_throw_def db_def

text \<open>
  What becomes of a size that is not a positive integer: the aggregation rejects it and
  the request is answered with status 500.
\<close>

lemma getMovies_rejects_size:
  assumes "\<not> (\<exists>n. 0 < n \<and> safeLimit rt q = Fin (of_nat n))"
  shows "fst (getMovies rt q w) = Inr \<lparr>status = 500, body = Error ''Server error while fetching movies''\<rparr>"
proof -
  have "\<exists>e. run_pipeline rt (getMovies_pipeline rt q) docs = Inl e" for docs
  proof (cases "run_pipeline rt (getMovies_pipeline rt q) docs")
    case (Inr ms)
    from getMovies_pipeline_run [OF this] assms show ?thesis by blast
  qed simp
  then have "\<exists>e w'. Movie_aggregate rt (getMovies_pipeline rt q) w = (Inl e, w')"
    unfolding Movie_aggregate_def db_def
    by (auto split: list.splits option.splits)
  then show ?thesis
    unfolding getMovies_def getMovies_body_def try_catch_def io_bind_def respond_def io_return_def
    by auto
qed

lemma getMovies_rejects_pipeline:
  assumes "\<not> (\<exists>n. 0 < n \<and> safeLimit rt q = Fin (of_nat n))"
  shows "\<exists>e. run_pipeline rt (getMovies_pipeline rt q) docs = Inl e"
proof (cases "run_pipeline rt (getMovies_pipeline rt q) docs")
  case (Inr ms)
  from getMovies_pipeline_run [OF this] assms show ?thesis by blast
qed simp

lemma not_positive_size:
  "s = NaN \<or> js_le s (Fin 0) \<Longrightarrow> \<not> (\<exists>n. 0 < n \<and> s = Fin (of_nat n))"
  by (cases s) auto

text \<open>
  C10, as the code has it. The page number is clamped from below, the page size only
  from above. When \<open>Number(page)\<close> is a number the effective page is at least 1. The
  effective size is \<open>min(Number(limit), 100)\<close>: it is \<open>NaN\<close> or at most 100, and a
  limit of 0, a negative limit or one that is not a number is the size itself. That
  size stands in the \<open>$skip\<close> and \<open>$limit\<close> stages at the end of the pipeline. A size
  that is not a positive integer, so a size of 0, a negative size and \<open>NaN\<close>, makes the
  aggregation fail on every collection: the handler never computes \<open>totalPages\<close> and
  answers 500 whatever the database holds.
\<close>

theorem getMovies_clamping:
  "(pageParam rt q \<noteq> NaN \<longrightarrow> js_le (Fin 1) (safePage rt q))
   \<and> safePage rt q = Math_max (pageParam rt q) (Fin 1)
   \<and> safeLimit rt q = Math_min (limitParam rt q) (Fin 100)
   \<and> (safeLimit rt q = NaN \<or> js_le (safeLimit rt q) (Fin 100))
   \<and> (js_le (limitParam rt q) (Fin 100) \<longrightarrow> safeLimit rt q = limitParam rt q)
   \<and> (limitParam rt q = NaN \<longrightarrow> safeLimit rt q = NaN)
   \<and> (\<exists>pre. getMovies_pipeline rt q =
          pre @ [Skip (js_mul (js_sub (safePage rt q) (Fin 1)) (safeLimit rt q)),
                 Limit (safeLimit rt q)])
   \<and> (\<not> (\<exists>n. 0 < n \<and> safeLimit rt q = Fin (of_nat n)) \<longrightarrow>
        (\<forall>docs. \<exists>e. run_pipeline rt (getMovies_pipeline rt q) docs = Inl e)
        \<and> (\<forall>w. fst (getMovies rt q w) =
              Inr \<lparr>status = 500, body = Error ''Server error while fetching movies''\<rparr>))
   \<and> (safeLimit rt q = NaN \<or> js_le (safeLimit rt q) (Fin 0) \<longrightarrow>
        (\<forall>w. fst (getMovies rt q w) =
              Inr \<lparr>status = 500, body = Error ''Server error while fetching movies''\<rparr>))"
proof -
  have pl: "\<exists>pre. getMovies_pipeline rt q =
          pre @ [Skip (js_mul (js_sub (safePage rt q) (Fin 1)) (safeLimit rt q)),
                 Limit (safeLimit rt q)]"
    unfolding getMovies_pipeline_def by (metis append.assoc)
  have a: "pageParam rt q \<noteq> NaN \<longrightarrow> js_le (Fin 1) (safePage rt q)"
    using Math_max_ge [of "pageParam rt q"] by (simp add: safePage_eq)
  have b: "safeLimit rt q = NaN \<or> js_le (safeLimit rt q) (Fin 100)"
    using Math_min_le [of "limitParam rt q"] by (simp add: safeLimit_eq)
  have c: "js_le (limitParam rt q) (Fin 100) \<longrightarrow> safeLimit rt q = limitParam rt q"
    by (simp add: safeLimit_eq Math_min_def)
  have d: "limitParam rt q = NaN \<longrightarrow> safeLimit rt q = NaN"
    by (simp add: safeLimit_eq Math_min_def)
  have e: "\<not> (\<exists>n. 0 < n \<and> safeLimit rt q = Fin (of_nat n)) \<longrightarrow>
        (\<forall>docs. \<exists>e. run_pipeline rt (getMovies_pipeline rt q) docs = Inl e)
        \<and> (\<forall>w. fst (getMovies rt q w) =
              Inr \<lparr>status = 500, body = Error ''Server error while fetching movies''\<rparr>)"
    using getMovies_rejects_pipeline [of rt q] getMovies_rejects_size [of rt q] by blast
  have f: "safeLimit rt q = NaN \<or> js_le (safeLimit rt q) (Fin 0) \<longrightarrow>
        (\<forall>w. fst (getMovies rt q w) =
              Inr \<lparr>status = 500, body = Error ''Server error while fetching movies''\<rparr>)"
    using e not_positive_size [of "safeLimit rt q"] by blast
  from a b c d e f pl safePage_eq [of rt q] safeLimit_eq [of rt q] show ?thesis
    by blast
qed

text \<open>
  C10 as it is worded does not hold. A page that is not a number is not clamped:
  \<open>Math.max(NaN, 1)\<close> is \<open>NaN\<close>, which is not at least 1. And a size of 0 does not
  reach \<open>totalPages\<close>: the body throws in the aggregation and the answer is 500.
\<close>

theorem getMovies_clamping_counterexample:
  "pageParam rt0 (no_query\<lparr>q_page := Some ''abc''\<rparr>) = NaN
   \<and> safePage rt0 (no_query\<lparr>q_page := Some ''abc''\<rparr>) = NaN
   \<and> \<not> js_le (Fin 1) (safePage rt0 (no_query\<lparr>q_page := Some ''abc''\<rparr>))
   \<and> safeLimit rt0 (no_query\<lparr>q_limit := Some ''0''\<rparr>) = Fin 0
   \<and> getMovies_body rt0 (no_query\<lparr>q_limit := Some ''0''\<rparr>) sample_db =
        (Inl (Exn ''invalid argument to $limit''), sample_db)
   \<and> getMovies rt0 (no_query\<lparr>q_limit := Some ''0''\<rparr>) sample_db =
        (Inr \<lparr>status = 500, body = Error ''Server error while fetching movies''\<rparr>, sample_db)"
proof (intro conjI)
  let ?q = "no_query\<lparr>q_limit := Some ''0''\<rparr>"
  show "pageParam rt0 (no_query\<lparr>q_page := Some ''abc''\<rparr>) = NaN"
    "safePage rt0 (no_query\<lparr>q_page := Some ''abc''\<rparr>) = NaN"
    "\<not> js_le (Fin 1) (safePage rt0 (no_query\<lparr>q_page := Some ''abc''\<rparr>))"
    by (simp_all add: pageParam_def safePage_def rt0_def no_query_def number_table_def Math_max_def)
  show "safeLimit rt0 ?q = Fin 0"
    by (simp add: safeLimit_def rt0_def no_query_def number_table_def Math_min_def)
  show b: "getMovies_body rt0 ?q sample_db = (Inl (Exn ''invalid argument to $limit''), sample_db)"
    by (simp add: getMovies_unfold sample_unfold)
  show "getMovies rt0 ?q sample_db =
        (Inr \<lparr>status = 500, body = Error ''Server error while fetching movies''\<rparr>, sample_db)"
    by (simp add: getMovies_def try_catch_def b respond_def io_return_def)
qed

text \<open>
  The theorem at the limits \<open>0\<close>, \<open>-5\<close> and \<open>abc\<close>: each is the size, and each request
  is answered with 500.
\<close>

theorem getMovies_clamping_witness:
  "pageParam rt0 (no_query\<lparr>q_page := Some ''3'', q_limit := Some ''0''\<rparr>) \<noteq> NaN
   \<and> js_le (Fin 1) (safePage rt0 (no_query\<lparr>q_page := Some ''3'', q_limit := Some ''0''\<rparr>))
   \<and> js_le (limitParam rt0 (no_query\<lparr>q_page := Some ''3'', q_limit := Some ''0''\<rparr>)) (Fin 100)
   \<and> safeLimit rt0 (no_query\<lparr>q_page := Some ''3'', q_limit := Some ''0''\<rparr>) = Fin 0
   \<and> fst (getMovies rt0 (no_query\<lparr>q_page := Some ''3'', q_limit := Some ''0''\<rparr>) sample_db) =
        Inr \<lparr>status = 500, body = Error ''Server error while fetching movies''\<rparr>
   \<and> js_le (limitParam rt0 (no_query\<lparr>q_limit := Some ''-5''\<rparr>)) (Fin 100)
   \<and> safeLimit rt0 (no_query\<lparr>q_limit := Some ''-5''\<rparr>) = Fin (- 5)
   \<and> fst (getMovies rt0 (no_query\<lparr>q_limit := Some ''-5''\<rparr>) sample_db) =
        Inr \<lparr>status = 500, body = Error ''Server error while fetching movies''\<rparr>
   \<and> limitParam rt0 (no_query\<lparr>q_limit := Some ''abc''\<rparr>) = NaN
   \<and> safeLimit rt0 (no_query\<lparr>q_limit := Some ''abc''\<rparr>) = NaN
   \<and> fst (getMovies rt0 (no_query\<lparr>q_limit := Some ''abc''\<rparr>) sample_db) =
        Inr \<lparr>status = 500, body = Error ''Server error while fetching movies''\<rparr>"
proof -
  let ?q0 = "no_query\<lparr>q_page := Some ''3'', q_limit := Some ''0''\<rparr>"
  let ?q5 = "no_query\<lparr>q_limit := Some ''-5''\<rparr>"
  let ?qa = "no_query\<lparr>q_limit := Some ''abc''\<rparr>"
  let ?r = "Inr \<lparr>status = 500, body = Error ''Server error while fetching movies''\<rparr>
    :: exn + movies_page response"
  have p0: "pageParam rt0 ?q0 \<noteq> NaN"
    by (simp add: pageParam_def rt0_def no_query_def number_table_def)
  have l0: "limitParam rt0 ?q0 = Fin 0" "limitParam rt0 ?q5 = Fin (- 5)" "limitParam rt0 ?qa = NaN"
    by (simp_all add: limitParam_def rt0_def no_query_def number_table_def)
  have le: "js_le (limitParam rt0 ?q0) (Fin 100)" "js_le (limitParam rt0 ?q5) (Fin 100)"
    by (simp_all add: l0)
  note A = getMovies_clamping [of rt0 ?q0]
  note B = getMovies_clamping [of rt0 ?q5]
  note C = getMovies_clamping [of rt0 ?qa]
  have a1: "js_le (Fin 1) (safePage rt0 ?q0)" using A p0 by blast
  have "safeLimit rt0 ?q0 = limitParam rt0 ?q0" using A le(1) by blast
  then have a2: "safeLimit rt0 ?q0 = Fin 0" by (simp only: l0(1))
  have "safeLimit rt0 ?q5 = limitParam rt0 ?q5" using B le(2) by blast
  then have b2: "safeLimit rt0 ?q5 = Fin (- 5)" by (simp only: l0(2))
  have c2: "safeLimit rt0 ?qa = NaN" using C l0(3) by blast
  have "safeLimit rt0 ?q0 = NaN \<or> js_le (safeLimit rt0 ?q0) (Fin 0)" by (simp add: a2)
  with A have a3: "fst (getMovies rt0 ?q0 sample_db) = ?r" by blast
  have "safeLimit rt0 ?q5 = NaN \<or> js_le (safeLimit rt0 ?q5) (Fin 0)" by (simp add: b2)
  with B have b3: "fst (getMovies rt0 ?q5 sample_db) = ?r" by blast
  have "safeLimit rt0 ?qa = NaN \<or> js_le (safeLimit rt0 ?qa) (Fin 0)" by (simp add: c2)
  with C have c3: "fst (getMovies rt0 ?qa sample_db) = ?r" by blast
  from p0 a1 le a2 a3 b2 b3 l0(3) c2 c3 show ?thesis by simp
qed

subsection \<open>The release date filter\<close>

text \<open>
  \<open>getMovies\<close> compares the release date with the last local midnight; \<open>true\<close> and
  \<open>false\<close> select complementary sets of movies. \<open>getAllMovies\<close> compares it with the
  time of the request.
\<close>

lemma startOfDay_bounds:
  "startOfDay z t \<le> t \<and> t < startOfDay z t + msPerDay \<and> (startOfDay z t + z) mod msPerDay = 0"
proof -
  have "0 \<le> (t + z) mod msPerDay" "(t + z) mod msPerDay < msPerDay"
    by (simp_all add: msPerDay_def)
  moreover have "(t + z - (t + z) mod msPerDay) mod msPerDay = 0"
    by (simp add: minus_mod_eq_mult_div)
  moreover have "t - (t + z) mod msPerDay + z = t + z - (t + z) mod msPerDay" by simp
  ultimately show ?thesis unfolding startOfDay_def by (simp only:) simp
qed

lemma getMovies_isUpcoming_cutoff:
  "(q_isUpcoming q = Some ''true'' \<longrightarrow>
      hd (getMovies_filters rt q) = ReleaseGt (startOfDay (tz rt) (now rt)))
   \<and> (q_isUpcoming q = Some ''false'' \<longrightarrow>
      hd (getMovies_filters rt q) = ReleaseLte (startOfDay (tz rt) (now rt)))
   \<and> (matches rt (ReleaseGt d) m \<longleftrightarrow> \<not> matches rt (ReleaseLte d) m)"
  by (auto simp: getMovies_filters_def)

lemma getAllMovies_isUpcoming_cutoff:
  "(isUpcoming = Some ''true'' \<longrightarrow> getAllMovies_filter rt isUpcoming = [ReleaseGt (now rt)])
   \<and> (isUpcoming = Some ''false'' \<longrightarrow> getAllMovies_filter rt isUpcoming = [ReleaseLte (now rt)])"
  by (simp add: getAllMovies_filter_def)

text \<open>
  C3 at a failing input. The request comes on 2025-09-25 at 10:00 UTC, on a server in
  UTC, and the movie Barbie was released that day at 01:00: after midnight, before the
  request. With \<open>isUpcoming = 'true'\<close> \<open>GET /api/movies\<close> lists it and the admin
  handler does not; with \<open>'false'\<close> the admin handler lists it.
\<close>

theorem isUpcoming_cutoffs_differ:
  "now rt0 = 1758794400000 \<and> startOfDay (tz rt0) (now rt0) = 1758758400000
   \<and> fst (getMovies rt0 (no_query\<lparr>q_isUpcoming := Some ''true''\<rparr>) sample_db)
     = Inr \<lparr>status = 200, body = Json \<lparr>p_count = 2, p_total = 2, p_page = Fin 1,
        p_totalPages = Fin 1,
        p_movies = [mv 2 ''Barbie'' 1758762000000, mv 3 ''Jawan'' 1758844800000]\<rparr>\<rparr>
   \<and> fst (getAllMovies rt0 (Some ''true'') sample_db)
     = Inr \<lparr>status = 200, body = Json \<lparr>l_count = 1,
        l_movies = [mv 3 ''Jawan'' 1758844800000]\<rparr>\<rparr>
   \<and> fst (getAllMovies rt0 (Some ''false'') sample_db)
     = Inr \<lparr>status = 200, body = Json \<lparr>l_count = 2,
        l_movies = [mv 2 ''Barbie'' 1758762000000, mv 1 ''Oppenheimer'' 1758672000000]\<rparr>\<rparr>"
  by (simp add: getMovies_unfold sample_unfold ceiling_eq_iff getAllMovies_def getAllMovies_body_def
      getAllMovies_filter_def Movie_find_sorted_def)

subsection \<open>Deleting and updating a movie\<close>

lemma db_frame:
  assumes "\<And>v. theaters (snd (f v)) = theaters v" 
  shows "theaters (snd (db f w)) = theaters w"
  using assms by (auto simp: db_def split: list.splits option.splits)

lemmas deleteMovie_unfold =
  deleteMovie_def deleteMovie_body_def Movie_findByIdAndDelete_def cast_id_def io_unfold

lemma deleteMovie_others:
  "theaters (snd (deleteMovie rt movieId w)) = theaters w
   \<and> bookings (snd (deleteMovie rt movieId w)) = bookings w
   \<and> users (snd (deleteMovie rt movieId w)) = users w"
  unfolding deleteMovie_unfold
  by (auto split: option.splits list.splits sum.splits prod.splits)

lemma deleteMovie_movies:
  "movies (snd (deleteMovie rt movieId w)) = movies w
   \<or> (\<exists>s k. movieId = Some s \<and> castObjectId rt s = Some k
         \<and> movies (snd (deleteMovie rt movieId w))
             = delete_first (\<lambda>m. m_id m = k) (movies w))"
  unfolding deleteMovie_unfold
  by (auto split: option.splits list.splits sum.splits prod.splits)

lemma deleteMovie_200:
  assumes "fst (deleteMovie rt movieId w) = Inr r" and "status r = 200"
  shows "\<exists>s k m. movieId = Some s \<and> castObjectId rt s = Some k
     \<and> find (\<lambda>m. m_id m = k) (movies w) = Some m
     \<and> body r = Json \<lparr>message = check_mark @ '' Movie deleted'', payload = m\<rparr>
     \<and> movies (snd (deleteMovie rt movieId w)) = delete_first (\<lambda>m. m_id m = k) (movies w)"
  using assms unfolding deleteMovie_unfold
  by (auto split: option.splits list.splits sum.splits prod.splits if_splits)

text \<open>
  C9. Whatever the request and the state, \<open>deleteMovie\<close> leaves the theaters (and the
  bookings and users) as they are; the movies are unchanged, or lose the first document
  with the requested id. When it answers 200, that document was there and is the one
  removed and returned. So a deleted movie's title stays in every \<open>movieTitles\<close> and the
  showtimes that refer to it stay in every theater.
\<close>

theorem deleteMovie_frame:
  "theaters (snd (deleteMovie rt movieId w)) = theaters w
   \<and> bookings (snd (deleteMovie rt movieId w)) = bookings w
   \<and> users (snd (deleteMovie rt movieId w)) = users w
   \<and> (movies (snd (deleteMovie rt movieId w)) = movies w
      \<or> (\<exists>s k. movieId = Some s \<and> castObjectId rt s = Some k
            \<and> movies (snd (deleteMovie rt movieId w))
                = delete_first (\<lambda>m. m_id m = k) (movies w)))
   \<and> (\<forall>r. fst (deleteMovie rt movieId w) = Inr r \<and> status r = 200 \<longrightarrow>
        (\<exists>s k m. movieId = Some s \<and> castObjectId rt s = Some k
          \<and> find (\<lambda>m. m_id m = k) (movies w) = Some m
          \<and> body r = Json \<lparr>message = check_mark @ '' Movie deleted'', payload = m\<rparr>
          \<and> movies (snd (deleteMovie rt movieId w))
              = delete_first (\<lambda>m. m_id m = k) (movies w)))"
  using deleteMovie_others [of rt movieId w] deleteMovie_movies [of rt movieId w]
    deleteMovie_200 [of rt movieId w]
  by blast

theorem deleteMovie_frame_witness:
  "fst (deleteMovie rt0 (Some id_a) linked_db)
     = Inr \<lparr>status = 200, body = Json \<lparr>message = check_mark @ '' Movie deleted'',
         payload = hd (movies linked_db)\<rparr>\<rparr>
   \<and> movies (snd (deleteMovie rt0 (Some id_a) linked_db)) = []
   \<and> theaters (snd (deleteMovie rt0 (Some id_a) linked_db)) = theaters linked_db
   \<and> map t_movieTitles (theaters (snd (deleteMovie rt0 (Some id_a) linked_db))) = [[''Oppenheimer'']]
   \<and> map (map st_movie \<circ> t_showtimes) (theaters (snd (deleteMovie rt0 (Some id_a) linked_db)))
       = [[Some 1]]"
proof -
  let ?r = "\<lparr>status = 200, body = Json \<lparr>message = check_mark @ '' Movie deleted'',
         payload = hd (movies linked_db)\<rparr>\<rparr>"
  have run: "fst (deleteMovie rt0 (Some id_a) linked_db) = Inr ?r"
    by (simp add: deleteMovie_unfold rt0_def linked_db_def mv_def id_a_def id_b_def id_c_def)
  have st: "status ?r = 200" by simp
  have c: "castObjectId rt0 id_a = Some 1"
    by (simp add: rt0_def id_a_def id_b_def id_c_def)
  note F = deleteMovie_frame [of rt0 "Some id_a" linked_db]
  from F have th: "theaters (snd (deleteMovie rt0 (Some id_a) linked_db)) = theaters linked_db"
    by blast
  from F run st obtain s k where "Some id_a = Some s" "castObjectId rt0 s = Some k"
    "movies (snd (deleteMovie rt0 (Some id_a) linked_db))
       = delete_first (\<lambda>m. m_id m = k) (movies linked_db)"
    by blast
  with c have mv: "movies (snd (deleteMovie rt0 (Some id_a) linked_db)) = []"
    by (simp add: linked_db_def mv_def)
  have t: "map t_movieTitles (theaters linked_db) = [[''Oppenheimer'']]"
    "map (map st_movie \<circ> t_showtimes) (theaters linked_db) = [[Some 1]]"
    by (simp_all add: linked_db_def show1_def)
  from run mv th t show ?thesis by simp
qed

lemmas agree_unfold = copies_agree_def entry_of_def showtimes_for_def

text \<open>
  C2. Agreement of the two copies is not preserved by every operation. In the database
  \<open>linked_db\<close> they agree; \<open>updateMovie\<close> with a body that sets \<open>embeddedTheaters\<close>
  answers 200 and rewrites the movie only; the theater still holds the showtime, the
  movie no longer does, and the copies disagree.
\<close>

theorem updateMovie_breaks_agreement:
  "copies_agree linked_db
   \<and> fst (updateMovie rt0 id_a [SetEmbeddedTheaters []] linked_db)
       = Inr \<lparr>status = 200, body = Json \<lparr>message = check_mark @ '' Movie updated'',
           payload = (mv 1 ''Oppenheimer'' 1758672000000)\<rparr>\<rparr>
   \<and> theaters (snd (updateMovie rt0 id_a [SetEmbeddedTheaters []] linked_db)) = theaters linked_db
   \<and> \<not> copies_agree (snd (updateMovie rt0 id_a [SetEmbeddedTheaters []] linked_db))"
  by (simp add: agree_unfold updateMovie_def updateMovie_body_def Movie_findByIdAndUpdate_def Movie_updateById_def cast_id_def io_unfold
      apply_updates_def rt0_def linked_db_def mv_def id_a_def id_b_def id_c_def show1_def)

lemma updateMovie_frame:
  "theaters (snd (updateMovie rt movieId us w)) = theaters w"
  unfolding updateMovie_def updateMovie_body_def Movie_findByIdAndUpdate_def Movie_updateById_def cast_id_def io_unfold
  by (auto split: option.splits list.splits sum.splits prod.splits)

subsection \<open>Language fallback of the TMDB search\<close>

lemma seed_search_spec:
  "fst (searchMovieInLanguages_over langs key title n) =
     (case find seed_hit (seed_answers langs key title n) of
        None \<Rightarrow> None
      | Some (lang, data) \<Rightarrow>
          (case first_result data of None \<Rightarrow> None
           | Some r \<Rightarrow> Some (r, split_first (CHR ''-'') lang)))"
  by (induction langs arbitrary: n)
     (auto simp: seed_hit_def Let_def split: prod.splits option.splits)

lemma handler_search_spec:
  "fst (fst (search_languages langs apiKey query n)) =
     (case find (\<lambda>a. found (snd a) \<noteq> []) (handler_answers langs apiKey query n) of
        None \<Rightarrow> []
      | Some (lang, x) \<Rightarrow> found x)"
proof (induction langs arbitrary: n)
  case Nil
  show ?case by simp
next
  case (Cons lang rest)
  obtain x n1 where g: "axios_get (tmdb_search_request apiKey query lang) n = (x, n1)"
    by (cases "axios_get (tmdb_search_request apiKey query lang) n")
  show ?case
  proof (cases x)
    case (Resolved st d)
    with g Cons.IH [of n1] show ?thesis by (cases d) auto
  next
    case (Rejected st)
    with g Cons.IH [of n1] show ?thesis by simp
  qed
qed

lemma seed_search_state:
  "snd (searchMovieInLanguages_over langs key title n) =
     seed_asked (upto_first seed_hit (seed_answers langs key title n) langs) key title n"
  by (induction langs arbitrary: n)
     (auto simp: seed_hit_def upto_first_def Let_def split: prod.splits option.splits)

lemma handler_search_sent:
  "sent (snd (search_languages langs apiKey query n)) =
     sent n @ map (tmdb_search_request apiKey query)
       (upto_first (\<lambda>a. found (snd a) \<noteq> []) (handler_answers langs apiKey query n) langs)"
proof (induction langs arbitrary: n)
  case Nil
  show ?case by (simp add: upto_first_def)
next
  case (Cons lang rest)
  obtain x n1 where g: "axios_get (tmdb_search_request apiKey query lang) n = (x, n1)"
    by (cases "axios_get (tmdb_search_request apiKey query lang) n")
  then have s1: "sent n1 = sent n @ [tmdb_search_request apiKey query lang]"
    by (auto simp: axios_get_def)
  show ?case
  proof (cases x)
    case (Resolved st d)
    with g s1 Cons.IH [of n1] show ?thesis by (cases d) (auto simp: upto_first_def)
  next
    case (Rejected st)
    with g s1 Cons.IH [of n1] show ?thesis by (simp add: upto_first_def)
  qed
qed

text \<open>
  C5, as the code has it. Both searches ask the languages of their fixed list in order
  and stop at the first one that yields a result. The handler, given a query that is not
  blank and an API key, answers 200 with the result list of that language (status 200,
  at least one result), or 404 when no language has one. The seed script returns the
  first result of that list with the two-letter prefix of the language (which must be
  backend-supported for the language to count), or \<open>null\<close> when no language has one.
\<close>

theorem tmdb_language_fallback:
  "(trim (split_first (CHR '':'') raw) \<noteq> [] \<and> k \<noteq> [] \<longrightarrow>
      fst (searchTmdbMovie (Some raw) (Some k) n) =
        Inr (case find (\<lambda>a. found (snd a) \<noteq> [])
                   (handler_answers supportedLanguages k (trim (split_first (CHR '':'') raw)) n) of
               None \<Rightarrow> \<lparr>status = 404, body = Error ''Movie not found in TMDB''\<rparr>
             | Some (lang, x) \<Rightarrow> \<lparr>status = 200, body = Json (found x)\<rparr>)
      \<and> sent (snd (searchTmdbMovie (Some raw) (Some k) n)) =
          sent n @ map (tmdb_search_request k (trim (split_first (CHR '':'') raw)))
            (upto_first (\<lambda>a. found (snd a) \<noteq> [])
               (handler_answers supportedLanguages k (trim (split_first (CHR '':'') raw)) n)
               supportedLanguages))
   \<and> fst (searchMovieInLanguages key title m) =
       (case find seed_hit (seed_answers supportedTmdbLanguages key title m) of
          None \<Rightarrow> None
        | Some (lang, data) \<Rightarrow>
            map_option (\<lambda>r. (r, split_first (CHR ''-'') lang)) (first_result data))
   \<and> snd (searchMovieInLanguages key title m) =
       seed_asked (upto_first seed_hit (seed_answers supportedTmdbLanguages key title m)
                     supportedTmdbLanguages) key title m"
proof -
  let ?q = "trim (split_first (CHR '':'') raw)"
  let ?ans = "handler_answers supportedLanguages k ?q n"
  obtain rs ml n1 where sl: "search_languages supportedLanguages k ?q n = ((rs, ml), n1)"
    by (metis prod.exhaust)
  have rs: "rs = (case find (\<lambda>a. found (snd a) \<noteq> []) ?ans of None \<Rightarrow> [] | Some (lang, x) \<Rightarrow> found x)"
    using handler_search_spec [of supportedLanguages k ?q n] sl by simp
  have n1: "sent n1 = sent n @ map (tmdb_search_request k ?q)
      (upto_first (\<lambda>a. found (snd a) \<noteq> []) ?ans supportedLanguages)"
    using handler_search_sent [of supportedLanguages k ?q n] sl by simp
  have hit: "found (snd a) \<noteq> []" if "find (\<lambda>a. found (snd a) \<noteq> []) ?ans = Some a" for a
    using that by (auto simp: find_Some_iff)
  have H: "fst (searchTmdbMovie (Some raw) (Some k) n) =
        Inr (case find (\<lambda>a. found (snd a) \<noteq> []) ?ans of
               None \<Rightarrow> \<lparr>status = 404, body = Error ''Movie not found in TMDB''\<rparr>
             | Some (lang, x) \<Rightarrow> \<lparr>status = 200, body = Json (found x)\<rparr>)
      \<and> sent (snd (searchTmdbMovie (Some raw) (Some k) n)) =
          sent n @ map (tmdb_search_request k ?q)
            (upto_first (\<lambda>a. found (snd a) \<noteq> []) ?ans supportedLanguages)"
    if "?q \<noteq> []" "k \<noteq> []"
  proof (cases "find (\<lambda>a. found (snd a) \<noteq> []) ?ans")
    case None
    with rs have "rs = []" by simp
    with that sl n1 None show ?thesis
      by (simp add: searchTmdbMovie_def searchTmdbMovie_body_def try_catch_def respond_def io_return_def)
  next
    case (Some a)
    with rs hit [OF Some] have "rs = found (snd a)" "rs \<noteq> []"
      by (auto split: prod.splits)
    with that sl n1 Some show ?thesis
      by (simp add: searchTmdbMovie_def searchTmdbMovie_body_def try_catch_def respond_def io_return_def split: prod.splits)
  qed
  have S1: "fst (searchMovieInLanguages key title m) =
       (case find seed_hit (seed_answers supportedTmdbLanguages key title m) of
          None \<Rightarrow> None
        | Some (lang, data) \<Rightarrow>
            map_option (\<lambda>r. (r, split_first (CHR ''-'') lang)) (first_result data))"
    unfolding searchMovieInLanguages_def seed_search_spec
    by (auto split: option.splits)
  have S2: "snd (searchMovieInLanguages key title m) =
       seed_asked (upto_first seed_hit (seed_answers supportedTmdbLanguages key title m)
                     supportedTmdbLanguages) key title m"
    unfolding searchMovieInLanguages_def by (rule seed_search_state)
  from H S1 S2 show ?thesis by blast
qed

lemma fetchWithRetry_first:
  "0 < retries \<Longrightarrow> fetchWithRetry q retries delay n =
     (case replies n q (length (sent n)) of
        Resolved st d \<Rightarrow> (Data d, n\<lparr>sent := sent n @ [q]\<rparr>)
      | Rejected st \<Rightarrow>
          if st = Some 404 \<or> retries = 1 then (Null, n\<lparr>sent := sent n @ [q]\<rparr>)
          else fetchWithRetry_from 1 q retries delay (setTimeout delay (n\<lparr>sent := sent n @ [q]\<rparr>)))"
  unfolding fetchWithRetry_def
  by (subst fetchWithRetry_from.simps) (auto simp: axios_get_def split: outcome.splits)

theorem tmdb_language_fallback_witness:
  "trim (split_first (CHR '':'') ''Jawan: 2023'') = ''Jawan''
   \<and> fst (searchTmdbMovie (Some ''Jawan: 2023'') (Some ''key'') hindi_net)
       = Inr \<lparr>status = 200, body = Json [jawan1, jawan2]\<rparr>
   \<and> sent (snd (searchTmdbMovie (Some ''Jawan: 2023'') (Some ''key'') hindi_net))
       = [tmdb_search_request ''key'' ''Jawan'' ''en'', tmdb_search_request ''key'' ''Jawan'' ''hi'']
   \<and> fst (searchTmdbMovie (Some ''Jawan: 2023'') (Some ''key'') empty_net)
       = Inr \<lparr>status = 404, body = Error ''Movie not found in TMDB''\<rparr>
   \<and> length (sent (snd (searchTmdbMovie (Some ''Jawan: 2023'') (Some ''key'') empty_net))) = 11"
proof -
  have q: "trim (split_first (CHR '':'') ''Jawan: 2023'') = ''Jawan''"
    by (simp add: trim_def split_first_def isSpace_def)
  have k: "''key'' \<noteq> []" by simp
  have ah: "handler_answers supportedLanguages ''key'' ''Jawan'' hindi_net
      = (''en'', Resolved 200 (Some [])) # (''hi'', Resolved 200 (Some [jawan1, jawan2]))
        # map (\<lambda>l. (l, Resolved 200 (Some [jawan1, jawan2]))) (drop 2 supportedLanguages)"
    by (simp add: supportedLanguages_def axios_get_def hindi_net_def)
  have ae: "handler_answers supportedLanguages ''key'' ''Jawan'' empty_net
      = map (\<lambda>l. (l, Resolved 200 (Some []))) supportedLanguages"
    by (simp add: supportedLanguages_def axios_get_def empty_net_def)
  have j: "[jawan1, jawan2] \<noteq> []" by simp
  note H = tmdb_language_fallback [of "''Jawan: 2023''" "''key''" hindi_net, THEN conjunct1]
  note E = tmdb_language_fallback [of "''Jawan: 2023''" "''key''" empty_net, THEN conjunct1]
  have h: "fst (searchTmdbMovie (Some ''Jawan: 2023'') (Some ''key'') hindi_net)
       = Inr \<lparr>status = 200, body = Json [jawan1, jawan2]\<rparr>
     \<and> sent (snd (searchTmdbMovie (Some ''Jawan: 2023'') (Some ''key'') hindi_net))
       = [tmdb_search_request ''key'' ''Jawan'' ''en'', tmdb_search_request ''key'' ''Jawan'' ''hi'']"
    using H k unfolding q ah
    by (simp add: upto_first_def supportedLanguages_def hindi_net_def)
  have e: "fst (searchTmdbMovie (Some ''Jawan: 2023'') (Some ''key'') empty_net)
       = Inr \<lparr>status = 404, body = Error ''Movie not found in TMDB''\<rparr>
     \<and> length (sent (snd (searchTmdbMovie (Some ''Jawan: 2023'') (Some ''key'') empty_net))) = 11"
    using E k unfolding q ae
    by (simp add: upto_first_def supportedLanguages_def empty_net_def find_None_iff)
  from q h e show ?thesis by simp
qed

text \<open>
  The Hindi search finds two movies; the seed script returns the first of them and the
  language code, not the list.
\<close>

theorem seed_search_counterexample:
  "seed_answers (take 2 supportedTmdbLanguages) ''key'' ''Jawan'' hindi_net
     = [(''en-US'', Data (Some [])), (''hi-IN'', Data (Some [jawan1, jawan2]))]
   \<and> fst (searchMovieInLanguages ''key'' ''Jawan'' hindi_net) = Some (jawan1, ''hi'')"
  by (simp add: searchMovieInLanguages_def supportedTmdbLanguages_def fetchWithRetry_first
      hindi_net_def split_first_def backendSupportedLanguages_def)

subsection \<open>Linking movies and theaters in the seed script\<close>


lemma seed_showtimes_run:
  "seed_showtimes rt ds k w = (Inr (showtimes_from rt ds k (draws w)), w\<lparr>draws := draws w + 4\<rparr>)"
  by (simp add: seed_showtimes_def times_def showtimes_from_def draw_blockedSeats_def
      io_bind_def io_return_def eval_nat_numeral)

lemma update_first_id:
  assumes "distinct (map t_id ths)" and "find P ths = Some t" and "\<And>x. t_id (r x) = t_id x"
  shows "update_first (\<lambda>x. t_id x = t_id t) g (update_first P r ths) = update_first P (\<lambda>x. g (r x)) ths"
  using assms(1,2)
proof (induction ths)
  case Nil
  then show ?case by simp
next
  case (Cons x xs)
  show ?case
  proof (cases "P x")
    case True
    with Cons.prems(2) have "x = t" by simp
    with True show ?thesis by (simp add: assms(3))
  next
    case False
    with Cons.prems(2) have f: "find P xs = Some t" by simp
    then have "t \<in> set xs" by (auto simp: find_Some_iff in_set_conv_nth)
    with Cons.prems(1) have "t_id x \<noteq> t_id t" by auto
    with False Cons.IH f Cons.prems(1) show ?thesis by simp
  qed
qed

lemma update_first_none: "\<not> list_ex P xs \<Longrightarrow> update_first P f xs = xs"
  by (induction xs) auto

lemma update_first_append_new:
  "\<not> list_ex P xs \<Longrightarrow> P y \<Longrightarrow> update_first P f (xs @ [y]) = xs @ [f y]"
  by (induction xs) auto

lemma find_list_ex: "find P xs = None \<longleftrightarrow> \<not> list_ex P xs"
  by (induction xs) auto

lemma reset_theater_simps [simp]:
  "t_id (reset_theater l t) = t_id t" "t_name (reset_theater l t) = t_name t"
  "t_location (reset_theater l t) = l" "t_showtimes (reset_theater l t) = []"
  "t_movieTitles (reset_theater l t) = []"
  by (simp_all add: reset_theater_def)

lemma link_theater_run:
  assumes "faults w = []" and "fresh_ids (theaters w) (next_id w)"
  shows "\<exists>k. link_theater rt ds m (name, location) w =
     (Inr (k, \<lparr>e_name = name, e_location = location,
               e_showtimes = showtimes_from rt ds (m_id m) (draws w)\<rparr>),
      w\<lparr>theaters := set_theater name location (showtimes_from rt ds (m_id m) (draws w))
                      (m_title m) (next_id w) (theaters w),
        next_id := (if list_ex (\<lambda>t. t_name t = name) (theaters w) then next_id w
                    else next_id w + 1),
        draws := draws w + 4\<rparr>)"
proof (cases "find (\<lambda>t. t_name t = name) (theaters w)")
  case None
  then have ne: "\<not> list_ex (\<lambda>t. t_name t = name) (theaters w)" by (simp add: find_list_ex)
  have nid: "\<not> list_ex (\<lambda>t. t_id t = next_id w) (theaters w)"
    using assms(2) by (auto simp: fresh_ids_def list_ex_iff list_all_iff)
  show ?thesis
    using None ne assms(1)
    by (simp add: link_theater_def ensureTheater_def Theater_updateOne_def seed_showtimes_run
        io_unfold set_theater_def update_first_append_new [OF nid] push_showtimes_def)
next
  case (Some t)
  then have ex: "list_ex (\<lambda>t. t_name t = name) (theaters w)"
    using find_list_ex [of "\<lambda>t. t_name t = name" "theaters w"] by simp
  from Some have nm: "t_name t = name" by (auto simp: find_Some_iff)
  have upd: "update_first (\<lambda>x. t_id x = t_id t) (push_showtimes S title)
        (update_first (\<lambda>t. t_name t = name) (reset_theater location) (theaters w))
      = update_first (\<lambda>t. t_name t = name)
          (\<lambda>t. push_showtimes S title (reset_theater location t)) (theaters w)" for S title
    using assms(2) Some by (intro update_first_id) (auto simp: fresh_ids_def reset_theater_def)
  show ?thesis
    using Some ex assms(1) nm
    by (simp add: link_theater_def ensureTheater_def Theater_updateOne_def seed_showtimes_run
        io_unfold set_theater_def reset_theater_def [symmetric] push_showtimes_def [symmetric]
        upd)
qed

lemma find_update_first_same:
  "list_ex P xs \<Longrightarrow> (\<And>x. P x \<Longrightarrow> P (f x)) \<Longrightarrow>
   \<exists>x. find P xs = Some x \<and> find P (update_first P f xs) = Some (f x)"
  by (induction xs) auto

lemma find_update_first_other:
  "(\<And>x. Q (f x) = Q x) \<Longrightarrow> (\<And>x. P x \<Longrightarrow> \<not> Q x) \<Longrightarrow>
   find Q (update_first P f xs) = find Q xs"
  by (induction xs) auto

lemma find_append_new: "\<not> Q y \<Longrightarrow> find Q (xs @ [y]) = find Q xs"
  by (induction xs) auto

lemma find_append_hit: "\<not> list_ex Q xs \<Longrightarrow> Q y \<Longrightarrow> find Q (xs @ [y]) = Some y"
  by (induction xs) auto

lemma push_showtimes_simps [simp]:
  "t_id (push_showtimes S title t) = t_id t" "t_name (push_showtimes S title t) = t_name t"
  "t_location (push_showtimes S title t) = t_location t"
  "t_showtimes (push_showtimes S title t) = t_showtimes t @ S"
  "t_movieTitles (push_showtimes S title t) = addToSet title (t_movieTitles t)"
  by (simp_all add: push_showtimes_def)

lemma find_set_theater_same:
  "\<exists>t. find (\<lambda>t. t_name t = name) (set_theater name location S title n ths) = Some t
     \<and> t_name t = name \<and> t_location t = location \<and> t_showtimes t = S
     \<and> t_movieTitles t = [title]"
proof (cases "list_ex (\<lambda>t. t_name t = name) ths")
  case True
  from find_update_first_same [of "\<lambda>t. t_name t = name" ths
      "\<lambda>t. push_showtimes S title (reset_theater location t)", OF True]
  obtain x where "find (\<lambda>t. t_name t = name) ths = Some x"
    "find (\<lambda>t. t_name t = name)
       (update_first (\<lambda>t. t_name t = name)
          (\<lambda>t. push_showtimes S title (reset_theater location t)) ths)
     = Some (push_showtimes S title (reset_theater location x))"
    by auto
  moreover from this(1) have "t_name x = name" by (auto simp: find_Some_iff)
  ultimately show ?thesis using True by (simp add: set_theater_def addToSet_def)
next
  case False
  then show ?thesis
    by (simp add: set_theater_def find_append_hit addToSet_def)
qed

lemma find_set_theater_other:
  assumes "a \<noteq> name"
  shows "find (\<lambda>t. t_name t = a) (set_theater name location S title n ths)
     = find (\<lambda>t. t_name t = a) ths"
proof (cases "list_ex (\<lambda>t. t_name t = name) ths")
  case True
  have "find (\<lambda>t. t_name t = a)
      (update_first (\<lambda>t. t_name t = name)
         (\<lambda>t. push_showtimes S title (reset_theater location t)) ths)
      = find (\<lambda>t. t_name t = a) ths"
    using assms by (intro find_update_first_other) auto
  with True show ?thesis by (simp add: set_theater_def)
next
  case False
  with assms show ?thesis by (simp add: set_theater_def find_append_new)
qed

lemma map_id_update_first:
  "(\<And>x. t_id (f x) = t_id x) \<Longrightarrow> map t_id (update_first P f xs) = map t_id xs"
  by (induction xs) auto

lemma list_all_update_first:
  "list_all Q xs \<Longrightarrow> (\<And>x. Q x \<Longrightarrow> Q (f x)) \<Longrightarrow> list_all Q (update_first P f xs)"
  by (induction xs) auto

lemma fresh_ids_set_theater:
  assumes "fresh_ids ths n"
  shows "fresh_ids (set_theater name location S title n ths)
           (if list_ex (\<lambda>t. t_name t = name) ths then n else n + 1)"
proof (cases "list_ex (\<lambda>t. t_name t = name) ths")
  case True
  let ?T = "update_first (\<lambda>t. t_name t = name)
        (\<lambda>t. push_showtimes S title (reset_theater location t)) ths"
  have m: "map t_id ?T = map t_id ths"
    by (rule map_id_update_first) simp
  from assms have d: "distinct (map t_id ?T)" unfolding m fresh_ids_def by simp
  from assms have "list_all (\<lambda>t. t_id t < n) ths" unfolding fresh_ids_def by simp
  then have l: "list_all (\<lambda>t. t_id t < n) ?T"
    by (rule list_all_update_first) simp
  from True d l show ?thesis by (simp add: fresh_ids_def set_theater_def)
next
  case False
  with assms show ?thesis
    by (auto simp: fresh_ids_def set_theater_def list_all_iff)
qed

lemma embedded_from_names:
  "e \<in> set (embedded_from rt ds k entries d) \<Longrightarrow> e_name e \<in> fst ` set entries"
  by (induction entries arbitrary: d) auto

lemma link_theaters_run:
  assumes "faults w = []" and "fresh_ids (theaters w) (next_id w)" and "distinct (map fst entries)"
  shows "\<exists>linked w'. io_mapM (link_theater rt ds m) entries w = (Inr linked, w')
     \<and> map snd linked = embedded_from rt ds (m_id m) entries (draws w)
     \<and> faults w' = [] \<and> fresh_ids (theaters w') (next_id w')
     \<and> draws w' = draws w + 4 * length entries \<and> movies w' = movies w
     \<and> list_all (holds_entry (theaters w') (m_title m))
          (embedded_from rt ds (m_id m) entries (draws w))
     \<and> (\<forall>a. a \<notin> fst ` set entries \<longrightarrow>
          find (\<lambda>t. t_name t = a) (theaters w') = find (\<lambda>t. t_name t = a) (theaters w))"
  using assms
proof (induction entries arbitrary: w)
  case Nil
  then show ?case by (simp add: io_return_def)
next
  case (Cons entry rest)
  obtain name location where entry: "entry = (name, location)" by (cases entry)
  let ?S = "showtimes_from rt ds (m_id m) (draws w)"
  let ?w1 = "w\<lparr>theaters := set_theater name location ?S (m_title m) (next_id w) (theaters w),
        next_id := (if list_ex (\<lambda>t. t_name t = name) (theaters w) then next_id w
                    else next_id w + 1),
        draws := draws w + 4\<rparr>"
  from link_theater_run [OF Cons.prems(1,2), of rt ds m name location]
  obtain k where step: "link_theater rt ds m entry w =
     (Inr (k, \<lparr>e_name = name, e_location = location, e_showtimes = ?S\<rparr>), ?w1)"
    unfolding entry by blast
  have f1: "faults ?w1 = []" using Cons.prems(1) by simp
  have i1: "fresh_ids (theaters ?w1) (next_id ?w1)"
    using fresh_ids_set_theater [OF Cons.prems(2)] by simp
  have d1: "distinct (map fst rest)" using Cons.prems(3) by simp
  from Cons.IH [OF f1 i1 d1] obtain linked w' where
    run: "io_mapM (link_theater rt ds m) rest ?w1 = (Inr linked, w')"
    and emb: "map snd linked = embedded_from rt ds (m_id m) rest (draws ?w1)"
    and fw: "faults w' = []" and iw: "fresh_ids (theaters w') (next_id w')"
    and dw: "draws w' = draws ?w1 + 4 * length rest" and mw: "movies w' = movies ?w1"
    and hold: "list_all (holds_entry (theaters w') (m_title m))
          (embedded_from rt ds (m_id m) rest (draws ?w1))"
    and other: "\<forall>a. a \<notin> fst ` set rest \<longrightarrow>
          find (\<lambda>t. t_name t = a) (theaters w') = find (\<lambda>t. t_name t = a) (theaters ?w1)"
    by blast
  have nn: "name \<notin> fst ` set rest" using Cons.prems(3) entry by auto
  have h0: "holds_entry (theaters w') (m_title m)
      \<lparr>e_name = name, e_location = location, e_showtimes = ?S\<rparr>"
    using other nn find_set_theater_same [of name location ?S "m_title m" "next_id w" "theaters w"]
    by (auto simp: holds_entry_def)
  have o': "find (\<lambda>t. t_name t = a) (theaters w') = find (\<lambda>t. t_name t = a) (theaters w)"
    if "a \<notin> fst ` set (entry # rest)" for a
  proof -
    from that have "a \<noteq> name" "a \<notin> fst ` set rest" using entry by auto
    with other find_set_theater_other [of a name location ?S "m_title m" "next_id w" "theaters w"]
    show ?thesis by simp
  qed
  have res: "io_mapM (link_theater rt ds m) (entry # rest) w =
      (Inr ((k, \<lparr>e_name = name, e_location = location, e_showtimes = ?S\<rparr>) # linked), w')"
    using step run by (simp add: io_bind_def io_return_def)
  show ?case
    apply (rule exI [of _ "(k, \<lparr>e_name = name, e_location = location, e_showtimes = ?S\<rparr>) # linked"])
    apply (rule exI [of _ w'])
    using res emb fw iw dw mw hold h0 o' entry
    apply simp
    done
qed

lemma theaterList_distinct: "distinct (map fst theaterList)"
  by (simp add: theaterList_def e_acute_def)

lemma theaterList_length: "length theaterList = 11"
  by (simp add: theaterList_def)

lemma apply_updates_embedded:
  "m_embeddedTheaters (apply_updates [SetTheaters refs, SetEmbeddedTheaters E] x) = E
   \<and> m_id (apply_updates [SetTheaters refs, SetEmbeddedTheaters E] x) = m_id x"
  by (simp add: apply_updates_def)

lemma link_movie_run:
  assumes "faults w = []" and "fresh_ids (theaters w) (next_id w)"
  shows "\<exists>refs w'. link_movie rt ds m w = (Inr (), w')
     \<and> faults w' = [] \<and> fresh_ids (theaters w') (next_id w') \<and> draws w' = draws w + 44
     \<and> movies w' = update_first (\<lambda>x. m_id x = m_id m)
          (apply_updates [SetTheaters refs,
             SetEmbeddedTheaters (embedded_from rt ds (m_id m) theaterList (draws w))]) (movies w)
     \<and> list_all (holds_entry (theaters w') (m_title m))
          (embedded_from rt ds (m_id m) theaterList (draws w))"
proof -
  from link_theaters_run [OF assms theaterList_distinct, of rt ds m]
  obtain linked w1 where run: "io_mapM (link_theater rt ds m) theaterList w = (Inr linked, w1)"
    and emb: "map snd linked = embedded_from rt ds (m_id m) theaterList (draws w)"
    and fw: "faults w1 = []" and iw: "fresh_ids (theaters w1) (next_id w1)"
    and dw: "draws w1 = draws w + 4 * length theaterList" and mw: "movies w1 = movies w"
    and hold: "list_all (holds_entry (theaters w1) (m_title m))
          (embedded_from rt ds (m_id m) theaterList (draws w))"
    by blast
  let ?us = "[SetTheaters (map (\<lambda>l. Ref (fst l)) linked),
       SetEmbeddedTheaters (embedded_from rt ds (m_id m) theaterList (draws w))]"
  let ?w' = "w1\<lparr>movies := update_first (\<lambda>x. m_id x = m_id m) (apply_updates ?us) (movies w1)\<rparr>"
  have "link_movie rt ds m w = (Inr (), ?w')"
    using run emb fw
    by (simp add: link_movie_def Movie_updateById_def io_bind_def io_return_def db_def)
  then show ?thesis
    using fw iw dw mw hold
    by (intro exI [of _ "map (\<lambda>l. Ref (fst l)) linked"] exI [of _ ?w'])
       (simp add: theaterList_length)
qed

lemma find_update_first_id:
  "find (\<lambda>x. m_id x = k) (update_first (\<lambda>x. m_id x = j) f mvs) =
     (if k = j then map_option f (find (\<lambda>x. m_id x = k) mvs)
      else find (\<lambda>x. m_id x = k) mvs)"
  if "\<And>x. m_id (f x) = m_id x"
  using that by (induction mvs) auto

lemma embeds_update_same:
  assumes "list_ex (\<lambda>x. m_id x = k) mvs"
  shows "embeds (update_first (\<lambda>x. m_id x = k)
     (apply_updates [SetTheaters refs, SetEmbeddedTheaters E]) mvs) (k, E)"
proof -
  from assms obtain y where "find (\<lambda>x. m_id x = k) mvs = Some y"
    using find_list_ex [of "\<lambda>x. m_id x = k" mvs] by auto
  then show ?thesis
    unfolding embeds_def
    by (subst find_update_first_id) (simp_all add: apply_updates_embedded)
qed

lemma embeds_update_other:
  "k \<noteq> j \<Longrightarrow>
   embeds (update_first (\<lambda>x. m_id x = j)
     (apply_updates [SetTheaters refs, SetEmbeddedTheaters E]) mvs) (k, E')
   = embeds mvs (k, E')"
  unfolding embeds_def
  by (subst find_update_first_id) (auto simp: apply_updates_embedded)

lemma list_ex_update_first_id:
  "list_ex (\<lambda>x. m_id x = k) (update_first (\<lambda>x. m_id x = j)
     (apply_updates [SetTheaters refs, SetEmbeddedTheaters E]) mvs)
   = list_ex (\<lambda>x. m_id x = k) mvs"
  by (induction mvs) (auto simp: apply_updates_embedded)

lemma seeded_entries_ids:
  "ke \<in> set (seeded_entries rt ds ms d) \<Longrightarrow> fst ke \<in> m_id ` set ms"
  by (induction ms arbitrary: d) auto

lemma seed_loop_run:
  assumes "faults w = []" and "fresh_ids (theaters w) (next_id w)"
    and "distinct (map m_id ms)"
    and "list_all (\<lambda>m. list_ex (\<lambda>x. m_id x = m_id m) (movies w)) ms"
  shows "\<exists>us w'. io_mapM (link_movie rt ds) ms w = (Inr us, w')
     \<and> faults w' = [] \<and> fresh_ids (theaters w') (next_id w')
     \<and> draws w' = draws w + 44 * length ms
     \<and> list_all (embeds (movies w')) (seeded_entries rt ds ms (draws w))
     \<and> (\<forall>ke. fst ke \<notin> m_id ` set ms \<longrightarrow> embeds (movies w') ke = embeds (movies w) ke)
     \<and> (ms \<noteq> [] \<longrightarrow>
          list_all (holds_entry (theaters w') (m_title (last ms)))
            (embedded_from rt ds (m_id (last ms)) theaterList (draws w + 44 * (length ms - 1))))"
  using assms
proof (induction ms arbitrary: w)
  case Nil
  then show ?case by (simp add: io_return_def)
next
  case (Cons m rest)
  let ?E = "embedded_from rt ds (m_id m) theaterList (draws w)"
  from link_movie_run [OF Cons.prems(1,2), of rt ds m]
  obtain refs w1 where step: "link_movie rt ds m w = (Inr (), w1)"
    and f1: "faults w1 = []" and i1: "fresh_ids (theaters w1) (next_id w1)"
    and d1: "draws w1 = draws w + 44"
    and m1: "movies w1 = update_first (\<lambda>x. m_id x = m_id m)
          (apply_updates [SetTheaters refs, SetEmbeddedTheaters ?E]) (movies w)"
    and h1: "list_all (holds_entry (theaters w1) (m_title m)) ?E"
    by blast
  have dr: "distinct (map m_id rest)" and nm: "m_id m \<notin> m_id ` set rest"
    using Cons.prems(3) by auto
  have ex: "list_all (\<lambda>m. list_ex (\<lambda>x. m_id x = m_id m) (movies w1)) rest"
    using Cons.prems(4) unfolding m1 by (simp add: list_ex_update_first_id)
  from Cons.IH [OF f1 i1 dr ex] obtain us w' where
    run: "io_mapM (link_movie rt ds) rest w1 = (Inr us, w')"
    and fw: "faults w' = []" and iw: "fresh_ids (theaters w') (next_id w')"
    and dw: "draws w' = draws w1 + 44 * length rest"
    and em: "list_all (embeds (movies w')) (seeded_entries rt ds rest (draws w1))"
    and ot: "\<forall>ke. fst ke \<notin> m_id ` set rest \<longrightarrow> embeds (movies w') ke = embeds (movies w1) ke"
    and ho: "rest \<noteq> [] \<longrightarrow>
          list_all (holds_entry (theaters w') (m_title (last rest)))
            (embedded_from rt ds (m_id (last rest)) theaterList (draws w1 + 44 * (length rest - 1)))"
    by blast
  have res: "io_mapM (link_movie rt ds) (m # rest) w = (Inr (() # us), w')"
    using step run by (simp add: io_bind_def io_return_def)
  have e0: "embeds (movies w') (m_id m, ?E)"
  proof -
    have "list_ex (\<lambda>x. m_id x = m_id m) (movies w)" using Cons.prems(4) by simp
    then have "embeds (movies w1) (m_id m, ?E)" unfolding m1 by (rule embeds_update_same)
    with ot nm show ?thesis by simp
  qed
  have o': "embeds (movies w') ke = embeds (movies w) ke" if "fst ke \<notin> m_id ` set (m # rest)" for ke
  proof -
    from that have a: "fst ke \<noteq> m_id m" "fst ke \<notin> m_id ` set rest" by auto
    have "embeds (movies w1) (fst ke, snd ke) = embeds (movies w) (fst ke, snd ke)"
      unfolding m1 using a(1) by (rule embeds_update_other)
    moreover from ot a(2) have "embeds (movies w') ke = embeds (movies w1) ke" by blast
    ultimately show ?thesis by simp
  qed
  have h': "list_all (holds_entry (theaters w') (m_title (last (m # rest))))
            (embedded_from rt ds (m_id (last (m # rest))) theaterList
               (draws w + 44 * (length (m # rest) - 1)))"
  proof (cases "rest = []")
    case True
    with run have "w' = w1" by (simp add: io_return_def)
    with True h1 show ?thesis by simp
  next
    case False
    then have "draws w1 + 44 * (length rest - 1) = draws w + 44 * (length (m # rest) - 1)"
      using d1 by (cases rest) simp_all
    with False ho show ?thesis by simp
  qed
  show ?case
    apply (rule exI [of _ "() # us"], rule exI [of _ w'])
    using res fw iw dw d1 em e0 o' h'
    apply simp
    done
qed

lemma showtimes_from_shape:
  "map startTime (showtimes_from rt ds k d) =
     [Parsed (ds @ ''T10:00:00''), Parsed (ds @ ''T13:30:00''), Parsed (ds @ ''T17:00:00''),
      Parsed (ds @ ''T21:30:00'')]
   \<and> map screen (showtimes_from rt ds k d) = replicate 4 ''Screen 1''
   \<and> map availableSeats (showtimes_from rt ds k d) = replicate 4 100
   \<and> map st_movie (showtimes_from rt ds k d) = replicate 4 (Some k)
   \<and> length (showtimes_from rt ds k d) = 4"
  by (simp add: showtimes_from_def times_def eval_nat_numeral)

lemma embedded_from_shape:
  "map e_name (embedded_from rt ds k entries d) = map fst entries
   \<and> map e_location (embedded_from rt ds k entries d) = map snd entries
   \<and> list_all (\<lambda>e.
         map startTime (e_showtimes e) =
           [Parsed (ds @ ''T10:00:00''), Parsed (ds @ ''T13:30:00''),
            Parsed (ds @ ''T17:00:00''), Parsed (ds @ ''T21:30:00'')]
         \<and> map screen (e_showtimes e) = replicate 4 ''Screen 1''
         \<and> map availableSeats (e_showtimes e) = replicate 4 100
         \<and> map st_movie (e_showtimes e) = replicate 4 (Some k))
       (embedded_from rt ds k entries d)"
proof (induction entries arbitrary: d)
  case Nil
  show ?case by simp
next
  case (Cons e rest)
  from Cons [of "d + 4"] showtimes_from_shape [of rt ds k d] show ?case by simp
qed

text \<open>
  What the linking does when the database does not fail, for movies with distinct ids
  that are in the collection: every movie gets its eleven embedded entries, each with the
  four showtimes made for it; and every theater of the list ends with the showtimes and
  the title of the last movie alone.
\<close>

lemma seedMovies_link_run:
  assumes "faults w = []" and "fresh_ids (theaters w) (next_id w)"
    and "distinct (map m_id ms)"
    and "list_all (\<lambda>m. list_ex (\<lambda>x. m_id x = m_id m) (movies w)) ms"
  shows "fst (seedMovies_link rt ms w) = Inr ()
     \<and> list_all (embeds (movies (snd (seedMovies_link rt ms w))))
          (seeded_entries rt (isoDate (now rt)) ms (draws w))
     \<and> (ms \<noteq> [] \<longrightarrow>
          list_all (holds_entry (theaters (snd (seedMovies_link rt ms w))) (m_title (last ms)))
            (embedded_from rt (isoDate (now rt)) (m_id (last ms)) theaterList
               (draws w + 44 * (length ms - 1))))"
proof -
  from seed_loop_run [OF assms, of rt "isoDate (now rt)"] obtain us w' where
    "io_mapM (link_movie rt (isoDate (now rt))) ms w = (Inr us, w')"
    "list_all (embeds (movies w')) (seeded_entries rt (isoDate (now rt)) ms (draws w))"
    "ms \<noteq> [] \<longrightarrow>
          list_all (holds_entry (theaters w') (m_title (last ms)))
            (embedded_from rt (isoDate (now rt)) (m_id (last ms)) theaterList
               (draws w + 44 * (length ms - 1)))"
    by blast
  then show ?thesis
    by (simp add: seedMovies_link_def Let_def io_bind_def io_return_def)
qed

lemma holds_entry_title:
  "list_all (holds_entry ths title2) (embedded_from rt ds k2 entries d2) \<Longrightarrow> title1 \<noteq> title2 \<Longrightarrow>
   list_all (\<lambda>e. \<not> holds_entry ths title1 e) (embedded_from rt ds k1 entries d1)"
proof (induction entries arbitrary: d1 d2)
  case Nil
  show ?case by simp
next
  case (Cons e rest)
  from Cons.prems(1) have
    hd: "holds_entry ths title2
      \<lparr>e_name = fst e, e_location = snd e, e_showtimes = showtimes_from rt ds k2 d2\<rparr>"
    and tl: "list_all (holds_entry ths title2) (embedded_from rt ds k2 rest (d2 + 4))"
    by simp_all
  from hd Cons.prems(2) have "\<not> holds_entry ths title1
      \<lparr>e_name = fst e, e_location = snd e, e_showtimes = showtimes_from rt ds k1 d1\<rparr>"
    by (auto simp: holds_entry_def split: option.splits)
  with Cons.IH [OF tl Cons.prems(2), of "d1 + 4"] show ?case by simp
qed

text \<open>
  C6 at a failing input: two movies are linked, Oppenheimer and then Barbie, on
  2025-09-25. Both get their eleven embedded entries. But \<open>ensureTheater\<close>, called in
  each iteration, empties the theater's \<open>showtimes\<close> and \<open>movieTitles\<close> before the four
  showtimes are pushed: after the run every theater of the list holds the four showtimes
  and the title of Barbie only, and none holds the showtimes that Oppenheimer's
  embedded entries list.
\<close>

theorem seedMovies_link_keeps_last_movie:
  "fst (seedMovies_link rt0 two_movies sample_db) = Inr ()
   \<and> isoDate (now rt0) = ''2025-09-25''
   \<and> list_all (embeds (movies seeded_db))
        [(1, embedded_from rt0 ''2025-09-25'' 1 theaterList 0),
         (2, embedded_from rt0 ''2025-09-25'' 2 theaterList 44)]
   \<and> list_all (holds_entry (theaters seeded_db) ''Barbie'')
        (embedded_from rt0 ''2025-09-25'' 2 theaterList 44)
   \<and> list_all (\<lambda>e. \<not> holds_entry (theaters seeded_db) ''Oppenheimer'' e)
        (embedded_from rt0 ''2025-09-25'' 1 theaterList 0)
   \<and> map_option (\<lambda>t. (t_movieTitles t, map st_movie (t_showtimes t)))
        (find (\<lambda>t. t_name t = ''PVR Phoenix Kurla'') (theaters seeded_db))
       = Some ([''Barbie''], [Some 2, Some 2, Some 2, Some 2])"
proof -
  have d: "isoDate (now rt0) = ''2025-09-25''"
    unfolding rt0_def by simp code_simp
  have a: "faults sample_db = []" "fresh_ids (theaters sample_db) (next_id sample_db)"
    "distinct (map m_id two_movies)"
    "list_all (\<lambda>m. list_ex (\<lambda>x. m_id x = m_id m) (movies sample_db)) two_movies"
    by (simp_all add: sample_db_def fresh_ids_def two_movies_def mv_def)
  have l: "last two_movies = mv 2 ''Barbie'' 1758762000000" "two_movies \<noteq> []"
    "length two_movies = 2" "draws sample_db = 0"
    by (simp_all add: two_movies_def sample_db_def)
  note R = seedMovies_link_run [OF a, of rt0, folded seeded_db_def, unfolded d l]
  from R have r1: "fst (seedMovies_link rt0 two_movies sample_db) = Inr ()" by blast
  from R have r2: "list_all (embeds (movies seeded_db))
        [(1, embedded_from rt0 ''2025-09-25'' 1 theaterList 0),
         (2, embedded_from rt0 ''2025-09-25'' 2 theaterList 44)]"
    by (simp add: two_movies_def mv_def)
  from R l(2) have r3: "list_all (holds_entry (theaters seeded_db) ''Barbie'')
        (embedded_from rt0 ''2025-09-25'' 2 theaterList 44)"
    by (simp add: mv_def)
  have r4: "list_all (\<lambda>e. \<not> holds_entry (theaters seeded_db) ''Oppenheimer'' e)
        (embedded_from rt0 ''2025-09-25'' 1 theaterList 0)"
    using r3 by (rule holds_entry_title) simp
  have "holds_entry (theaters seeded_db) ''Barbie''
      (hd (embedded_from rt0 ''2025-09-25'' 2 theaterList 44))"
    using r3 by (simp add: theaterList_def)
  then have r5: "map_option (\<lambda>t. (t_movieTitles t, map st_movie (t_showtimes t)))
        (find (\<lambda>t. t_name t = ''PVR Phoenix Kurla'') (theaters seeded_db))
       = Some ([''Barbie''], [Some 2, Some 2, Some 2, Some 2])"
    using showtimes_from_shape [of rt0 "''2025-09-25''" 2 44]
    by (auto simp: theaterList_def holds_entry_def eval_nat_numeral split: option.splits)
  from r1 d r2 r3 r4 r5 show ?thesis by blast
qed

subsection \<open>Handlers and exceptions\<close>

lemma try_catch_answers:
  "answers_exceptions b on_error (try_catch b (\<lambda>err. io_return (on_error err))) s"
  by (simp add: answers_exceptions_def try_catch_def io_return_def split: prod.splits sum.splits)

lemma try_catch_500:
  "answers_exceptions b (error_500 msg) (try_catch b (\<lambda>err. respond 500 (Error msg))) s"
  using try_catch_answers [of b "error_500 msg" s] by (simp add: respond_def error_500_def)

lemma answers_exceptions_never_throws:
  "answers_exceptions b on_error h s \<Longrightarrow> \<exists>r. fst (h s) = Inr r"
  by (auto simp: answers_exceptions_def split: prod.splits sum.splits)

lemma createMovie_answers:
  "answers_exceptions (createMovie_body doc)
     (\<lambda>e. case e of Exn msg \<Rightarrow> \<lparr>status = 400, body = ErrorDetails ''Failed to create movie'' msg\<rparr>)
     (createMovie doc) w"
  by (simp add: answers_exceptions_def createMovie_def try_catch_def respond_def io_return_def
      split: prod.splits sum.splits exn.splits)

lemma admin_createMovie_answers:
  "answers_exceptions (admin_createMovie_body rt b)
     (\<lambda>e. case e of Exn msg \<Rightarrow>
        \<lparr>status = 500,
         body = Error (if msg = [] then ''Server error while creating movie'' else msg)\<rparr>)
     (admin_createMovie rt b) w"
  by (simp add: answers_exceptions_def admin_createMovie_def try_catch_def respond_def
      io_return_def split: prod.splits sum.splits exn.splits)

lemma getMovieById_invalid:
  "\<not> isValid rt ident \<Longrightarrow>
   getMovieById rt ident w = (Inr \<lparr>status = 400, body = Error ''Invalid movie ID''\<rparr>, w)"
  by (simp add: getMovieById_def respond_def io_return_def)

lemma findById_none:
  assumes "castObjectId rt ident = Some k" and "\<not> list_ex (\<lambda>m. m_id m = k) (movies w)"
    and "next_call_ok w"
  shows "fst (Movie_findById rt ident w) = Inr None"
proof -
  from assms(2) have "find (\<lambda>m. m_id m = k) (movies w) = None"
    by (induction "movies w") (auto simp: find_None_iff list_ex_iff)
  with assms(1,3) show ?thesis
    by (auto simp: Movie_findById_def cast_id_def io_unfold next_call_ok_def
        split: list.splits option.splits)
qed


lemma find_absent:
  "\<not> list_ex P xs \<Longrightarrow> find P xs = None"
  by (simp add: find_None_iff list_ex_iff)

lemma getMovieById_404:
  assumes "isValid rt ident" "castObjectId rt ident = Some k"
    "\<not> list_ex (\<lambda>m. m_id m = k) (movies w)" "next_call_ok w"
  shows "fst (getMovieById rt ident w) = Inr \<lparr>status = 404, body = Error ''Movie not found''\<rparr>"
  using assms findById_none [OF assms(2,3,4)]
  by (cases "Movie_findById rt ident w")
     (simp add: getMovieById_def getMovieById_body_def try_catch_def io_bind_def respond_def
       io_return_def)

lemma admin_getMovieById_404:
  assumes "castObjectId rt ident = Some k"
    "\<not> list_ex (\<lambda>m. m_id m = k) (movies w)" "next_call_ok w"
  shows "fst (admin_getMovieById rt ident w) =
    Inr \<lparr>status = 404, body = Error ''Movie not found''\<rparr>"
  using findById_none [OF assms]
  by (cases "Movie_findById rt ident w")
     (simp add: admin_getMovieById_def admin_getMovieById_body_def try_catch_def io_bind_def
       respond_def io_return_def)

lemma updateMovie_404:
  assumes "castObjectId rt ident = Some k"
    "\<not> list_ex (\<lambda>m. m_id m = k) (movies w)" "next_call_ok w" "updates \<noteq> []"
  shows "fst (updateMovie rt ident updates w) =
    Inr \<lparr>status = 404, body = Error ''Movie not found''\<rparr>"
proof -
  have "fst (Movie_findByIdAndUpdate rt ident updates w) = Inr None"
    using assms(1,3) find_absent [OF assms(2)]
    by (auto simp: Movie_findByIdAndUpdate_def Movie_updateById_def cast_id_def io_unfold
        next_call_ok_def split: list.splits option.splits)
  then show ?thesis using assms(4)
    by (cases "Movie_findByIdAndUpdate rt ident updates w")
       (simp add: updateMovie_def updateMovie_body_def try_catch_def io_bind_def respond_def
         io_return_def)
qed

lemma deleteMovie_404:
  assumes "castObjectId rt ident = Some k"
    "\<not> list_ex (\<lambda>m. m_id m = k) (movies w)" "next_call_ok w" "ident \<noteq> []"
  shows "fst (deleteMovie rt (Some ident) w) =
    Inr \<lparr>status = 404, body = Error ''Movie not found''\<rparr>"
proof -
  have "fst (Movie_findByIdAndDelete rt ident w) = Inr None"
    using assms(1,3) find_absent [OF assms(2)]
    by (auto simp: Movie_findByIdAndDelete_def cast_id_def io_unfold
        next_call_ok_def split: list.splits option.splits)
  then show ?thesis using assms(4)
    by (cases "Movie_findByIdAndDelete rt ident w")
       (simp add: deleteMovie_def deleteMovie_body_def try_catch_def io_bind_def respond_def
         io_return_def)
qed

lemma pingAdmin_throws:
  "pingAdmin None w = (Inl (Exn ''Cannot read properties of undefined (reading 'role')''), w)"
  by (simp add: pingAdmin_def user_role_def io_bind_def io_throw_def)

text \<open>
  C7, as the code has it. Every handler of the movie and TMDB controllers that has a
  \<open>try\<close> (all but \<open>pingAdmin\<close>) does what its body does and answers an exception of the
  body with an error object: with status 500, except that the public \<open>createMovie\<close>
  answers every exception, a rejected document and a lost connection alike, with status
  400 and the message as details. The public \<open>getMovieById\<close> answers 400 to an invalid id
  and leaves the state as it is, so no call reaches the database. Where the id casts to
  an id that no movie has and the call to the database does not fail, \<open>getMovieById\<close>
  (public and admin), \<open>updateMovie\<close> and \<open>deleteMovie\<close> answer 404.
\<close>

theorem handlers_answer_exceptions:
  "answers_exceptions (getMovies_body rt q)
      (error_500 ''Server error while fetching movies'') (getMovies rt q) w
   \<and> (isValid rt ident \<longrightarrow>
        answers_exceptions (getMovieById_body rt ident)
          (error_500 ''Server error while fetching movie'') (getMovieById rt ident) w)
   \<and> answers_exceptions getAllGenres_body
        (error_500 ''Server error while fetching genres'') getAllGenres w
   \<and> answers_exceptions (createMovie_body doc)
        (\<lambda>e. case e of Exn msg \<Rightarrow>
           \<lparr>status = 400, body = ErrorDetails ''Failed to create movie'' msg\<rparr>)
        (createMovie doc) w
   \<and> answers_exceptions (admin_createMovie_body rt cb)
        (\<lambda>e. case e of Exn msg \<Rightarrow>
           \<lparr>status = 500,
            body = Error (if msg = [] then ''Server error while creating movie'' else msg)\<rparr>)
        (admin_createMovie rt cb) w
   \<and> answers_exceptions (updateMovie_body rt ident updates)
        (error_500 ''Server error while updating movie'') (updateMovie rt ident updates) w
   \<and> answers_exceptions (deleteMovie_body rt movieId)
        (error_500 ''Server error while deleting movie'') (deleteMovie rt movieId) w
   \<and> answers_exceptions (bulkCreateMovies_body docs)
        (error_500 ''Server error during bulk movie creation'') (bulkCreateMovies docs) w
   \<and> answers_exceptions (getAllBookings_body rt u userId bookedId pageQ limitQ)
        (error_500 ''Server error while fetching bookings'')
        (getAllBookings rt u userId bookedId pageQ limitQ) w
   \<and> answers_exceptions (getAllUsers_body rt u pageQ limitQ)
        (error_500 ''Server error while fetching users'') (getAllUsers rt u pageQ limitQ) w
   \<and> answers_exceptions (getAdminStats_body u)
        (error_500 ''Server error while fetching stats'') (getAdminStats u) w
   \<and> answers_exceptions (admin_getMovieById_body rt ident)
        (error_500 ''Server error while fetching movie'') (admin_getMovieById rt ident) w
   \<and> answers_exceptions (getAllMovies_body rt isUpcoming)
        (error_500 ''Server error while fetching movies'') (getAllMovies rt isUpcoming) w
   \<and> answers_exceptions (searchTmdbMovie_body rawQuery apiKey)
        (error_500 ''Failed to fetch from TMDB'') (searchTmdbMovie rawQuery apiKey) n
   \<and> answers_exceptions (getTmdbMovieDetails_body tmdbId apiKey)
        (error_500 ''Failed to fetch movie details'') (getTmdbMovieDetails tmdbId apiKey) nd
   \<and> (\<not> isValid rt ident \<longrightarrow>
        getMovieById rt ident w =
          (Inr \<lparr>status = 400, body = Error ''Invalid movie ID''\<rparr>, w))
   \<and> (castObjectId rt ident = Some k \<and> \<not> list_ex (\<lambda>m. m_id m = k) (movies w)
        \<and> next_call_ok w \<longrightarrow>
        (isValid rt ident \<longrightarrow>
           fst (getMovieById rt ident w) =
             Inr \<lparr>status = 404, body = Error ''Movie not found''\<rparr>)
        \<and> fst (admin_getMovieById rt ident w) =
             Inr \<lparr>status = 404, body = Error ''Movie not found''\<rparr>
        \<and> (updates \<noteq> [] \<longrightarrow>
             fst (updateMovie rt ident updates w) =
               Inr \<lparr>status = 404, body = Error ''Movie not found''\<rparr>)
        \<and> (ident \<noteq> [] \<longrightarrow>
             fst (deleteMovie rt (Some ident) w) =
               Inr \<lparr>status = 404, body = Error ''Movie not found''\<rparr>))"
proof (intro conjI impI)
  show "answers_exceptions (getMovies_body rt q)
      (error_500 ''Server error while fetching movies'') (getMovies rt q) w"
    unfolding getMovies_def by (rule try_catch_500)
  show "answers_exceptions (getMovieById_body rt ident)
          (error_500 ''Server error while fetching movie'') (getMovieById rt ident) w"
    if "isValid rt ident"
    using that try_catch_500 [of "getMovieById_body rt ident"] by (simp add: getMovieById_def)
  show "answers_exceptions getAllGenres_body
        (error_500 ''Server error while fetching genres'') getAllGenres w"
    unfolding getAllGenres_def by (rule try_catch_500)
  show "answers_exceptions (createMovie_body doc)
        (\<lambda>e. case e of Exn msg \<Rightarrow>
           \<lparr>status = 400, body = ErrorDetails ''Failed to create movie'' msg\<rparr>)
        (createMovie doc) w"
    by (rule createMovie_answers)
  show "answers_exceptions (admin_createMovie_body rt cb)
        (\<lambda>e. case e of Exn msg \<Rightarrow>
           \<lparr>status = 500,
            body = Error (if msg = [] then ''Server error while creating movie'' else msg)\<rparr>)
        (admin_createMovie rt cb) w"
    by (rule admin_createMovie_answers)
  show "answers_exceptions (updateMovie_body rt ident updates)
        (error_500 ''Server error while updating movie'') (updateMovie rt ident updates) w"
    unfolding updateMovie_def by (rule try_catch_500)
  show "answers_exceptions (deleteMovie_body rt movieId)
        (error_500 ''Server error while deleting movie'') (deleteMovie rt movieId) w"
    unfolding deleteMovie_def by (rule try_catch_500)
  show "answers_exceptions (bulkCreateMovies_body docs)
        (error_500 ''Server error during bulk movie creation'') (bulkCreateMovies docs) w"
    unfolding bulkCreateMovies_def by (rule try_catch_500)
  show "answers_exceptions (getAllBookings_body rt u userId bookedId pageQ limitQ)
        (error_500 ''Server error while fetching bookings'')
        (getAllBookings rt u userId bookedId pageQ limitQ) w"
    unfolding getAllBookings_def by (rule try_catch_500)
  show "answers_exceptions (getAllUsers_body rt u pageQ limitQ)
        (error_500 ''Server error while fetching users'') (getAllUsers rt u pageQ limitQ) w"
    unfolding getAllUsers_def by (rule try_catch_500)
  show "answers_exceptions (getAdminStats_body u)
        (error_500 ''Server error while fetching stats'') (getAdminStats u) w"
    unfolding getAdminStats_def by (rule try_catch_500)
  show "answers_exceptions (admin_getMovieById_body rt ident)
        (error_500 ''Server error while fetching movie'') (admin_getMovieById rt ident) w"
    unfolding admin_getMovieById_def by (rule try_catch_500)
  show "answers_exceptions (getAllMovies_body rt isUpcoming)
        (error_500 ''Server error while fetching movies'') (getAllMovies rt isUpcoming) w"
    unfolding getAllMovies_def by (rule try_catch_500)
  show "answers_exceptions (searchTmdbMovie_body rawQuery apiKey)
        (error_500 ''Failed to fetch from TMDB'') (searchTmdbMovie rawQuery apiKey) n"
    unfolding searchTmdbMovie_def by (rule try_catch_500)
  show "answers_exceptions (getTmdbMovieDetails_body tmdbId apiKey)
        (error_500 ''Failed to fetch movie details'') (getTmdbMovieDetails tmdbId apiKey) nd"
    unfolding getTmdbMovieDetails_def by (rule try_catch_500)
  show "getMovieById rt ident w =
          (Inr \<lparr>status = 400, body = Error ''Invalid movie ID''\<rparr>, w)"
    if "\<not> isValid rt ident"
    using that by (rule getMovieById_invalid)
next
  assume a: "castObjectId rt ident = Some k \<and> \<not> list_ex (\<lambda>m. m_id m = k) (movies w)
        \<and> next_call_ok w"
  then have c: "castObjectId rt ident = Some k" and ab: "\<not> list_ex (\<lambda>m. m_id m = k) (movies w)"
    and ok: "next_call_ok w"
    by simp_all
  show "fst (getMovieById rt ident w) = Inr \<lparr>status = 404, body = Error ''Movie not found''\<rparr>"
    if "isValid rt ident"
    using that c ab ok by (rule getMovieById_404)
  show "fst (admin_getMovieById rt ident w) =
    Inr \<lparr>status = 404, body = Error ''Movie not found''\<rparr>"
    using c ab ok by (rule admin_getMovieById_404)
  show "fst (updateMovie rt ident updates w) =
    Inr \<lparr>status = 404, body = Error ''Movie not found''\<rparr>"
    if "updates \<noteq> []"
    using c ab ok that by (rule updateMovie_404)
  show "fst (deleteMovie rt (Some ident) w) =
    Inr \<lparr>status = 404, body = Error ''Movie not found''\<rparr>"
    if "ident \<noteq> []"
    using c ab ok that by (rule deleteMovie_404)
qed

lemma sample_ids:
  "isValid rt0 id_b" "\<not> isValid rt0 ''abc''" "castObjectId rt0 id_b = Some 2"
  "castObjectId rt0 ''abc'' = None" "id_b \<noteq> []"
  by (simp_all add: rt0_def id_a_def id_b_def id_c_def)

lemma linked_db_facts:
  "\<not> list_ex (\<lambda>m. m_id m = 2) (movies linked_db)" "next_call_ok linked_db"
  by (simp_all add: linked_db_def mv_def next_call_ok_def)

lemma getAllGenres_fault:
  "getAllGenres_body faulty_db = (Inl (Exn ''connection lost''), sample_db)"
  by (simp add: getAllGenres_body_def Movie_distinct_genre_def io_bind_def db_def faulty_db_def
      sample_db_def)

text \<open>
  The theorem at the samples: a lost connection in \<open>getAllGenres\<close>, the id \<open>abc\<close>, and the
  id of a movie that \<open>linked_db\<close> does not hold.
\<close>

theorem handlers_answer_exceptions_witness:
  "(getAllGenres_body faulty_db = (Inl (Exn ''connection lost''), sample_db)
    \<and> getAllGenres faulty_db =
        (Inr \<lparr>status = 500, body = Error ''Server error while fetching genres''\<rparr>, sample_db))
   \<and> (\<not> isValid rt0 ''abc''
      \<and> getMovieById rt0 ''abc'' faulty_db =
          (Inr \<lparr>status = 400, body = Error ''Invalid movie ID''\<rparr>, faulty_db))
   \<and> (isValid rt0 id_b \<and> castObjectId rt0 id_b = Some 2
      \<and> \<not> list_ex (\<lambda>m. m_id m = 2) (movies linked_db) \<and> next_call_ok linked_db
      \<and> fst (getMovieById rt0 id_b linked_db) =
          Inr \<lparr>status = 404, body = Error ''Movie not found''\<rparr>
      \<and> fst (admin_getMovieById rt0 id_b linked_db) =
          Inr \<lparr>status = 404, body = Error ''Movie not found''\<rparr>
      \<and> fst (updateMovie rt0 id_b [SetTitle ''Dune''] linked_db) =
          Inr \<lparr>status = 404, body = Error ''Movie not found''\<rparr>
      \<and> fst (deleteMovie rt0 (Some id_b) linked_db) =
          Inr \<lparr>status = 404, body = Error ''Movie not found''\<rparr>)"
proof (intro conjI)
  note T1 = handlers_answer_exceptions [where rt = rt0 and ident = "''abc''" and w = faulty_db]
  note T2 = handlers_answer_exceptions [where rt = rt0 and ident = id_b and w = linked_db
      and k = 2 and updates = "[SetTitle ''Dune'']"]
  show "getAllGenres_body faulty_db = (Inl (Exn ''connection lost''), sample_db)"
    by (rule getAllGenres_fault)
  have "answers_exceptions getAllGenres_body
        (error_500 ''Server error while fetching genres'') getAllGenres faulty_db"
    using T1 by blast
  then show "getAllGenres faulty_db =
        (Inr \<lparr>status = 500, body = Error ''Server error while fetching genres''\<rparr>, sample_db)"
    by (simp add: answers_exceptions_def getAllGenres_fault error_500_def)
  show "\<not> isValid rt0 ''abc''" by (rule sample_ids)
  then show "getMovieById rt0 ''abc'' faulty_db =
          (Inr \<lparr>status = 400, body = Error ''Invalid movie ID''\<rparr>, faulty_db)"
    using T1 by blast
  show v: "isValid rt0 id_b" by (rule sample_ids)
  show c: "castObjectId rt0 id_b = Some 2" by (rule sample_ids)
  show ab: "\<not> list_ex (\<lambda>m. m_id m = 2) (movies linked_db)" by (rule linked_db_facts)
  show ok: "next_call_ok linked_db" by (rule linked_db_facts)
  have ne: "id_b \<noteq> []" "[SetTitle ''Dune''] \<noteq> []" by (simp_all add: sample_ids)
  show "fst (getMovieById rt0 id_b linked_db) =
          Inr \<lparr>status = 404, body = Error ''Movie not found''\<rparr>"
    using T2 v c ab ok by blast
  show "fst (admin_getMovieById rt0 id_b linked_db) =
          Inr \<lparr>status = 404, body = Error ''Movie not found''\<rparr>"
    using T2 v c ab ok by blast
  show "fst (updateMovie rt0 id_b [SetTitle ''Dune''] linked_db) =
          Inr \<lparr>status = 404, body = Error ''Movie not found''\<rparr>"
    using T2 v c ab ok ne by blast
  show "fst (deleteMovie rt0 (Some id_b) linked_db) =
          Inr \<lparr>status = 404, body = Error ''Movie not found''\<rparr>"
    using T2 v c ab ok ne by blast
qed

text \<open>
  C7 as it is worded does not hold. A lost connection in the public \<open>createMovie\<close> is
  answered with 400, not 500; the admin \<open>getMovieById\<close> answers 500 to an invalid id; and
  \<open>pingAdmin\<close>, which has no \<open>try\<close>, throws when the request carries no user.
\<close>

theorem createMovie_fault_counterexample:
  "createMovie_body dune faulty_db = (Inl (Exn ''connection lost''), sample_db)
   \<and> createMovie dune faulty_db =
       (Inr \<lparr>status = 400,
             body = ErrorDetails ''Failed to create movie'' ''connection lost''\<rparr>, sample_db)
   \<and> \<not> isValid rt0 ''abc''
   \<and> fst (admin_getMovieById rt0 ''abc'' sample_db) =
       Inr \<lparr>status = 500, body = Error ''Server error while fetching movie''\<rparr>
   \<and> fst (pingAdmin None sample_db) =
       Inl (Exn ''Cannot read properties of undefined (reading 'role')'')"
proof (intro conjI)
  show b: "createMovie_body dune faulty_db = (Inl (Exn ''connection lost''), sample_db)"
    by (simp add: createMovie_body_def Movie_save_def io_bind_def db_def faulty_db_def
        sample_db_def)
  show "createMovie dune faulty_db =
       (Inr \<lparr>status = 400,
             body = ErrorDetails ''Failed to create movie'' ''connection lost''\<rparr>, sample_db)"
    by (simp add: createMovie_def try_catch_def b respond_def io_return_def)
  show "\<not> isValid rt0 ''abc''" by (rule sample_ids)
  show "fst (admin_getMovieById rt0 ''abc'' sample_db) =
       Inr \<lparr>status = 500, body = Error ''Server error while fetching movie''\<rparr>"
    by (simp add: admin_getMovieById_def admin_getMovieById_body_def Movie_findById_def
        cast_id_def sample_ids io_unfold)
  show "fst (pingAdmin None sample_db) =
       Inl (Exn ''Cannot read properties of undefined (reading 'role')'')"
    by (simp add: pingAdmin_throws)
qed

end
